theory Spec2Isabelle
  imports Main "HOL-Library.Multiset"
begin

section \<open>Scaled grouped matrix multiplication: configuration pruning\<close>

text \<open>
  A shallow embedding of \<^verbatim>\<open>torch/_inductor/kernel/mm_scaled_grouped.py\<close>.
  Python integers are \<^typ>\<open>int\<close>, \<^verbatim>\<open>//\<close> is \<^term>\<open>(div)\<close> on \<^typ>\<open>int\<close>
  (both round towards minus infinity), and every exception the source can raise is a
  value of \<open>error\<close> returned on the left of a sum.
\<close>

datatype error =
    KeyError
  | ZeroDivisionError
  | TypeError
  | IndexError
  | ValueError
  | AttributeError
  | AssertionError string

subsection \<open>Configurations\<close>

text \<open>
  The dataclass \<^verbatim>\<open>Config\<close> has exactly three fields. The block sizes, and the entry
  \<^verbatim>\<open>NUM_CONSUMER_GROUPS\<close>, are keys of the dictionary \<^verbatim>\<open>kwargs\<close>, not fields.
\<close>

record Config =
  kwargs :: "string \<rightharpoonup> int"
  num_stages :: int
  num_warps :: int

definition NV_CONFIGS :: "Config list" where
  "NV_CONFIGS =
     [\<lparr>kwargs = Map.empty(''BLOCK_M'' \<mapsto> block_size_m, ''BLOCK_N'' \<mapsto> block_size_n,
                            ''BLOCK_K'' \<mapsto> block_size_k, ''NUM_CONSUMER_GROUPS'' \<mapsto> 1),
       num_stages = stages, num_warps = warps\<rparr>.
      block_size_m \<leftarrow> [64, 128],
      block_size_n \<leftarrow> [64, 128, 256],
      block_size_k \<leftarrow> [64, 128, 256],
      stages \<leftarrow> [3, 4],
      warps \<leftarrow> [4, 8]]"

definition AMD_CONFIGS :: "Config list" where
  "AMD_CONFIGS =
     [\<lparr>kwargs = Map.empty(''BLOCK_M'' \<mapsto> block_size_m, ''BLOCK_N'' \<mapsto> block_size_n,
                            ''BLOCK_K'' \<mapsto> block_size_k, ''waves_per_eu'' \<mapsto> waves_per_cu,
                            ''matrix_instr_nonkdim'' \<mapsto> matrix_instr_nonkdim,
                            ''NUM_CONSUMER_GROUPS'' \<mapsto> 1),
       num_stages = stages, num_warps = warps\<rparr>.
      block_size_m \<leftarrow> [32, 64, 128],
      block_size_n \<leftarrow> [32, 64, 128, 256],
      block_size_k \<leftarrow> [128, 256],
      stages \<leftarrow> [1, 2],
      (warps, waves_per_cu) \<leftarrow> [(4, 1), (8, 2), (16, 4)],
      matrix_instr_nonkdim \<leftarrow> [16]]"

text \<open>
  What the device and the build report: \<^verbatim>\<open>torch.version.hip\<close> (as a truth value),
  \<^verbatim>\<open>get_gpu_shared_memory()\<close>, \<^verbatim>\<open>get_num_sms()\<close> and
  \<^verbatim>\<open>has_triton_tma_device()\<close>. They are imported by the module, so they are inputs here.
\<close>

record device =
  hip :: bool
  gpu_shared_memory :: int
  num_sms :: int
  triton_tma_device :: bool

definition scaled_grouped_mm_configs :: "device \<Rightarrow> Config list" where
  "scaled_grouped_mm_configs dev = (if hip dev then AMD_CONFIGS else NV_CONFIGS)"

subsection \<open>Attribute access on a configuration\<close>

datatype attr_value = AttrInt int | AttrDict "string \<rightharpoonup> int"

text \<open>
  \<^verbatim>\<open>getattr(config, name, default)\<close>: the value of the field called \<open>name\<close>, and the
  default for every other name.
\<close>

definition getattr_Config :: "Config \<Rightarrow> string \<Rightarrow> attr_value \<Rightarrow> attr_value" where
  "getattr_Config config name dflt =
     (if name = ''kwargs'' then AttrDict (kwargs config)
      else if name = ''num_stages'' then AttrInt (num_stages config)
      else if name = ''num_warps'' then AttrInt (num_warps config)
      else dflt)"

subsection \<open>The helper \<^verbatim>\<open>next_power_of_2\<close>\<close>

fun bit_length :: "nat \<Rightarrow> nat" where
  "bit_length n = (if n = 0 then 0 else Suc (bit_length (n div 2)))"

declare bit_length.simps [simp del]

text \<open>
  Modelled from the spec: \<^verbatim>\<open>next_power_of_2\<close> is imported from
  \<^verbatim>\<open>runtime/runtime_utils.py\<close>, which is not among the sources. The spec calls it
  \<open>next_power_of_two\<close>: the least power of two that is at least the argument.
\<close>

definition next_power_of_2 :: "int \<Rightarrow> int" where
  "next_power_of_2 n = 2 ^ bit_length (nat (n - 1))"

subsection \<open>The pruner\<close>

text \<open>
  The arguments \<^verbatim>\<open>early_config_prune\<close> reads from \<^verbatim>\<open>named_args\<close>; its only caller
  builds the dictionary with all of these keys.
\<close>

record named_args =
  G :: int
  M :: int
  N :: int
  M_IS_DYNAMIC :: bool
  N_IS_DYNAMIC :: bool

text \<open>
  The whole dictionary \<^verbatim>\<open>kwargs\<close> of \<^verbatim>\<open>tuned_scaled_grouped_mm\<close>: the five keys
  above and the rest. The keys written only for a 3-D operand are optional.
\<close>

record kernel_kwargs = named_args +
  K :: int
  A_IS_2D :: bool
  B_IS_2D :: bool
  K_IS_DYNAMIC :: bool
  NUM_SMS :: int
  USE_TMA_LOAD :: bool
  USE_FAST_ACCUM :: bool
  A_SIZE_M :: int
  A_SIZE_K :: int
  A_STRIDE_M :: int
  A_STRIDE_K :: int
  A_SIZE_G :: "int option"
  A_STRIDE_G :: "int option"
  SCALE_A_STRIDE_G :: "int option"
  B_SIZE_N :: int
  B_SIZE_K :: int
  B_STRIDE_N :: int
  B_STRIDE_K :: int
  B_SIZE_G :: "int option"
  B_STRIDE_G :: "int option"
  SCALE_B_STRIDE_G :: "int option"

definition floordiv :: "int \<Rightarrow> int \<Rightarrow> error + int" where
  "floordiv a b = (if b = 0 then Inl ZeroDivisionError else Inr (a div b))"

definition getitem :: "(string \<rightharpoonup> int) \<Rightarrow> string \<Rightarrow> error + int" where
  "getitem kw k = (case kw k of None \<Rightarrow> Inl KeyError | Some v \<Rightarrow> Inr v)"

definition and_then :: "error + 'a \<Rightarrow> ('a \<Rightarrow> error + 'b) \<Rightarrow> error + 'b" where
  "and_then r f = (case r of Inl e \<Rightarrow> Inl e | Inr v \<Rightarrow> f v)"

text \<open>The element size the pruner works with: the assignment \<^verbatim>\<open>dtsize = 1\<close>.\<close>

definition dtsize :: int where
  "dtsize = 1"

text \<open>
  The six numbered checks of the loop body, in the order of the source; each
  \<^verbatim>\<open>continue\<close> is recorded with the check that took it.
\<close>

datatype prune_check =
    SharedMemory
  | MTileTooBig
  | MTileTooSmall
  | NTileTooBig
  | NTileTooSmall
  | WarpSpecPartition

datatype verdict = Survives | Pruned prune_check

definition required_shared_memory :: "device \<Rightarrow> int \<Rightarrow> int \<Rightarrow> int \<Rightarrow> int \<Rightarrow> int" where
  "required_shared_memory dev BLOCK_M BLOCK_N BLOCK_K stages =
     (if hip dev then BLOCK_N * BLOCK_K * stages * dtsize
      else (BLOCK_M + BLOCK_N) * BLOCK_K * stages * dtsize)"

definition num_consumer_groups_of :: "Config \<Rightarrow> attr_value" where
  "num_consumer_groups_of config = getattr_Config config ''num_consumer_groups'' (AttrInt 0)"

definition use_warp_specialization :: "Config \<Rightarrow> error + bool" where
  "use_warp_specialization config =
     (case num_consumer_groups_of config of
        AttrInt num_consumer_groups \<Rightarrow> Inr (num_consumer_groups \<ge> 1)
      | AttrDict d \<Rightarrow> Inl TypeError)"

definition ws_partition_check :: "Config \<Rightarrow> int \<Rightarrow> int \<Rightarrow> error + verdict" where
  "ws_partition_check config BLOCK_M BLOCK_N =
     (case num_consumer_groups_of config of
        AttrDict d \<Rightarrow> Inl TypeError
      | AttrInt num_consumer_groups \<Rightarrow>
          if num_warps config \<noteq> 4 then Inr (Pruned WarpSpecPartition)
          else
            and_then (floordiv BLOCK_M num_consumer_groups) (\<lambda>m_slice.
            and_then (floordiv BLOCK_N num_consumer_groups) (\<lambda>n_slice.
              if m_slice < 64 \<and> n_slice < 256 then Inr (Pruned WarpSpecPartition)
              else Inr Survives)))"

text \<open>
  \<^verbatim>\<open>next_power_of_2(X) // G if X_IS_DYNAMIC else X\<close>, for \<open>X\<close> either \<open>M\<close> or \<open>N\<close>.
\<close>

definition per_group :: "bool \<Rightarrow> int \<Rightarrow> int \<Rightarrow> error + int" where
  "per_group is_dynamic extent groups =
     (if is_dynamic then floordiv (next_power_of_2 extent) groups else Inr extent)"

definition prune_config :: "device \<Rightarrow> 'a named_args_scheme \<Rightarrow> Config \<Rightarrow> error + verdict" where
  "prune_config dev args config =
     and_then (getitem (kwargs config) ''BLOCK_M'') (\<lambda>BLOCK_M.
     and_then (getitem (kwargs config) ''BLOCK_N'') (\<lambda>BLOCK_N.
     and_then (getitem (kwargs config) ''BLOCK_K'') (\<lambda>BLOCK_K.
     and_then (per_group (M_IS_DYNAMIC args) (M args) (G args)) (\<lambda>M_PER_GROUP.
     and_then (per_group (N_IS_DYNAMIC args) (N args) (G args)) (\<lambda>N_PER_GROUP.
       let max_shared_memory = gpu_shared_memory dev in
       if required_shared_memory dev BLOCK_M BLOCK_N BLOCK_K (num_stages config)
            > max_shared_memory
       then Inr (Pruned SharedMemory)
       else
         and_then (use_warp_specialization config) (\<lambda>use_ws.
           let MIN_M_TILES = (if hip dev then 32 else 64) in
           if \<not> use_ws \<and> BLOCK_M > MIN_M_TILES \<and> BLOCK_M > M_PER_GROUP * 2
           then Inr (Pruned MTileTooBig)
           else if BLOCK_M < 128 \<and> BLOCK_M < M_PER_GROUP div 2
           then Inr (Pruned MTileTooSmall)
           else
             let num_sm = num_sms dev in
             and_then (floordiv N_PER_GROUP BLOCK_N) (\<lambda>N_TILES.
               let MIN_N_TILES = (if hip dev then 32 else 64) in
               if \<not> use_ws \<and> BLOCK_N > MIN_N_TILES
                    \<and> G args * M_PER_GROUP * N_TILES < num_sm
               then Inr (Pruned NTileTooBig)
               else if BLOCK_N < 128 \<and> G args * M_PER_GROUP * N_TILES > 2 * num_sm
               then Inr (Pruned NTileTooSmall)
               else if use_ws then ws_partition_check config BLOCK_M BLOCK_N
               else Inr Survives)))))))"

text \<open>
  The loop over the configurations: \<open>pruned_configs\<close> is the list built so far, and an
  exception in the body of any iteration ends the call.
\<close>

fun prune_loop :: "device \<Rightarrow> 'a named_args_scheme \<Rightarrow> Config list \<Rightarrow> Config list \<Rightarrow> error + Config list" where
  "prune_loop dev args [] pruned_configs = Inr pruned_configs"
| "prune_loop dev args (config # configs) pruned_configs =
     (case prune_config dev args config of
        Inl e \<Rightarrow> Inl e
      | Inr Survives \<Rightarrow> prune_loop dev args configs (pruned_configs @ [config])
      | Inr (Pruned c) \<Rightarrow> prune_loop dev args configs pruned_configs)"

definition early_config_prune :: "device \<Rightarrow> 'a named_args_scheme \<Rightarrow> Config list \<Rightarrow> error + Config list" where
  "early_config_prune dev args configs = prune_loop dev args configs []"

section \<open>Operands, output layout and the eligibility gate\<close>

datatype dtype = Float8_e4m3fn | Float8_e5m2 | BFloat16 | Float16 | Float32 | Int32

text \<open>
  A \<^verbatim>\<open>TensorBox\<close> as far as this module reads it: \<^verbatim>\<open>get_size()\<close>,
  \<^verbatim>\<open>get_stride()\<close>, \<^verbatim>\<open>get_dtype()\<close> and \<^verbatim>\<open>get_device()\<close>.
  \<^verbatim>\<open>realize_inputs\<close> changes none of them.
\<close>

record TensorBox =
  get_size :: "int list"
  get_stride :: "int list"
  get_dtype :: dtype
  get_device :: string

record Layout =
  layout_device :: string
  layout_dtype :: dtype
  layout_size :: "int list"

definition FixedLayout :: "string \<Rightarrow> dtype \<Rightarrow> int list \<Rightarrow> Layout" where
  "FixedLayout d t dims = \<lparr>layout_device = d, layout_dtype = t, layout_size = dims\<rparr>"

text \<open>Python's \<^verbatim>\<open>xs[i]\<close>: a negative index counts from the end.\<close>

definition index :: "int list \<Rightarrow> int \<Rightarrow> error + int" where
  "index xs i =
     (if 0 \<le> i \<and> i < int (length xs) then Inr (xs ! nat i)
      else if i < 0 \<and> - int (length xs) \<le> i then Inr (xs ! nat (int (length xs) + i))
      else Inl IndexError)"

definition py_assert :: "bool \<Rightarrow> string \<Rightarrow> (unit \<Rightarrow> error + 'a) \<Rightarrow> error + 'a" where
  "py_assert b msg rest = (if b then rest () else Inl (AssertionError msg))"

definition grouped_mm_dims ::
  "int list \<Rightarrow> int list \<Rightarrow> TensorBox option \<Rightarrow> error + int list" where
  "grouped_mm_dims mat1_size mat2_size offs =
     (let m1dim = length mat1_size; m2dim = length mat2_size in
      if m1dim = 2 then
        if m2dim = 2 then
          (case offs of
             None \<Rightarrow> Inl (AssertionError [])
           | Some t \<Rightarrow>
               and_then (index (get_size t) 0) (\<lambda>g.
               and_then (index mat1_size 0) (\<lambda>d1.
               and_then (index mat2_size 1) (\<lambda>d2. Inr [g, d1, d2]))))
        else
          and_then (index mat1_size 0) (\<lambda>d1.
          and_then (index mat2_size (- 1)) (\<lambda>d2. Inr [d1, d2]))
      else
        if m2dim = 2 then
          and_then (index mat1_size 1) (\<lambda>d1.
          and_then (index mat2_size 1) (\<lambda>d2. Inr [d1, d2]))
        else
          and_then (index mat1_size 0) (\<lambda>d0.
          and_then (index mat1_size 1) (\<lambda>d1.
          and_then (index mat2_size (- 1)) (\<lambda>d2. Inr [d0, d1, d2]))))"

definition grouped_mm_args ::
  "TensorBox \<Rightarrow> TensorBox \<Rightarrow> TensorBox option \<Rightarrow> Layout option \<Rightarrow> dtype option
   \<Rightarrow> error + (int list \<times> int list \<times> Layout \<times> TensorBox \<times> TensorBox \<times> TensorBox option)" where
  "grouped_mm_args mat1 mat2 offs layout out_dtype =
     (let mat1_size = get_size mat1; mat2_size = get_size mat2;
          m1dim = length mat1_size; m2dim = length mat2_size in
      py_assert (m1dim = 2 \<or> m1dim = 3) [] (\<lambda>_.
      py_assert (m2dim = 2 \<or> m2dim = 3) [] (\<lambda>_.
        (case layout of
           None \<Rightarrow>
             (let out_dtype' = (case out_dtype of None \<Rightarrow> get_dtype mat1 | Some t \<Rightarrow> t) in
              and_then (grouped_mm_dims mat1_size mat2_size offs) (\<lambda>dims.
                Inr (mat1_size, mat2_size, FixedLayout (get_device mat1) out_dtype' dims,
                     mat1, mat2, offs)))
         | Some l \<Rightarrow>
             py_assert (out_dtype = None) ''out_dtype is ignored if layout is specified.'' (\<lambda>_.
               Inr (mat1_size, mat2_size, l, mat1, mat2, offs))))))"

definition can_use_triton_kernel ::
  "device \<Rightarrow> TensorBox \<Rightarrow> TensorBox \<Rightarrow> TensorBox option \<Rightarrow> TensorBox option \<Rightarrow> error + bool" where
  "can_use_triton_kernel dev mat_a mat_b offs bias =
     (if \<not> triton_tma_device dev then Inr False
      else if bias \<noteq> None then Inr False
      else
        let m1_size = get_size mat_a; m2_size = get_size mat_b in
        if length m1_size = 2 then
          if length m2_size = 2 then
            (if offs = None then Inr False
             else and_then (index m2_size (- 1)) (\<lambda>d. Inr (d \<ge> 32)))
          else
            (if offs = None then Inr False
             else and_then (index m1_size (- 1)) (\<lambda>d1.
                    if \<not> d1 \<ge> 32 then Inr False
                    else and_then (index m2_size (- 2)) (\<lambda>d2. Inr (d2 \<ge> 32))))
        else
          if length m2_size = 2 then
            (if offs = None then Inr False
             else and_then (index m2_size (- 2)) (\<lambda>d. Inr (d \<ge> 32)))
          else
            (if offs \<noteq> None then Inr False
             else and_then (index m1_size (- 1)) (\<lambda>d1.
                    if \<not> d1 \<ge> 32 then Inr False
                    else and_then (index m2_size (- 1)) (\<lambda>d2. Inr (d2 \<ge> 32)))))"

section \<open>The lowering \<^verbatim>\<open>tuned_scaled_grouped_mm\<close>\<close>

text \<open>
  Modelled from the spec: \<^verbatim>\<open>V.graph.sizevars.guard_equals\<close> belongs to the compiler's
  size-variable store, which is not among the sources. By the spec a mismatch of the
  contraction sizes of the operands is fatal; on equal sizes the call returns its first
  argument.
\<close>

definition guard_equals :: "int \<Rightarrow> int \<Rightarrow> error + int" where
  "guard_equals left right = (if left = right then Inr left else Inl (AssertionError []))"

definition unpack2 :: "int list \<Rightarrow> error + (int \<times> int)" where
  "unpack2 xs = (case xs of [a, b] \<Rightarrow> Inr (a, b) | _ \<Rightarrow> Inl ValueError)"

definition unpack3 :: "int list \<Rightarrow> error + (int \<times> int \<times> int)" where
  "unpack3 xs = (case xs of [a, b, c] \<Rightarrow> Inr (a, b, c) | _ \<Rightarrow> Inl ValueError)"

text \<open>
  The first half of the guarded block: the group count, the three extents and the three
  flags, as the four rank cases assign them.
\<close>

record problem_shape =
  shape_g :: int
  shape_m :: int
  shape_n :: int
  shape_k :: int
  m_is_dynamic :: bool
  n_is_dynamic :: bool
  k_is_dynamic :: bool

definition problem_shape_of ::
  "int list \<Rightarrow> int list \<Rightarrow> TensorBox option \<Rightarrow> error + problem_shape" where
  "problem_shape_of m1_size m2_size offs =
     (if length m1_size = 2 then
        if length m2_size = 2 then
          (case offs of
             None \<Rightarrow> Inl AttributeError
           | Some t \<Rightarrow>
               and_then (index (get_size t) 0) (\<lambda>g.
               and_then (unpack2 m1_size) (\<lambda>(m, k1).
               and_then (unpack2 m2_size) (\<lambda>(k2, n).
               and_then (guard_equals k1 k2) (\<lambda>k.
                 Inr \<lparr>shape_g = g, shape_m = m, shape_n = n, shape_k = k,
                      m_is_dynamic = False, n_is_dynamic = False, k_is_dynamic = True\<rparr>)))))
        else
          and_then (unpack2 m1_size) (\<lambda>(m, k1).
          and_then (unpack3 m2_size) (\<lambda>(g, k2, n).
          and_then (guard_equals k1 k2) (\<lambda>k.
            Inr \<lparr>shape_g = g, shape_m = m, shape_n = n, shape_k = k,
                 m_is_dynamic = True, n_is_dynamic = False, k_is_dynamic = False\<rparr>)))
      else
        if length m2_size = 2 then
          and_then (unpack3 m1_size) (\<lambda>(g, m, k1).
          and_then (unpack2 m2_size) (\<lambda>(k2, n).
          and_then (guard_equals k1 k2) (\<lambda>k.
            Inr \<lparr>shape_g = g, shape_m = m, shape_n = n, shape_k = k,
                 m_is_dynamic = False, n_is_dynamic = True, k_is_dynamic = False\<rparr>)))
        else
          and_then (unpack3 m1_size) (\<lambda>(g1, m, k1).
          and_then (unpack3 m2_size) (\<lambda>(g2, k2, n).
          and_then (guard_equals g1 g2) (\<lambda>g.
          and_then (guard_equals k1 k2) (\<lambda>k.
            Inr \<lparr>shape_g = g, shape_m = m, shape_n = n, shape_k = k,
                 m_is_dynamic = False, n_is_dynamic = False, k_is_dynamic = False\<rparr>)))))"

text \<open>
  The second half: the dictionary \<^verbatim>\<open>kwargs\<close> with the sizes and strides of the operands
  (those of \<open>B\<close> with the last two dimensions exchanged).
\<close>

definition opt_index :: "bool \<Rightarrow> int list \<Rightarrow> int \<Rightarrow> error + int option" where
  "opt_index wanted xs i =
     (if wanted then and_then (index xs i) (\<lambda>v. Inr (Some v)) else Inr None)"

definition triton_kwargs ::
  "device \<Rightarrow> bool \<Rightarrow> int list \<Rightarrow> int list \<Rightarrow> TensorBox \<Rightarrow> TensorBox \<Rightarrow> TensorBox \<Rightarrow> TensorBox
   \<Rightarrow> TensorBox option \<Rightarrow> error + kernel_kwargs" where
  "triton_kwargs dev use_fast_accum m1_size m2_size mat_a mat_b scale_a scale_b offs =
     and_then (problem_shape_of m1_size m2_size offs) (\<lambda>p.
       let a_size = get_size mat_a; b_size = get_size mat_b;
           a_stride = get_stride mat_a; b_stride = get_stride mat_b;
           scale_a_stride = get_stride scale_a; scale_b_stride = get_stride scale_b in
       and_then (index a_size (- 2)) (\<lambda>a_size_m.
       and_then (index a_size (- 1)) (\<lambda>a_size_k.
       and_then (index a_stride (- 2)) (\<lambda>a_stride_m.
       and_then (index a_stride (- 1)) (\<lambda>a_stride_k.
       and_then (opt_index (length a_size = 3) a_size 0) (\<lambda>a_size_g.
       and_then (opt_index (length a_size = 3) a_stride 0) (\<lambda>a_stride_g.
       and_then (opt_index (length a_size = 3) scale_a_stride 0) (\<lambda>scale_a_stride_g.
       and_then (index b_size (- 1)) (\<lambda>b_size_n.
       and_then (index b_size (- 2)) (\<lambda>b_size_k.
       and_then (index b_stride (- 1)) (\<lambda>b_stride_n.
       and_then (index b_stride (- 2)) (\<lambda>b_stride_k.
       and_then (opt_index (length b_size = 3) b_size 0) (\<lambda>b_size_g.
       and_then (opt_index (length b_size = 3) b_stride 0) (\<lambda>b_stride_g.
       and_then (opt_index (length b_size = 3) scale_b_stride 0) (\<lambda>scale_b_stride_g.
         Inr \<lparr>G = shape_g p, M = shape_m p, N = shape_n p,
              M_IS_DYNAMIC = m_is_dynamic p, N_IS_DYNAMIC = n_is_dynamic p,
              K = shape_k p,
              A_IS_2D = (length m1_size = 2), B_IS_2D = (length m2_size = 2),
              K_IS_DYNAMIC = k_is_dynamic p,
              NUM_SMS = num_sms dev, USE_TMA_LOAD = True, USE_FAST_ACCUM = use_fast_accum,
              A_SIZE_M = a_size_m, A_SIZE_K = a_size_k,
              A_STRIDE_M = a_stride_m, A_STRIDE_K = a_stride_k,
              A_SIZE_G = a_size_g, A_STRIDE_G = a_stride_g,
              SCALE_A_STRIDE_G = scale_a_stride_g,
              B_SIZE_N = b_size_n, B_SIZE_K = b_size_k,
              B_STRIDE_N = b_stride_n, B_STRIDE_K = b_stride_k,
              B_SIZE_G = b_size_g, B_STRIDE_G = b_stride_g,
              SCALE_B_STRIDE_G = scale_b_stride_g\<rparr>)))))))))))))))"

text \<open>
  What the lowering takes from the rest of the compiler: \<^verbatim>\<open>use_aten_gemm_kernels()\<close>,
  the second component of \<^verbatim>\<open>_is_static_problem(layout)\<close>, and
  \<^verbatim>\<open>check_supported_striding\<close>, which either raises or returns nothing.
\<close>

record compiler =
  use_aten_gemm_kernels :: bool
  is_nonzero :: "Layout \<Rightarrow> bool"
  check_supported_striding :: "TensorBox \<Rightarrow> TensorBox \<Rightarrow> error option"

text \<open>
  The candidates handed to \<^verbatim>\<open>autotune_select_algorithm\<close>: whether the library
  kernel is one of them, and one template instance for each configuration the pruner
  kept, with the dictionary it is instantiated with.
\<close>

record choices =
  aten_choice :: bool
  template_choices :: "(kernel_kwargs \<times> Config) list"
  out_layout :: Layout

definition tuned_scaled_grouped_mm ::
  "device \<Rightarrow> compiler \<Rightarrow> TensorBox \<Rightarrow> TensorBox \<Rightarrow> TensorBox \<Rightarrow> TensorBox
   \<Rightarrow> TensorBox option \<Rightarrow> TensorBox option \<Rightarrow> dtype option \<Rightarrow> bool \<Rightarrow> Layout option
   \<Rightarrow> error + choices" where
  "tuned_scaled_grouped_mm dev env mat_a mat_b scale_a scale_b offs bias out_dtype
       use_fast_accum layout =
     and_then (grouped_mm_args mat_a mat_b offs layout out_dtype)
       (\<lambda>(m1_size, m2_size, layout', mat_a', mat_b', offs').
         (case check_supported_striding env mat_a' mat_b' of
            Some e \<Rightarrow> Inl e
          | None \<Rightarrow>
              and_then (if is_nonzero env layout'
                        then can_use_triton_kernel dev mat_a' mat_b' offs' bias
                        else Inr False) (\<lambda>eligible.
                if eligible then
                  and_then (triton_kwargs dev use_fast_accum m1_size m2_size
                              mat_a' mat_b' scale_a scale_b offs') (\<lambda>kw.
                  and_then (early_config_prune dev kw (scaled_grouped_mm_configs dev)) (\<lambda>cs.
                    Inr \<lparr>aten_choice = use_aten_gemm_kernels env,
                         template_choices = map (\<lambda>c. (kw, c)) cs,
                         out_layout = layout'\<rparr>))
                else
                  Inr \<lparr>aten_choice = use_aten_gemm_kernels env,
                       template_choices = [],
                       out_layout = layout'\<rparr>)))"

section \<open>The persistent kernel\<close>

text \<open>
  The template \<^verbatim>\<open>triton_scaled_grouped_mm_source\<close> is rendered with the entries of
  \<^verbatim>\<open>kwargs\<close> and of the configuration's \<^verbatim>\<open>kwargs\<close>. The kernel below is the rendered
  program as a function of these constants: each \<^verbatim>\<open>{% if %}\<close> of the template is an
  \<open>if\<close> on the constant it tests. Index arithmetic is on \<^typ>\<open>int\<close>; on the
  non-negative values the loop works with, the division and remainder of the device
  agree with \<^term>\<open>(div)\<close> and \<^term>\<open>(mod)\<close>.
\<close>

record kernel_consts = kernel_kwargs +
  BLOCK_M :: int
  BLOCK_N :: int
  BLOCK_K :: int

definition template_consts :: "kernel_kwargs \<Rightarrow> Config \<Rightarrow> error + kernel_consts" where
  "template_consts kw config =
     and_then (getitem (kwargs config) ''BLOCK_M'') (\<lambda>bm.
     and_then (getitem (kwargs config) ''BLOCK_N'') (\<lambda>bn.
     and_then (getitem (kwargs config) ''BLOCK_K'') (\<lambda>bk.
       Inr (kernel_kwargs.extend kw
              (kernel_consts.fields bm bn bk)))))"

definition cdiv :: "int \<Rightarrow> int \<Rightarrow> int" where
  "cdiv x d = (x + d - 1) div d"

text \<open>The variables a group fixes for the tiles of that group.\<close>

record group_vars =
  group :: int
  m_start_offset :: int
  m_size :: int
  m_scale_start_offset :: "int option"
  n_start_offset :: int
  n_size :: int
  n_scale_start_offset :: "int option"
  k_start_offset :: int
  k_size :: int
  num_m_tiles :: int
  num_n_tiles :: int

text \<open>One pass through the body of the \<^verbatim>\<open>while\<close> loop: a tile of a group.\<close>

record work_tile =
  vars :: group_vars
  tile_m_idx :: int
  tile_n_idx :: int

text \<open>
  The state of one execution context: its tile index, the tiles counted so far, the
  three offset cursors, and the tiles it has computed, in order.
\<close>

record context_state =
  tidx :: int
  iterated_tiles :: int
  m_end_offset :: int
  n_end_offset :: int
  k_end_offset :: int
  done_tiles :: "work_tile list"

text \<open>
  The \<^verbatim>\<open>while\<close> loop. It need not end (with \<^verbatim>\<open>NUM_SMS = 0\<close> the index never
  moves), so not returning is the value \<open>None\<close>.
\<close>

partial_function (option) tile_loop ::
  "int \<Rightarrow> int \<Rightarrow> int \<Rightarrow> group_vars \<Rightarrow> int \<Rightarrow> work_tile list \<Rightarrow> (int \<times> work_tile list) option" where
  "tile_loop num_sms_c iterated num_tiles gv t acc =
     (if t \<ge> iterated \<and> t < iterated + num_tiles then
        let gidx = t - iterated;
            w = \<lparr>vars = gv, tile_m_idx = gidx mod num_m_tiles gv,
                 tile_n_idx = gidx div num_m_tiles gv\<rparr>
        in tile_loop num_sms_c iterated num_tiles gv (t + num_sms_c) (acc @ [w])
      else Some (t, acc))"

definition group_body ::
  "kernel_consts \<Rightarrow> int list \<Rightarrow> int \<Rightarrow> context_state \<Rightarrow> context_state option" where
  "group_body kc offsets g st =
     (let m_start = (if M_IS_DYNAMIC kc then m_end_offset st else 0);
          m_end = (if M_IS_DYNAMIC kc then offsets ! nat g else m_end_offset st);
          m_sz = (if M_IS_DYNAMIC kc then m_end - m_start else M kc);
          m_scale_start = (if M_IS_DYNAMIC kc then Some m_start
                           else if A_IS_2D kc then Some (g * M kc) else None);
          st1 = st\<lparr>m_end_offset := m_end\<rparr>
      in
      if m_sz > 0 then
        let n_start = (if N_IS_DYNAMIC kc then n_end_offset st else 0);
            n_end = (if N_IS_DYNAMIC kc then offsets ! nat g else n_end_offset st);
            n_sz = (if N_IS_DYNAMIC kc then n_end - n_start else N kc);
            n_scale_start = (if N_IS_DYNAMIC kc then Some n_start
                             else if B_IS_2D kc then Some (g * N kc) else None);
            k_start = (if K_IS_DYNAMIC kc then k_end_offset st else 0);
            k_end = (if K_IS_DYNAMIC kc then offsets ! nat g else k_end_offset st);
            k_sz = (if K_IS_DYNAMIC kc then k_end - k_start else K kc);
            m_tiles = cdiv m_sz (BLOCK_M kc);
            n_tiles = cdiv n_sz (BLOCK_N kc);
            num_tiles = m_tiles * n_tiles;
            gv = \<lparr>group = g, m_start_offset = m_start, m_size = m_sz,
                  m_scale_start_offset = m_scale_start,
                  n_start_offset = n_start, n_size = n_sz,
                  n_scale_start_offset = n_scale_start,
                  k_start_offset = k_start, k_size = k_sz,
                  num_m_tiles = m_tiles, num_n_tiles = n_tiles\<rparr>
        in
        (case tile_loop (NUM_SMS kc) (iterated_tiles st) num_tiles gv (tidx st) (done_tiles st) of
           None \<Rightarrow> None
         | Some (t, ws) \<Rightarrow>
             Some (st1\<lparr>tidx := t, done_tiles := ws,
                       n_end_offset := n_end, k_end_offset := k_end,
                       iterated_tiles := iterated_tiles st + num_tiles\<rparr>))
      else Some st1)"

fun group_loop ::
  "kernel_consts \<Rightarrow> int list \<Rightarrow> nat list \<Rightarrow> context_state \<Rightarrow> context_state option" where
  "group_loop kc offsets [] st = Some st"
| "group_loop kc offsets (g # gs) st =
     (case group_body kc offsets (int g) st of
        None \<Rightarrow> None
      | Some st' \<Rightarrow> group_loop kc offsets gs st')"

text \<open>
  The kernel for the context whose \<^verbatim>\<open>tl.program_id(0)\<close> is \<open>pid\<close>; the result is the
  list of tiles the context computed.
\<close>

definition kernel :: "kernel_consts \<Rightarrow> int list \<Rightarrow> int \<Rightarrow> work_tile list option" where
  "kernel kc offsets pid =
     map_option done_tiles
       (group_loop kc offsets [0..<nat (G kc)]
          \<lparr>tidx = pid, iterated_tiles = 0, m_end_offset = 0, n_end_offset = 0,
           k_end_offset = 0, done_tiles = []\<rparr>)"

text \<open>
  Modelled from the spec: the grid \<^verbatim>\<open>persistent_grouped_mm_grid\<close> is defined in
  \<^verbatim>\<open>mm_common.py\<close>, which is not among the sources. By the spec the kernel runs on
  a fixed number of contexts, one for each of the \<open>NUM_UNITS\<close> streaming units, and each
  starts at its own context id: the contexts are \<open>0, ..., NUM_SMS - 1\<close>.
\<close>

fun collect :: "'a list option list \<Rightarrow> 'a list option" where
  "collect [] = Some []"
| "collect (r # rs) =
     (case r of None \<Rightarrow> None
      | Some xs \<Rightarrow> (case collect rs of None \<Rightarrow> None | Some ys \<Rightarrow> Some (xs @ ys)))"

definition launch :: "kernel_consts \<Rightarrow> int list \<Rightarrow> work_tile list option" where
  "launch kc offsets = collect (map (\<lambda>pid. kernel kc offsets (int pid)) [0..<nat (NUM_SMS kc)])"

subsection \<open>The scale-and-store stage of a tile\<close>

text \<open>
  Rows and columns of a tile are numbered \<open>i < BLOCK_M\<close> and \<open>j < BLOCK_N\<close>
  (\<^verbatim>\<open>tl.arange\<close>). An address is an offset from the base pointer of its tensor. The
  values are of an arbitrary type with a multiplication \<open>mul\<close>; a masked load yields a
  value only where its mask holds.
\<close>

definition offs_am :: "kernel_consts \<Rightarrow> work_tile \<Rightarrow> int \<Rightarrow> int" where
  "offs_am kc w i = tile_m_idx w * BLOCK_M kc + i"

definition offs_bn :: "kernel_consts \<Rightarrow> work_tile \<Rightarrow> int \<Rightarrow> int" where
  "offs_bn kc w j = tile_n_idx w * BLOCK_N kc + j"

definition scale_a_address :: "kernel_consts \<Rightarrow> work_tile \<Rightarrow> int \<Rightarrow> int option" where
  "scale_a_address kc w i =
     (if A_IS_2D kc then map_option (\<lambda>s. s + offs_am kc w i) (m_scale_start_offset (vars w))
      else map_option (\<lambda>s. group (vars w) * s + offs_am kc w i) (SCALE_A_STRIDE_G kc))"

definition scale_b_address :: "kernel_consts \<Rightarrow> work_tile \<Rightarrow> int \<Rightarrow> int option" where
  "scale_b_address kc w j =
     (if B_IS_2D kc then map_option (\<lambda>s. s + offs_bn kc w j) (n_scale_start_offset (vars w))
      else map_option (\<lambda>s. group (vars w) * s + offs_bn kc w j) (SCALE_B_STRIDE_G kc))"

definition scale_a :: "kernel_consts \<Rightarrow> (int \<Rightarrow> 'v) \<Rightarrow> work_tile \<Rightarrow> int \<Rightarrow> 'v option" where
  "scale_a kc scale_a_ptr w i =
     (if offs_am kc w i < m_size (vars w)
      then map_option scale_a_ptr (scale_a_address kc w i) else None)"

definition scale_b :: "kernel_consts \<Rightarrow> (int \<Rightarrow> 'v) \<Rightarrow> work_tile \<Rightarrow> int \<Rightarrow> 'v option" where
  "scale_b kc scale_b_ptr w j =
     (if offs_bn kc w j < n_size (vars w)
      then map_option scale_b_ptr (scale_b_address kc w j) else None)"

definition scaled ::
  "kernel_consts \<Rightarrow> ('v \<Rightarrow> 'v \<Rightarrow> 'v) \<Rightarrow> (int \<Rightarrow> int \<Rightarrow> 'v) \<Rightarrow> (int \<Rightarrow> 'v) \<Rightarrow> (int \<Rightarrow> 'v)
   \<Rightarrow> work_tile \<Rightarrow> int \<Rightarrow> int \<Rightarrow> 'v option" where
  "scaled kc mul accumulator scale_a_ptr scale_b_ptr w i j =
     (case (scale_a kc scale_a_ptr w i, scale_b kc scale_b_ptr w j) of
        (Some a, Some b) \<Rightarrow> Some (mul (mul (accumulator i j) a) b)
      | _ \<Rightarrow> None)"

definition idx_m :: "kernel_consts \<Rightarrow> work_tile \<Rightarrow> int \<Rightarrow> int" where
  "idx_m kc w i =
     (if M_IS_DYNAMIC kc then m_start_offset (vars w) + offs_am kc w i else offs_am kc w i)"

definition idx_n :: "kernel_consts \<Rightarrow> work_tile \<Rightarrow> int \<Rightarrow> int" where
  "idx_n kc w j =
     (if N_IS_DYNAMIC kc then n_start_offset (vars w) + offs_bn kc w j else offs_bn kc w j)"

definition mask :: "kernel_consts \<Rightarrow> work_tile \<Rightarrow> int \<Rightarrow> int \<Rightarrow> bool" where
  "mask kc w i j = (offs_am kc w i < m_size (vars w) \<and> offs_bn kc w j < n_size (vars w))"

definition store_index :: "kernel_consts \<Rightarrow> work_tile \<Rightarrow> int \<Rightarrow> int \<Rightarrow> int list" where
  "store_index kc w i j =
     (if M_IS_DYNAMIC kc \<or> N_IS_DYNAMIC kc then [idx_m kc w i, idx_n kc w j]
      else [group (vars w), idx_m kc w i, idx_n kc w j])"

text \<open>The writes of a tile: the index into the output and the value written there.\<close>

definition store_output ::
  "kernel_consts \<Rightarrow> ('v \<Rightarrow> 'v \<Rightarrow> 'v) \<Rightarrow> (int \<Rightarrow> int \<Rightarrow> 'v) \<Rightarrow> (int \<Rightarrow> 'v) \<Rightarrow> (int \<Rightarrow> 'v)
   \<Rightarrow> work_tile \<Rightarrow> (int list \<times> 'v option) list" where
  "store_output kc mul accumulator scale_a_ptr scale_b_ptr w =
     [(store_index kc w i j, scaled kc mul accumulator scale_a_ptr scale_b_ptr w i j).
        i \<leftarrow> map int [0..<nat (BLOCK_M kc)],
        j \<leftarrow> map int [0..<nat (BLOCK_N kc)],
        mask kc w i j]"

section \<open>Inputs used to exercise the definitions\<close>

definition example_device :: device where
  "example_device = \<lparr>hip = False, gpu_shared_memory = 232448, num_sms = 132,
                      triton_tma_device = True\<rparr>"

definition nv_config :: "int \<Rightarrow> int \<Rightarrow> int \<Rightarrow> int \<Rightarrow> int \<Rightarrow> Config" where
  "nv_config bm bn bk stages warps =
     \<lparr>kwargs = Map.empty(''BLOCK_M'' \<mapsto> bm, ''BLOCK_N'' \<mapsto> bn, ''BLOCK_K'' \<mapsto> bk,
                         ''NUM_CONSUMER_GROUPS'' \<mapsto> 1),
      num_stages = stages, num_warps = warps\<rparr>"

definition tiny_dynamic_m :: named_args where
  "tiny_dynamic_m = \<lparr>G = 4, M = 32, N = 4096, M_IS_DYNAMIC = True, N_IS_DYNAMIC = False\<rparr>"

definition static_problem :: named_args where
  "static_problem = \<lparr>G = 4, M = 128, N = 4096, M_IS_DYNAMIC = False, N_IS_DYNAMIC = False\<rparr>"

definition tensor :: "int list \<Rightarrow> int list \<Rightarrow> TensorBox" where
  "tensor sizes strides =
     \<lparr>get_size = sizes, get_stride = strides, get_dtype = Float8_e4m3fn,
      get_device = ''cuda''\<rparr>"

definition offsets_tensor :: "int \<Rightarrow> TensorBox" where
  "offsets_tensor n = \<lparr>get_size = [n], get_stride = [1], get_dtype = Int32, get_device = ''cuda''\<rparr>"

definition example_compiler :: compiler where
  "example_compiler =
     \<lparr>use_aten_gemm_kernels = True, is_nonzero = (\<lambda>l. True),
      check_supported_striding = (\<lambda>a b. None)\<rparr>"

text \<open>
  The table of the eligibility gate in the words of the spec (section 4.6), for operands
  of rank 2 or 3. As in the lowering, \<open>K\<close> is the last dimension of \<open>A\<close> and \<open>N\<close> the last
  dimension of \<open>B\<close>.
\<close>

definition spec_eligibility_table ::
  "bool \<Rightarrow> int list \<Rightarrow> int list \<Rightarrow> bool \<Rightarrow> bool \<Rightarrow> bool" where
  "spec_eligibility_table tma a_size b_size offsets_present bias_present =
     (let k = last a_size; n = last b_size in
      tma \<and> \<not> bias_present \<and>
      (if length a_size = 2 \<and> length b_size = 2 then offsets_present \<and> n \<ge> 32
       else if length a_size = 2 \<and> length b_size = 3 then offsets_present \<and> k \<ge> 32 \<and> n \<ge> 32
       else if length a_size = 3 \<and> length b_size = 2 then offsets_present \<and> n \<ge> 32
       else \<not> offsets_present \<and> k \<ge> 32 \<and> n \<ge> 32))"

text \<open>
  Scenario A of the spec: \<open>A\<close> of shape \<open>[4, 128, 64]\<close>, \<open>B\<close> the 2-D tensor of shape
  \<open>[256, 64]\<close> stored with its two dimensions exchanged, and the 3-D tensor
  \<open>[4, 64, 256]\<close> to compare with. Scenario B: \<open>A\<close> of shape \<open>[1000, 64]\<close>, \<open>B\<close> of
  shape \<open>[64, 256]\<close>, four offsets, and the 3-D tensor \<open>[4, 64, 256]\<close> to compare with.
\<close>

definition scenario_a_A :: TensorBox where
  "scenario_a_A = tensor [4, 128, 64] [8192, 64, 1]"

definition scenario_a_B :: TensorBox where
  "scenario_a_B = tensor [256, 64] [1, 256]"

definition scenario_B_3d :: TensorBox where
  "scenario_B_3d = tensor [4, 64, 256] [16384, 1, 64]"

definition scenario_b_A :: TensorBox where
  "scenario_b_A = tensor [1000, 64] [64, 1]"

definition scenario_b_B :: TensorBox where
  "scenario_b_B = tensor [64, 256] [1, 64]"

definition scenario_b_offsets :: "int list" where
  "scenario_b_offsets = [250, 500, 800, 1000]"

section \<open>The reference enumeration of the tiles\<close>

text \<open>
  The extents of the groups in closed form: static, or the difference of consecutive
  offsets, with 0 before the first one.
\<close>

definition group_start :: "int list \<Rightarrow> nat \<Rightarrow> int" where
  "group_start offsets g = (if g = 0 then 0 else offsets ! (g - 1))"

definition group_m_size :: "kernel_consts \<Rightarrow> int list \<Rightarrow> nat \<Rightarrow> int" where
  "group_m_size kc offsets g =
     (if M_IS_DYNAMIC kc then offsets ! g - group_start offsets g else M kc)"

definition group_n_size :: "kernel_consts \<Rightarrow> int list \<Rightarrow> nat \<Rightarrow> int" where
  "group_n_size kc offsets g =
     (if N_IS_DYNAMIC kc then offsets ! g - group_start offsets g else N kc)"

definition group_k_size :: "kernel_consts \<Rightarrow> int list \<Rightarrow> nat \<Rightarrow> int" where
  "group_k_size kc offsets g =
     (if K_IS_DYNAMIC kc then offsets ! g - group_start offsets g else K kc)"

text \<open>
  The reference: for each group of positive row and column extent, in the order of the
  groups, the Cartesian product of its range of \<open>M\<close> tiles and its range of \<open>N\<close> tiles.
  A work item is a triple of the group, the \<open>M\<close> tile and the \<open>N\<close> tile.
\<close>

definition group_tiles :: "kernel_consts \<Rightarrow> int list \<Rightarrow> nat \<Rightarrow> (int \<times> int \<times> int) list" where
  "group_tiles kc offsets g =
     (if group_m_size kc offsets g > 0 \<and> group_n_size kc offsets g > 0 then
        [(int g, i, j).
           j \<leftarrow> [0..cdiv (group_n_size kc offsets g) (BLOCK_N kc) - 1],
           i \<leftarrow> [0..cdiv (group_m_size kc offsets g) (BLOCK_M kc) - 1]]
      else [])"

definition reference_tiles :: "kernel_consts \<Rightarrow> int list \<Rightarrow> (int \<times> int \<times> int) list" where
  "reference_tiles kc offsets = concat (map (group_tiles kc offsets) [0..<nat (G kc)])"

definition tile_coords :: "work_tile \<Rightarrow> int \<times> int \<times> int" where
  "tile_coords w = (group (vars w), tile_m_idx w, tile_n_idx w)"

text \<open>
  The offsets a kernel with a dynamic dimension is given: one for each group,
  non-negative and non-decreasing.
\<close>

definition monotone_offsets :: "kernel_consts \<Rightarrow> int list \<Rightarrow> bool" where
  "monotone_offsets kc offsets =
     (length offsets = nat (G kc) \<and> sorted offsets \<and> list_all (\<lambda>x. 0 \<le> x) offsets)"

subsection \<open>The tiles of one context, in closed form\<close>

text \<open>
  The variables the kernel computes for a group, written with the offsets instead of the
  cursors, and the tiles a context computes, written with the running count of tiles
  instead of the loop. These are what the kernel is proved to compute.
\<close>

definition group_vars_of :: "kernel_consts \<Rightarrow> int list \<Rightarrow> nat \<Rightarrow> group_vars" where
  "group_vars_of kc offsets g =
     \<lparr>group = int g,
      m_start_offset = (if M_IS_DYNAMIC kc then group_start offsets g else 0),
      m_size = group_m_size kc offsets g,
      m_scale_start_offset =
        (if M_IS_DYNAMIC kc then Some (group_start offsets g)
         else if A_IS_2D kc then Some (int g * M kc) else None),
      n_start_offset = (if N_IS_DYNAMIC kc then group_start offsets g else 0),
      n_size = group_n_size kc offsets g,
      n_scale_start_offset =
        (if N_IS_DYNAMIC kc then Some (group_start offsets g)
         else if B_IS_2D kc then Some (int g * N kc) else None),
      k_start_offset = (if K_IS_DYNAMIC kc then group_start offsets g else 0),
      k_size = group_k_size kc offsets g,
      num_m_tiles = cdiv (group_m_size kc offsets g) (BLOCK_M kc),
      num_n_tiles = cdiv (group_n_size kc offsets g) (BLOCK_N kc)\<rparr>"

definition mk_tile :: "group_vars \<Rightarrow> int \<Rightarrow> work_tile" where
  "mk_tile gv gidx =
     \<lparr>vars = gv, tile_m_idx = gidx mod num_m_tiles gv, tile_n_idx = gidx div num_m_tiles gv\<rparr>"

definition strided :: "int \<Rightarrow> int \<Rightarrow> int \<Rightarrow> int \<Rightarrow> int list" where
  "strided s pid lo hi = filter (\<lambda>x. x mod s = pid mod s) [lo..hi - 1]"

fun context_tiles :: "kernel_consts \<Rightarrow> int list \<Rightarrow> int \<Rightarrow> int \<Rightarrow> nat list \<Rightarrow> work_tile list" where
  "context_tiles kc offsets pid iterated [] = []"
| "context_tiles kc offsets pid iterated (g # gs) =
     (if group_m_size kc offsets g > 0 then
        let gv = group_vars_of kc offsets g;
            num_tiles = num_m_tiles gv * num_n_tiles gv
        in map (\<lambda>x. mk_tile gv (x - iterated))
             (strided (NUM_SMS kc) pid iterated (iterated + num_tiles))
           @ context_tiles kc offsets pid (iterated + num_tiles) gs
      else context_tiles kc offsets pid iterated gs)"

text \<open>
  A small instance of the kernel: three groups with a dynamic \<open>M\<close>, of 3, 0 and 1 rows,
  5 columns, tiles of 2 by 4 and two contexts.
\<close>

definition example_consts :: kernel_consts where
  "example_consts =
     \<lparr>G = 3, M = 4, N = 5, M_IS_DYNAMIC = True, N_IS_DYNAMIC = False,
      K = 8, A_IS_2D = True, B_IS_2D = False, K_IS_DYNAMIC = False, NUM_SMS = 2,
      USE_TMA_LOAD = True, USE_FAST_ACCUM = False,
      A_SIZE_M = 4, A_SIZE_K = 8, A_STRIDE_M = 8, A_STRIDE_K = 1,
      A_SIZE_G = None, A_STRIDE_G = None, SCALE_A_STRIDE_G = None,
      B_SIZE_N = 5, B_SIZE_K = 8, B_STRIDE_N = 1, B_STRIDE_K = 5,
      B_SIZE_G = Some 3, B_STRIDE_G = Some 40, SCALE_B_STRIDE_G = Some 5,
      BLOCK_M = 2, BLOCK_N = 4, BLOCK_K = 8\<rparr>"

definition example_offsets :: "int list" where
  "example_offsets = [3, 3, 4]"

definition example_tile :: work_tile where
  "example_tile = mk_tile (group_vars_of example_consts example_offsets 2) 1"

text \<open>
  Scenario B with \<open>B\<close> given per group: the scales of its operands, and the dictionary
  and constants the kernel is instantiated with for the tile sizes 128, 128 and 64.
\<close>

definition scenario_b_scale_a :: TensorBox where
  "scenario_b_scale_a = tensor [1000] [1]"

definition scenario_b_scale_b :: TensorBox where
  "scenario_b_scale_b = tensor [4, 256] [256, 1]"

definition scenario_b_kwargs :: kernel_kwargs where
  "scenario_b_kwargs =
     \<lparr>G = 4, M = 1000, N = 256, M_IS_DYNAMIC = True, N_IS_DYNAMIC = False,
      K = 64, A_IS_2D = True, B_IS_2D = False, K_IS_DYNAMIC = False, NUM_SMS = 132,
      USE_TMA_LOAD = True, USE_FAST_ACCUM = False,
      A_SIZE_M = 1000, A_SIZE_K = 64, A_STRIDE_M = 64, A_STRIDE_K = 1,
      A_SIZE_G = None, A_STRIDE_G = None, SCALE_A_STRIDE_G = None,
      B_SIZE_N = 256, B_SIZE_K = 64, B_STRIDE_N = 64, B_STRIDE_K = 1,
      B_SIZE_G = Some 4, B_STRIDE_G = Some 16384, SCALE_B_STRIDE_G = Some 256\<rparr>"

definition scenario_b_consts :: kernel_consts where
  "scenario_b_consts =
     kernel_kwargs.extend scenario_b_kwargs (kernel_consts.fields 128 128 64)"

definition scenario_b_tile :: work_tile where
  "scenario_b_tile = mk_tile (group_vars_of scenario_b_consts scenario_b_offsets 1) 1"

section \<open>The element size of an operand\<close>

text \<open>
  Modelled from the spec: the spec's \<open>dtype_size\<close>, the size in bytes of an element of a
  tensor. In the program it is \<^verbatim>\<open>torch.dtype.itemsize\<close>, which is not among the
  sources; the pruner does not read it and works with its constant \<open>dtsize\<close>.
\<close>

fun itemsize :: "dtype \<Rightarrow> int" where
  "itemsize Float8_e4m3fn = 1"
| "itemsize Float8_e5m2 = 1"
| "itemsize BFloat16 = 2"
| "itemsize Float16 = 2"
| "itemsize Float32 = 4"
| "itemsize Int32 = 4"

section \<open>Properties\<close>

subsection \<open>The pruner\<close>

lemma num_consumer_groups_of_eq: "num_consumer_groups_of config = AttrInt 0"
  by (simp add: num_consumer_groups_of_def getattr_Config_def)

lemma use_warp_specialization_False: "use_warp_specialization config = Inr False"
  by (simp add: use_warp_specialization_def num_consumer_groups_of_eq)

lemma and_then_Inr [simp]: "and_then (Inr v) f = f v"
  by (simp add: and_then_def)

lemma and_then_Inl [simp]: "and_then (Inl e) f = Inl e"
  by (simp add: and_then_def)

lemma and_then_eq_Inr:
  "and_then r f = Inr y \<longleftrightarrow> (\<exists>v. r = Inr v \<and> f v = Inr y)"
  by (cases r) simp_all

lemma prune_config_keys:
  assumes "kwargs config ''BLOCK_M'' = Some bm" "kwargs config ''BLOCK_N'' = Some bn"
    "kwargs config ''BLOCK_K'' = Some bk"
    "per_group (M_IS_DYNAMIC args) (M args) (G args) = Inr mpg"
    "per_group (N_IS_DYNAMIC args) (N args) (G args) = Inr npg"
  shows "prune_config dev args config =
     (if required_shared_memory dev bm bn bk (num_stages config) > gpu_shared_memory dev
      then Inr (Pruned SharedMemory)
      else if bm > (if hip dev then 32 else 64) \<and> bm > mpg * 2 then Inr (Pruned MTileTooBig)
      else if bm < 128 \<and> bm < mpg div 2 then Inr (Pruned MTileTooSmall)
      else if bn = 0 then Inl ZeroDivisionError
      else if bn > (if hip dev then 32 else 64) \<and> G args * mpg * (npg div bn) < num_sms dev
      then Inr (Pruned NTileTooBig)
      else if bn < 128 \<and> G args * mpg * (npg div bn) > 2 * num_sms dev
      then Inr (Pruned NTileTooSmall)
      else Inr Survives)"
  using assms
  by (auto simp: prune_config_def getitem_def use_warp_specialization_False floordiv_def Let_def)

lemma prune_loop_mem:
  "prune_loop dev args configs acc = Inr out \<Longrightarrow> c \<in> set out \<Longrightarrow>
     c \<in> set acc \<or> (c \<in> set configs \<and> prune_config dev args c = Inr Survives)"
proof (induction configs arbitrary: acc)
  case Nil
  then show ?case by simp
next
  case (Cons a configs)
  show ?case
  proof (cases "prune_config dev args a")
    case (Inl e)
    with Cons.prems show ?thesis by simp
  next
    case (Inr v)
    show ?thesis
    proof (cases v)
      case Survives
      with Inr Cons.prems have "prune_loop dev args configs (acc @ [a]) = Inr out" by simp
      from Cons.IH[OF this Cons.prems(2)] Inr Survives show ?thesis by auto
    next
      case (Pruned x)
      with Inr Cons.prems have "prune_loop dev args configs acc = Inr out" by simp
      from Cons.IH[OF this Cons.prems(2)] show ?thesis by auto
    qed
  qed
qed

lemma early_config_prune_mem:
  "early_config_prune dev args configs = Inr out \<Longrightarrow> c \<in> set out \<Longrightarrow>
     c \<in> set configs \<and> prune_config dev args c = Inr Survives"
  using prune_loop_mem[of dev args configs "[]" out c] by (simp add: early_config_prune_def)

lemma prune_loop_total:
  "(\<And>c. c \<in> set configs \<Longrightarrow> \<exists>v. prune_config dev args c = Inr v) \<Longrightarrow>
   \<exists>out. prune_loop dev args configs acc = Inr out"
proof (induction configs arbitrary: acc)
  case Nil
  then show ?case by simp
next
  case (Cons a configs)
  then obtain v where v: "prune_config dev args a = Inr v" by auto
  show ?case using Cons v by (cases v) auto
qed

lemma NV_keys:
  "c \<in> set NV_CONFIGS \<Longrightarrow>
     \<exists>bm bn bk. kwargs c ''BLOCK_M'' = Some bm \<and> kwargs c ''BLOCK_N'' = Some bn
        \<and> kwargs c ''BLOCK_K'' = Some bk \<and> bn \<noteq> 0"
  by (auto simp: NV_CONFIGS_def)

lemma AMD_keys:
  "c \<in> set AMD_CONFIGS \<Longrightarrow>
     \<exists>bm bn bk. kwargs c ''BLOCK_M'' = Some bm \<and> kwargs c ''BLOCK_N'' = Some bn
        \<and> kwargs c ''BLOCK_K'' = Some bk \<and> bn \<noteq> 0"
  by (auto simp: AMD_CONFIGS_def)

lemma next_power_of_2_32: "next_power_of_2 32 = 32"
  by (simp add: next_power_of_2_def bit_length.simps)

lemma per_group_total:
  "(is_dynamic \<longrightarrow> groups \<noteq> 0) \<Longrightarrow> \<exists>v. per_group is_dynamic extent groups = Inr v"
  by (simp add: per_group_def floordiv_def)

lemma prune_config_total:
  assumes "kwargs config ''BLOCK_M'' = Some bm" "kwargs config ''BLOCK_N'' = Some bn"
    "kwargs config ''BLOCK_K'' = Some bk" "bn \<noteq> 0"
    "M_IS_DYNAMIC args \<or> N_IS_DYNAMIC args \<longrightarrow> G args \<noteq> 0"
  shows "\<exists>v. prune_config dev args config = Inr v"
proof -
  obtain mpg where m: "per_group (M_IS_DYNAMIC args) (M args) (G args) = Inr mpg"
    using per_group_total[of "M_IS_DYNAMIC args" "G args" "M args"] assms(5) by auto
  obtain npg where n: "per_group (N_IS_DYNAMIC args) (N args) (G args) = Inr npg"
    using per_group_total[of "N_IS_DYNAMIC args" "G args" "N args"] assms(5) by auto
  show ?thesis
    unfolding prune_config_keys[OF assms(1-3) m n] using assms(4) by simp
qed

lemma generated_keys:
  "c \<in> set (scaled_grouped_mm_configs dev) \<Longrightarrow>
     \<exists>bm bn bk. kwargs c ''BLOCK_M'' = Some bm \<and> kwargs c ''BLOCK_N'' = Some bn
        \<and> kwargs c ''BLOCK_K'' = Some bk \<and> bn \<noteq> 0"
  using NV_keys AMD_keys by (simp add: scaled_grouped_mm_configs_def split: if_splits)

lemma early_config_prune_generated_total:
  assumes "M_IS_DYNAMIC args \<or> N_IS_DYNAMIC args \<longrightarrow> G args \<noteq> 0"
  shows "\<exists>out. early_config_prune dev args (scaled_grouped_mm_configs dev) = Inr out"
  unfolding early_config_prune_def
proof (rule prune_loop_total)
  fix c assume "c \<in> set (scaled_grouped_mm_configs dev)"
  from generated_keys[OF this] obtain bm bn bk where
    "kwargs c ''BLOCK_M'' = Some bm" "kwargs c ''BLOCK_N'' = Some bn"
    "kwargs c ''BLOCK_K'' = Some bk" "bn \<noteq> 0" by blast
  from prune_config_total[OF this assms] show "\<exists>v. prune_config dev args c = Inr v" .
qed

lemma prune_config_Inr_keys:
  assumes "prune_config dev args config = Inr v"
  shows "\<exists>bm bn bk mpg npg. kwargs config ''BLOCK_M'' = Some bm
      \<and> kwargs config ''BLOCK_N'' = Some bn \<and> kwargs config ''BLOCK_K'' = Some bk
      \<and> per_group (M_IS_DYNAMIC args) (M args) (G args) = Inr mpg
      \<and> per_group (N_IS_DYNAMIC args) (N args) (G args) = Inr npg"
  using assms
  by (auto simp: prune_config_def getitem_def and_then_eq_Inr split: option.splits)



text \<open>
  Claim C2, as amended. The pruner reads \<open>num_consumer_groups\<close> as an attribute of the
  configuration, with default 0; the configurations of both families carry
  \<open>NUM_CONSUMER_GROUPS = 1\<close> as a key of \<open>kwargs\<close>, which this does not read. So for
  every generated configuration \<open>num_consumer_groups >= 1\<close> is false: the partitioning
  check for warp specialization rejects none of them, the checks of oversized \<open>M\<close> and
  \<open>N\<close> tiles are in force, and a configuration within the shared-memory limit survives
  exactly when none of the four tile checks fires.
\<close>

theorem warp_specialization_never_active:
  assumes "config \<in> set (scaled_grouped_mm_configs dev)"
  shows "use_warp_specialization config = Inr False
    \<and> prune_config dev args config \<noteq> Inr (Pruned WarpSpecPartition)
    \<and> (\<exists>bm bn bk. kwargs config ''BLOCK_M'' = Some bm \<and> kwargs config ''BLOCK_N'' = Some bn
          \<and> kwargs config ''BLOCK_K'' = Some bk
          \<and> (\<forall>mpg npg.
                per_group (M_IS_DYNAMIC args) (M args) (G args) = Inr mpg
              \<and> per_group (N_IS_DYNAMIC args) (N args) (G args) = Inr npg
              \<and> required_shared_memory dev bm bn bk (num_stages config) \<le> gpu_shared_memory dev
              \<longrightarrow>
                (bm > (if hip dev then 32 else 64) \<and> bm > mpg * 2
                   \<longrightarrow> prune_config dev args config = Inr (Pruned MTileTooBig))
              \<and> (\<not> (bm > (if hip dev then 32 else 64) \<and> bm > mpg * 2)
                   \<and> \<not> (bm < 128 \<and> bm < mpg div 2)
                   \<and> bn > (if hip dev then 32 else 64)
                   \<and> G args * mpg * (npg div bn) < num_sms dev
                   \<longrightarrow> prune_config dev args config = Inr (Pruned NTileTooBig))
              \<and> (prune_config dev args config = Inr Survives \<longleftrightarrow>
                    \<not> (bm > (if hip dev then 32 else 64) \<and> bm > mpg * 2)
                  \<and> \<not> (bm < 128 \<and> bm < mpg div 2)
                  \<and> \<not> (bn > (if hip dev then 32 else 64)
                        \<and> G args * mpg * (npg div bn) < num_sms dev)
                  \<and> \<not> (bn < 128 \<and> G args * mpg * (npg div bn) > 2 * num_sms dev))))"
proof (intro conjI)
  show "use_warp_specialization config = Inr False"
    by (rule use_warp_specialization_False)
  from generated_keys[OF assms] obtain bm bn bk where
    k: "kwargs config ''BLOCK_M'' = Some bm" "kwargs config ''BLOCK_N'' = Some bn"
       "kwargs config ''BLOCK_K'' = Some bk" and nz: "bn \<noteq> 0" by blast
  show "prune_config dev args config \<noteq> Inr (Pruned WarpSpecPartition)"
  proof
    assume a: "prune_config dev args config = Inr (Pruned WarpSpecPartition)"
    from prune_config_Inr_keys[OF a] k obtain mpg npg where
      p: "per_group (M_IS_DYNAMIC args) (M args) (G args) = Inr mpg"
      "per_group (N_IS_DYNAMIC args) (N args) (G args) = Inr npg" by auto
    from a show False unfolding prune_config_keys[OF k p] by (simp split: if_splits)
  qed
  show "\<exists>bm bn bk. kwargs config ''BLOCK_M'' = Some bm \<and> kwargs config ''BLOCK_N'' = Some bn
          \<and> kwargs config ''BLOCK_K'' = Some bk
          \<and> (\<forall>mpg npg.
                per_group (M_IS_DYNAMIC args) (M args) (G args) = Inr mpg
              \<and> per_group (N_IS_DYNAMIC args) (N args) (G args) = Inr npg
              \<and> required_shared_memory dev bm bn bk (num_stages config) \<le> gpu_shared_memory dev
              \<longrightarrow>
                (bm > (if hip dev then 32 else 64) \<and> bm > mpg * 2
                   \<longrightarrow> prune_config dev args config = Inr (Pruned MTileTooBig))
              \<and> (\<not> (bm > (if hip dev then 32 else 64) \<and> bm > mpg * 2)
                   \<and> \<not> (bm < 128 \<and> bm < mpg div 2)
                   \<and> bn > (if hip dev then 32 else 64)
                   \<and> G args * mpg * (npg div bn) < num_sms dev
                   \<longrightarrow> prune_config dev args config = Inr (Pruned NTileTooBig))
              \<and> (prune_config dev args config = Inr Survives \<longleftrightarrow>
                    \<not> (bm > (if hip dev then 32 else 64) \<and> bm > mpg * 2)
                  \<and> \<not> (bm < 128 \<and> bm < mpg div 2)
                  \<and> \<not> (bn > (if hip dev then 32 else 64)
                        \<and> G args * mpg * (npg div bn) < num_sms dev)
                  \<and> \<not> (bn < 128 \<and> G args * mpg * (npg div bn) > 2 * num_sms dev)))"
  proof (intro exI conjI allI impI; (elim conjE)?)
    show "kwargs config ''BLOCK_M'' = Some bm" "kwargs config ''BLOCK_N'' = Some bn"
      "kwargs config ''BLOCK_K'' = Some bk" by (rule k)+
  next
    fix mpg npg
    assume p: "per_group (M_IS_DYNAMIC args) (M args) (G args) = Inr mpg"
      "per_group (N_IS_DYNAMIC args) (N args) (G args) = Inr npg"
      and r: "required_shared_memory dev bm bn bk (num_stages config) \<le> gpu_shared_memory dev"
    note pc = prune_config_keys[OF k p]
    { assume "(if hip dev then 32 else 64) < bm" "mpg * 2 < bm"
      then show "prune_config dev args config = Inr (Pruned MTileTooBig)"
        unfolding pc using r by simp }
    { assume "\<not> ((if hip dev then 32 else 64) < bm \<and> mpg * 2 < bm)"
        "\<not> (bm < 128 \<and> bm < mpg div 2)" "(if hip dev then 32 else 64) < bn"
        "G args * mpg * (npg div bn) < num_sms dev"
      then show "prune_config dev args config = Inr (Pruned NTileTooBig)"
        unfolding pc using r nz by simp }
    show "prune_config dev args config = Inr Survives \<longleftrightarrow>
                    \<not> (bm > (if hip dev then 32 else 64) \<and> bm > mpg * 2)
                  \<and> \<not> (bm < 128 \<and> bm < mpg div 2)
                  \<and> \<not> (bn > (if hip dev then 32 else 64)
                        \<and> G args * mpg * (npg div bn) < num_sms dev)
                  \<and> \<not> (bn < 128 \<and> G args * mpg * (npg div bn) > 2 * num_sms dev)"
      unfolding pc using r nz by auto
  qed
qed


lemma nv_config_generated:
  "nv_config 64 128 64 3 8 \<in> set NV_CONFIGS" "nv_config 128 128 64 3 4 \<in> set NV_CONFIGS"
  by (simp_all add: nv_config_def NV_CONFIGS_def)

lemma static_problem_per_group:
  "per_group (M_IS_DYNAMIC static_problem) (M static_problem) (G static_problem) = Inr 128"
  "per_group (N_IS_DYNAMIC static_problem) (N static_problem) (G static_problem) = Inr 4096"
  by (simp_all add: per_group_def static_problem_def)

lemma tiny_dynamic_m_per_group:
  "per_group (M_IS_DYNAMIC tiny_dynamic_m) (M tiny_dynamic_m) (G tiny_dynamic_m) = Inr 8"
  "per_group (N_IS_DYNAMIC tiny_dynamic_m) (N tiny_dynamic_m) (G tiny_dynamic_m) = Inr 4096"
  by (simp_all add: per_group_def floordiv_def tiny_dynamic_m_def next_power_of_2_32)

theorem warp_specialization_never_active_witness:
  "nv_config 64 128 64 3 8 \<in> set (scaled_grouped_mm_configs example_device)
   \<and> use_warp_specialization (nv_config 64 128 64 3 8) = Inr False
   \<and> prune_config example_device static_problem (nv_config 64 128 64 3 8)
        \<noteq> Inr (Pruned WarpSpecPartition)"
proof -
  have m: "nv_config 64 128 64 3 8 \<in> set (scaled_grouped_mm_configs example_device)"
    using nv_config_generated(1) by (simp add: scaled_grouped_mm_configs_def example_device_def)
  from warp_specialization_never_active[OF m, of static_problem] m show ?thesis by blast
qed

text \<open>
  Claim C2 as stated fails: for the generated configuration with 8 warps below the
  predicate is false and the configuration survives, although the partitioning check
  would reject every configuration whose \<open>num_warps\<close> is not 4; and the check of oversized
  \<open>M\<close> tiles does reject a generated configuration.
\<close>

theorem warp_specialization_counterexample:
  "nv_config 64 128 64 3 8 \<in> set NV_CONFIGS
   \<and> use_warp_specialization (nv_config 64 128 64 3 8) = Inr False
   \<and> num_warps (nv_config 64 128 64 3 8) = 8
   \<and> prune_config example_device static_problem (nv_config 64 128 64 3 8) = Inr Survives
   \<and> nv_config 128 128 64 3 4 \<in> set NV_CONFIGS
   \<and> prune_config example_device tiny_dynamic_m (nv_config 128 128 64 3 4)
        = Inr (Pruned MTileTooBig)"
proof -
  have a: "prune_config example_device static_problem (nv_config 64 128 64 3 8) = Inr Survives"
    by (subst prune_config_keys[where bm=64 and bn=128 and bk=64, OF _ _ _ static_problem_per_group])
       (simp_all add: nv_config_def example_device_def required_shared_memory_def dtsize_def
          static_problem_def)
  have b: "prune_config example_device tiny_dynamic_m (nv_config 128 128 64 3 4)
             = Inr (Pruned MTileTooBig)"
    by (subst prune_config_keys[where bm=128 and bn=128 and bk=64, OF _ _ _ tiny_dynamic_m_per_group])
       (simp_all add: nv_config_def example_device_def required_shared_memory_def dtsize_def)
  have c: "num_warps (nv_config 64 128 64 3 8) = 8" by (simp add: nv_config_def)
  from a b c nv_config_generated use_warp_specialization_False show ?thesis by simp
qed

subsection \<open>The eligibility gate and the arguments of the lowering\<close>

lemma length2E: "length xs = 2 \<Longrightarrow> (\<And>a b. xs = [a, b] \<Longrightarrow> P) \<Longrightarrow> P"
  by (cases xs; cases "tl xs"; cases "tl (tl xs)") auto

lemma length3E: "length xs = 3 \<Longrightarrow> (\<And>a b c. xs = [a, b, c] \<Longrightarrow> P) \<Longrightarrow> P"
  by (cases xs; cases "tl xs"; cases "tl (tl xs)"; cases "tl (tl (tl xs))") auto

lemma index_2 [simp]:
  "index [a, b] 0 = Inr a" "index [a, b] 1 = Inr b"
  "index [a, b] (- 1) = Inr b" "index [a, b] (- 2) = Inr a"
  by (simp_all add: index_def)

lemma index_3 [simp]:
  "index [a, b, c] 0 = Inr a" "index [a, b, c] 1 = Inr b"
  "index [a, b, c] (- 1) = Inr c" "index [a, b, c] (- 2) = Inr b"
  by (simp_all add: index_def)

lemma index_1 [simp]: "index [a] 0 = Inr a"
  by (simp add: index_def)

text \<open>
  Claim C3, as amended. For operands of rank 2 or 3 the gate returns true exactly when
  the device supports tensor descriptors, there is no bias, and: for \<open>A\<close> 2-D and \<open>B\<close>
  2-D, offsets are present and the last dimension of \<open>B\<close> (\<open>N\<close>) is at least 32; for
  \<open>A\<close> 2-D and \<open>B\<close> 3-D, offsets are present and both the last dimension of \<open>A\<close> and
  the middle dimension of \<open>B\<close> (the contraction dimension \<open>K\<close>, read from each operand)
  are at least 32; for \<open>A\<close> 3-D and \<open>B\<close> 2-D, offsets are present and the first dimension
  of \<open>B\<close> (its contraction dimension) is at least 32; for both 3-D, offsets are absent
  and the last dimensions of \<open>A\<close> (\<open>K\<close>) and of \<open>B\<close> (\<open>N\<close>) are at least 32.
\<close>

theorem can_use_triton_kernel_table:
  assumes "length (get_size mat_a) = 2 \<or> length (get_size mat_a) = 3"
    and "length (get_size mat_b) = 2 \<or> length (get_size mat_b) = 3"
  shows "can_use_triton_kernel dev mat_a mat_b offs bias =
     Inr (triton_tma_device dev \<and> bias = None \<and>
          (if length (get_size mat_a) = 2 then
             (if length (get_size mat_b) = 2
              then offs \<noteq> None \<and> last (get_size mat_b) \<ge> 32
              else offs \<noteq> None \<and> last (get_size mat_a) \<ge> 32 \<and> get_size mat_b ! 1 \<ge> 32)
           else
             (if length (get_size mat_b) = 2
              then offs \<noteq> None \<and> get_size mat_b ! 0 \<ge> 32
              else offs = None \<and> last (get_size mat_a) \<ge> 32 \<and> last (get_size mat_b) \<ge> 32)))"
proof -
  from assms(1) show ?thesis
  proof
    assume a: "length (get_size mat_a) = 2"
    then obtain a0 a1 where sa: "get_size mat_a = [a0, a1]" by (rule length2E)
    from assms(2) show ?thesis
    proof
      assume "length (get_size mat_b) = 2"
      then obtain b0 b1 where "get_size mat_b = [b0, b1]" by (rule length2E)
      with sa show ?thesis by (simp add: can_use_triton_kernel_def)
    next
      assume "length (get_size mat_b) = 3"
      then obtain b0 b1 b2 where "get_size mat_b = [b0, b1, b2]" by (rule length3E)
      with sa show ?thesis by (simp add: can_use_triton_kernel_def)
    qed
  next
    assume a: "length (get_size mat_a) = 3"
    then obtain a0 a1 a2 where sa: "get_size mat_a = [a0, a1, a2]" by (rule length3E)
    from assms(2) show ?thesis
    proof
      assume "length (get_size mat_b) = 2"
      then obtain b0 b1 where "get_size mat_b = [b0, b1]" by (rule length2E)
      with sa show ?thesis by (simp add: can_use_triton_kernel_def)
    next
      assume "length (get_size mat_b) = 3"
      then obtain b0 b1 b2 where "get_size mat_b = [b0, b1, b2]" by (rule length3E)
      with sa show ?thesis by (simp add: can_use_triton_kernel_def)
    qed
  qed
qed

theorem can_use_triton_kernel_table_witness:
  "length (get_size (tensor [1000, 64] [64, 1])) = 2
   \<and> length (get_size (tensor [4, 64, 16] [1024, 1, 64])) = 3
   \<and> can_use_triton_kernel example_device (tensor [1000, 64] [64, 1])
        (tensor [4, 64, 16] [1024, 1, 64]) (Some (offsets_tensor 4)) None = Inr True"
proof -
  have l: "length (get_size (tensor [1000, 64] [64, 1])) = 2"
    "length (get_size (tensor [4, 64, 16] [1024, 1, 64])) = 3"
    by (simp_all add: tensor_def)
  have "can_use_triton_kernel example_device (tensor [1000, 64] [64, 1])
        (tensor [4, 64, 16] [1024, 1, 64]) (Some (offsets_tensor 4)) None = Inr True"
    by (subst can_use_triton_kernel_table) (simp_all add: tensor_def example_device_def)
  with l show ?thesis by simp
qed

text \<open>
  Claim C3 as stated fails in the two mixed cases, where the gate tests the contraction
  dimension of \<open>B\<close> and not \<open>N\<close>: with \<open>A\<close> 2-D and \<open>B\<close> of shape \<open>[4, 64, 16]\<close> the
  gate accepts although \<open>N = 16\<close>, and with \<open>A\<close> of shape \<open>[4, 128, 16]\<close> and \<open>B\<close> of
  shape \<open>[16, 64]\<close> it rejects although \<open>N = 64\<close>.
\<close>

theorem eligibility_table_counterexample:
  "can_use_triton_kernel example_device (tensor [1000, 64] [64, 1])
        (tensor [4, 64, 16] [1024, 1, 64]) (Some (offsets_tensor 4)) None = Inr True
   \<and> spec_eligibility_table True [1000, 64] [4, 64, 16] True False = False
   \<and> can_use_triton_kernel example_device (tensor [4, 128, 16] [2048, 16, 1])
        (tensor [16, 64] [1, 16]) (Some (offsets_tensor 4)) None = Inr False
   \<and> spec_eligibility_table True [4, 128, 16] [16, 64] True False = True"
  by (simp add: can_use_triton_kernel_def tensor_def example_device_def
      spec_eligibility_table_def)


text \<open>
  Claim C7 as stated fails: with \<open>A\<close> 3-D, \<open>B\<close> 2-D and no offsets the gate rejects, and
  the output dimensions computed for these operands are \<open>[128, 64]\<close>.
\<close>

theorem scenario_a_counterexample:
  "can_use_triton_kernel example_device scenario_a_A scenario_a_B None None = Inr False
   \<and> grouped_mm_args scenario_a_A scenario_a_B None None None =
       Inr ([4, 128, 64], [256, 64], FixedLayout ''cuda'' Float8_e4m3fn [128, 64],
            scenario_a_A, scenario_a_B, None)"
  by (simp add: can_use_triton_kernel_def grouped_mm_args_def grouped_mm_dims_def
      py_assert_def scenario_a_A_def scenario_a_B_def tensor_def example_device_def Let_def)

text \<open>
  Claim C7, as amended. With \<open>A\<close> of shape \<open>[4, 128, 64]\<close> and no offsets, the gate
  accepts when \<open>B\<close> is the 3-D tensor of shape \<open>[4, 64, 256]\<close> (\<open>K = 64\<close>,
  \<open>N = 256\<close>), and the output shape is then \<open>[4, 128, 256]\<close>. With \<open>B\<close> the 2-D tensor
  of shape \<open>[256, 64]\<close> and no offsets the gate rejects, because \<open>A\<close> 3-D with \<open>B\<close> 2-D
  requires offsets, and the lowering offers no generated kernel.
\<close>

theorem scenario_a_amended:
  "can_use_triton_kernel example_device scenario_a_A scenario_B_3d None None = Inr True
   \<and> grouped_mm_args scenario_a_A scenario_B_3d None None None =
       Inr ([4, 128, 64], [4, 64, 256], FixedLayout ''cuda'' Float8_e4m3fn [4, 128, 256],
            scenario_a_A, scenario_B_3d, None)
   \<and> can_use_triton_kernel example_device scenario_a_A scenario_a_B None None = Inr False
   \<and> tuned_scaled_grouped_mm example_device example_compiler scenario_a_A scenario_a_B
        (tensor [4, 128] [128, 1]) (tensor [256] [1]) None None None False None =
       Inr \<lparr>aten_choice = True, template_choices = [],
            out_layout = FixedLayout ''cuda'' Float8_e4m3fn [128, 64]\<rparr>"
  by (simp add: can_use_triton_kernel_def grouped_mm_args_def grouped_mm_dims_def
      py_assert_def scenario_a_A_def scenario_a_B_def scenario_B_3d_def tensor_def
      example_device_def tuned_scaled_grouped_mm_def example_compiler_def Let_def)

lemma grouped_mm_args_layout_given:
  assumes "length (get_size mat1) = 2 \<or> length (get_size mat1) = 3"
    and "length (get_size mat2) = 2 \<or> length (get_size mat2) = 3"
  shows "grouped_mm_args mat1 mat2 offs (Some l) out_dtype =
     (if out_dtype = None then Inr (get_size mat1, get_size mat2, l, mat1, mat2, offs)
      else Inl (AssertionError ''out_dtype is ignored if layout is specified.''))"
  using assms by (auto simp: grouped_mm_args_def py_assert_def Let_def)

lemma grouped_mm_args_conflict:
  "\<exists>e. grouped_mm_args mat1 mat2 offs (Some l) (Some d) = Inl e"
  by (simp add: grouped_mm_args_def py_assert_def Let_def)

text \<open>
  Claim C10. A call with both a layout and an output dtype fails in
  \<open>grouped_mm_args\<close>, the first step of the lowering, so the lowering fails with the same
  error before it builds any candidate; for operands of rank 2 or 3 the error is the
  assertion on \<open>out_dtype\<close>. With a layout and no output dtype, \<open>grouped_mm_args\<close>
  returns, and the layout it returns is the one supplied.
\<close>

theorem layout_with_out_dtype_rejected:
  "(\<exists>e. grouped_mm_args mat1 mat2 offs (Some l) (Some d) = Inl e
        \<and> tuned_scaled_grouped_mm dev env mat1 mat2 sc_a sc_b offs bias (Some d)
            use_fast_accum (Some l) = Inl e)
   \<and> ((length (get_size mat1) = 2 \<or> length (get_size mat1) = 3)
      \<and> (length (get_size mat2) = 2 \<or> length (get_size mat2) = 3)
      \<longrightarrow> grouped_mm_args mat1 mat2 offs (Some l) (Some d) =
            Inl (AssertionError ''out_dtype is ignored if layout is specified.'')
        \<and> grouped_mm_args mat1 mat2 offs (Some l) None =
            Inr (get_size mat1, get_size mat2, l, mat1, mat2, offs))"
proof (intro conjI impI)
  obtain e where e: "grouped_mm_args mat1 mat2 offs (Some l) (Some d) = Inl e"
    using grouped_mm_args_conflict by blast
  then have "tuned_scaled_grouped_mm dev env mat1 mat2 sc_a sc_b offs bias (Some d)
            use_fast_accum (Some l) = Inl e"
    by (simp add: tuned_scaled_grouped_mm_def)
  with e show "\<exists>e. grouped_mm_args mat1 mat2 offs (Some l) (Some d) = Inl e
        \<and> tuned_scaled_grouped_mm dev env mat1 mat2 sc_a sc_b offs bias (Some d)
            use_fast_accum (Some l) = Inl e" by blast
next
  assume r: "(length (get_size mat1) = 2 \<or> length (get_size mat1) = 3)
      \<and> (length (get_size mat2) = 2 \<or> length (get_size mat2) = 3)"
  then show "grouped_mm_args mat1 mat2 offs (Some l) (Some d) =
            Inl (AssertionError ''out_dtype is ignored if layout is specified.'')"
    by (simp add: grouped_mm_args_layout_given)
  from r show "grouped_mm_args mat1 mat2 offs (Some l) None =
            Inr (get_size mat1, get_size mat2, l, mat1, mat2, offs)"
    by (simp add: grouped_mm_args_layout_given)
qed

theorem layout_with_out_dtype_rejected_witness:
  "(length (get_size scenario_a_A) = 2 \<or> length (get_size scenario_a_A) = 3)
   \<and> (length (get_size scenario_B_3d) = 2 \<or> length (get_size scenario_B_3d) = 3)
   \<and> grouped_mm_args scenario_a_A scenario_B_3d None
        (Some (FixedLayout ''cuda'' BFloat16 [4, 128, 256])) (Some BFloat16) =
       Inl (AssertionError ''out_dtype is ignored if layout is specified.'')
   \<and> grouped_mm_args scenario_a_A scenario_B_3d None
        (Some (FixedLayout ''cuda'' BFloat16 [4, 128, 256])) None =
       Inr (get_size scenario_a_A, get_size scenario_B_3d,
            FixedLayout ''cuda'' BFloat16 [4, 128, 256], scenario_a_A, scenario_B_3d, None)"
proof -
  have r: "length (get_size scenario_a_A) = 2 \<or> length (get_size scenario_a_A) = 3"
    "length (get_size scenario_B_3d) = 2 \<or> length (get_size scenario_B_3d) = 3"
    by (simp_all add: scenario_a_A_def scenario_B_3d_def tensor_def)
  from layout_with_out_dtype_rejected[of scenario_a_A scenario_B_3d None
      "FixedLayout ''cuda'' BFloat16 [4, 128, 256]" BFloat16] r
  show ?thesis by blast
qed

subsection \<open>The persistent kernel\<close>

lemma mod_between_neq:
  fixes s t x :: int
  assumes "t < x" "x < t + s"
  shows "x mod s \<noteq> t mod s"
proof
  assume "x mod s = t mod s"
  then have "s dvd (x - t)" by (simp add: mod_eq_dvd_iff)
  moreover from assms have "0 < x - t" "x - t < s" by simp_all
  ultimately show False using zdvd_not_zless by blast
qed

lemma filter_upto_skip:
  fixes a b e :: int
  assumes "a \<le> b" and "\<And>x. a \<le> x \<Longrightarrow> x < b \<Longrightarrow> \<not> P x"
  shows "filter P [a..e] = filter P [b..e]"
  using assms
proof (induction "nat (b - a)" arbitrary: a)
  case 0
  then have "a = b" by simp
  then show ?case by simp
next
  case (Suc n)
  then have lt: "a < b" by linarith
  have ih: "filter P [a + 1..e] = filter P [b..e]"
    using Suc.hyps(1)[of "a + 1"] Suc.hyps(2) Suc.prems lt by force
  show ?case
  proof (cases "a \<le> e")
    case True
    then have "[a..e] = a # [a + 1..e]" by (rule upto_rec1)
    moreover have "\<not> P a" using Suc.prems(2)[of a] lt by simp
    ultimately show ?thesis using ih by simp
  next
    case False
    then show ?thesis using lt by simp
  qed
qed

lemma tile_loop_result:
  assumes s: "0 < s" and le: "iterated \<le> t"
  shows "\<exists>t'. tile_loop s iterated num_tiles gv t acc =
            Some (t', acc @ map (\<lambda>x. mk_tile gv (x - iterated))
                              (filter (\<lambda>x. x mod s = t mod s) [t..iterated + num_tiles - 1]))
          \<and> t' mod s = t mod s
          \<and> (if iterated + num_tiles \<le> t then t' = t
              else iterated + num_tiles \<le> t' \<and> t' < iterated + num_tiles + s)"
  using le
proof (induction "nat (iterated + num_tiles - t)" arbitrary: t acc rule: less_induct)
  case less
  show ?case
  proof (cases "iterated + num_tiles \<le> t")
    case True
    then show ?thesis using less.prems
      by (subst tile_loop.simps) simp
  next
    case False
    then have lt: "t < iterated + num_tiles" by simp
    let ?w = "mk_tile gv (t - iterated)"
    have step: "tile_loop s iterated num_tiles gv t acc =
                tile_loop s iterated num_tiles gv (t + s) (acc @ [?w])"
      using lt less.prems by (subst tile_loop.simps) (simp add: mk_tile_def Let_def)
    have "nat (iterated + num_tiles - (t + s)) < nat (iterated + num_tiles - t)"
      using s lt by linarith
    from less.hyps[OF this, of "acc @ [?w]"] less.prems s
    obtain t' where t':
      "tile_loop s iterated num_tiles gv (t + s) (acc @ [?w]) =
         Some (t', (acc @ [?w]) @ map (\<lambda>x. mk_tile gv (x - iterated))
                 (filter (\<lambda>x. x mod s = (t + s) mod s) [t + s..iterated + num_tiles - 1]))"
      "t' mod s = (t + s) mod s"
      "if iterated + num_tiles \<le> t + s then t' = t + s
       else iterated + num_tiles \<le> t' \<and> t' < iterated + num_tiles + s"
      by (auto simp: add.commute)
    have l: "[t..iterated + num_tiles - 1] = t # [t + 1..iterated + num_tiles - 1]"
      using lt by (intro upto_rec1) simp
    have sk: "filter (\<lambda>x. x mod s = t mod s) [t + 1..iterated + num_tiles - 1]
            = filter (\<lambda>x. x mod s = t mod s) [t + s..iterated + num_tiles - 1]"
    proof (rule filter_upto_skip)
      show "t + 1 \<le> t + s" using s by simp
      fix x assume "t + 1 \<le> x" "x < t + s"
      then show "x mod s \<noteq> t mod s" by (intro mod_between_neq) simp_all
    qed
    have "(t + s) mod s = t mod s" by simp
    with t' step l sk lt s show ?thesis
      by (auto split: if_splits)
  qed
qed


lemma cdiv_pos: "0 < x \<Longrightarrow> 0 < d \<Longrightarrow> 0 < cdiv x d"
  unfolding cdiv_def by (simp add: pos_imp_zdiv_pos_iff)

lemma cdiv_nonneg: "0 \<le> x \<Longrightarrow> 0 < d \<Longrightarrow> 0 \<le> cdiv x d"
  unfolding cdiv_def by (simp add: pos_imp_zdiv_nonneg_iff)

lemma group_start_Suc: "group_start offsets (Suc g) = offsets ! g"
  by (simp add: group_start_def)

lemma group_start_le:
  assumes "monotone_offsets kc offsets" "g < nat (G kc)"
  shows "group_start offsets g \<le> offsets ! g"
proof (cases g)
  case 0
  with assms show ?thesis
    by (auto simp: monotone_offsets_def group_start_def list_all_length)
next
  case (Suc n)
  with assms show ?thesis
    by (auto simp: monotone_offsets_def group_start_def intro: sorted_nth_mono)
qed

lemma group_body_unfold:
  assumes "M_IS_DYNAMIC kc \<longrightarrow> m_end_offset st = group_start offsets g"
    and "N_IS_DYNAMIC kc \<and> (M_IS_DYNAMIC kc \<or> 0 < M kc) \<longrightarrow> n_end_offset st = group_start offsets g"
    and "K_IS_DYNAMIC kc \<and> (M_IS_DYNAMIC kc \<or> 0 < M kc) \<longrightarrow> k_end_offset st = group_start offsets g"
  shows "group_body kc offsets (int g) st =
     (if group_m_size kc offsets g > 0 then
        (case tile_loop (NUM_SMS kc) (iterated_tiles st)
                (num_m_tiles (group_vars_of kc offsets g) * num_n_tiles (group_vars_of kc offsets g))
                (group_vars_of kc offsets g) (tidx st) (done_tiles st) of
           None \<Rightarrow> None
         | Some (t, ws) \<Rightarrow>
             Some (st\<lparr>m_end_offset := (if M_IS_DYNAMIC kc then offsets ! g else m_end_offset st),
                      tidx := t, done_tiles := ws,
                      n_end_offset := (if N_IS_DYNAMIC kc then offsets ! g else n_end_offset st),
                      k_end_offset := (if K_IS_DYNAMIC kc then offsets ! g else k_end_offset st),
                      iterated_tiles := iterated_tiles st
                        + num_m_tiles (group_vars_of kc offsets g)
                          * num_n_tiles (group_vars_of kc offsets g)\<rparr>))
      else Some (st\<lparr>m_end_offset := (if M_IS_DYNAMIC kc then offsets ! g else m_end_offset st)\<rparr>))"
proof (cases "group_m_size kc offsets g > 0")
  case True
  then have m: "M_IS_DYNAMIC kc \<or> 0 < M kc" by (auto simp: group_m_size_def split: if_splits)
  with assms have c: "N_IS_DYNAMIC kc \<longrightarrow> n_end_offset st = group_start offsets g"
    "K_IS_DYNAMIC kc \<longrightarrow> k_end_offset st = group_start offsets g" by auto
  show ?thesis
  proof (cases "M_IS_DYNAMIC kc")
    case dyn: True
    with True have "group_start offsets g < offsets ! g" by (simp add: group_m_size_def)
    with dyn assms(1) c show ?thesis
      by (simp add: group_body_def Let_def group_vars_of_def group_m_size_def group_n_size_def
          group_k_size_def cong: option.case_cong prod.case_cong)
  next
    case stat: False
    with True have "0 < M kc" by (simp add: group_m_size_def)
    with stat c show ?thesis
      by (simp add: group_body_def Let_def group_vars_of_def group_m_size_def group_n_size_def
          group_k_size_def cong: option.case_cong prod.case_cong)
  qed
next
  case False
  show ?thesis
  proof (cases "M_IS_DYNAMIC kc")
    case dyn: True
    with False have "\<not> group_start offsets g < offsets ! g" by (simp add: group_m_size_def)
    with dyn assms(1) False show ?thesis
      by (simp add: group_body_def Let_def)
  next
    case stat: False
    with False have "\<not> 0 < M kc" by (simp add: group_m_size_def)
    with stat False show ?thesis
      by (simp add: group_body_def Let_def)
  qed
qed


lemma group_body_step:
  assumes ok: "0 < NUM_SMS kc" "0 < BLOCK_M kc" "0 < BLOCK_N kc" "N_IS_DYNAMIC kc \<or> 0 \<le> N kc"
    and offs: "M_IS_DYNAMIC kc \<or> N_IS_DYNAMIC kc \<or> K_IS_DYNAMIC kc \<longrightarrow> monotone_offsets kc offsets"
    and g: "g < nat (G kc)"
    and J: "iterated_tiles st \<le> tidx st" "tidx st < iterated_tiles st + NUM_SMS kc"
      "tidx st mod NUM_SMS kc = pid mod NUM_SMS kc"
    and cm: "M_IS_DYNAMIC kc \<longrightarrow> m_end_offset st = group_start offsets g"
    and cn: "N_IS_DYNAMIC kc \<and> (M_IS_DYNAMIC kc \<or> 0 < M kc) \<longrightarrow> n_end_offset st = group_start offsets g"
    and ck: "K_IS_DYNAMIC kc \<and> (M_IS_DYNAMIC kc \<or> 0 < M kc) \<longrightarrow> k_end_offset st = group_start offsets g"
  shows "\<exists>st'. group_body kc offsets (int g) st = Some st'
      \<and> done_tiles st' = done_tiles st @ context_tiles kc offsets pid (iterated_tiles st) [g]
      \<and> iterated_tiles st' =
          (if group_m_size kc offsets g > 0
           then iterated_tiles st + num_m_tiles (group_vars_of kc offsets g)
                                    * num_n_tiles (group_vars_of kc offsets g)
           else iterated_tiles st)
      \<and> iterated_tiles st' \<le> tidx st' \<and> tidx st' < iterated_tiles st' + NUM_SMS kc
      \<and> tidx st' mod NUM_SMS kc = pid mod NUM_SMS kc
      \<and> (M_IS_DYNAMIC kc \<longrightarrow> m_end_offset st' = group_start offsets (Suc g))
      \<and> (N_IS_DYNAMIC kc \<and> (M_IS_DYNAMIC kc \<or> 0 < M kc)
            \<longrightarrow> n_end_offset st' = group_start offsets (Suc g))
      \<and> (K_IS_DYNAMIC kc \<and> (M_IS_DYNAMIC kc \<or> 0 < M kc)
            \<longrightarrow> k_end_offset st' = group_start offsets (Suc g))"
proof (cases "group_m_size kc offsets g > 0")
  case True
  let ?gv = "group_vars_of kc offsets g"
  let ?nt = "num_m_tiles ?gv * num_n_tiles ?gv"
  let ?it = "iterated_tiles st"
  let ?s = "NUM_SMS kc"
  have nsz: "0 \<le> group_n_size kc offsets g"
  proof (cases "N_IS_DYNAMIC kc")
    case True
    with offs have "monotone_offsets kc offsets" by simp
    from group_start_le[OF this g] True show ?thesis by (simp add: group_n_size_def)
  next
    case False
    with ok(4) show ?thesis by (simp add: group_n_size_def)
  qed
  have "0 < num_m_tiles ?gv" using True ok(2) by (simp add: group_vars_of_def cdiv_pos)
  moreover have "0 \<le> num_n_tiles ?gv" using nsz ok(3) by (simp add: group_vars_of_def cdiv_nonneg)
  ultimately have nt: "0 \<le> ?nt" by simp
  from tile_loop_result[OF ok(1) J(1), of ?nt ?gv "done_tiles st"]
  obtain t' where t':
    "tile_loop ?s ?it ?nt ?gv (tidx st) (done_tiles st) =
       Some (t', done_tiles st @ map (\<lambda>x. mk_tile ?gv (x - ?it))
                (filter (\<lambda>x. x mod ?s = tidx st mod ?s) [tidx st..?it + ?nt - 1]))"
    "t' mod ?s = tidx st mod ?s"
    "if ?it + ?nt \<le> tidx st then t' = tidx st
     else ?it + ?nt \<le> t' \<and> t' < ?it + ?nt + ?s" by blast
  have sk: "filter (\<lambda>x. x mod ?s = tidx st mod ?s) [?it..?it + ?nt - 1]
          = filter (\<lambda>x. x mod ?s = tidx st mod ?s) [tidx st..?it + ?nt - 1]"
  proof (rule filter_upto_skip)
    show "?it \<le> tidx st" by (rule J(1))
    fix x assume x: "?it \<le> x" "x < tidx st"
    have "tidx st mod ?s \<noteq> x mod ?s"
      by (rule mod_between_neq) (use x J(2) in simp_all)
    then show "x mod ?s \<noteq> tidx st mod ?s" by simp
  qed
  have em: "context_tiles kc offsets pid ?it [g] =
      map (\<lambda>x. mk_tile ?gv (x - ?it))
        (filter (\<lambda>x. x mod ?s = tidx st mod ?s) [tidx st..?it + ?nt - 1])"
    using True sk J(3) by (simp add: strided_def Let_def)
  let ?st' = "st\<lparr>m_end_offset := (if M_IS_DYNAMIC kc then offsets ! g else m_end_offset st),
                      tidx := t',
                      done_tiles := done_tiles st @ context_tiles kc offsets pid ?it [g],
                      n_end_offset := (if N_IS_DYNAMIC kc then offsets ! g else n_end_offset st),
                      k_end_offset := (if K_IS_DYNAMIC kc then offsets ! g else k_end_offset st),
                      iterated_tiles := ?it + ?nt\<rparr>"
  have gb: "group_body kc offsets (int g) st = Some ?st'"
    unfolding group_body_unfold[OF cm cn ck] using True t'(1) em by simp
  have b1: "?it + ?nt \<le> t'" using t'(3) by (simp split: if_splits)
  have b2: "t' < ?it + ?nt + ?s" using t'(3) J(2) nt by (simp split: if_splits)
  have b3: "t' mod ?s = pid mod ?s" using t'(2) J(3) by simp
  show ?thesis
  proof (intro exI[of _ ?st'] conjI)
    show "group_body kc offsets (int g) st = Some ?st'" by (rule gb)
  qed (use True b1 b2 b3 in \<open>simp_all add: group_start_Suc\<close>)
next
  case False
  have eq: "M_IS_DYNAMIC kc \<longrightarrow> group_start offsets g = offsets ! g"
  proof
    assume d: "M_IS_DYNAMIC kc"
    with offs have "monotone_offsets kc offsets" by simp
    from group_start_le[OF this g] False d show "group_start offsets g = offsets ! g"
      by (simp add: group_m_size_def)
  qed
  have nm: "M_IS_DYNAMIC kc \<or> \<not> 0 < M kc"
    using False by (auto simp: group_m_size_def)
  let ?st' = "st\<lparr>m_end_offset := (if M_IS_DYNAMIC kc then offsets ! g else m_end_offset st)\<rparr>"
  have gb: "group_body kc offsets (int g) st = Some ?st'"
    unfolding group_body_unfold[OF cm cn ck] using False by simp
  show ?thesis
  proof (intro exI[of _ ?st'] conjI)
    show "group_body kc offsets (int g) st = Some ?st'" by (rule gb)
  qed (use False J cn ck eq nm in \<open>auto simp: group_start_Suc\<close>)
qed


lemma group_loop_result:
  assumes ok: "0 < NUM_SMS kc" "0 < BLOCK_M kc" "0 < BLOCK_N kc" "N_IS_DYNAMIC kc \<or> 0 \<le> N kc"
    and offs: "M_IS_DYNAMIC kc \<or> N_IS_DYNAMIC kc \<or> K_IS_DYNAMIC kc \<longrightarrow> monotone_offsets kc offsets"
    and b: "b \<le> nat (G kc)"
    and J: "iterated_tiles st \<le> tidx st" "tidx st < iterated_tiles st + NUM_SMS kc"
      "tidx st mod NUM_SMS kc = pid mod NUM_SMS kc"
    and cm: "M_IS_DYNAMIC kc \<longrightarrow> m_end_offset st = group_start offsets a"
    and cn: "N_IS_DYNAMIC kc \<and> (M_IS_DYNAMIC kc \<or> 0 < M kc) \<longrightarrow> n_end_offset st = group_start offsets a"
    and ck: "K_IS_DYNAMIC kc \<and> (M_IS_DYNAMIC kc \<or> 0 < M kc) \<longrightarrow> k_end_offset st = group_start offsets a"
  shows "\<exists>st'. group_loop kc offsets [a..<b] st = Some st'
      \<and> done_tiles st' = done_tiles st @ context_tiles kc offsets pid (iterated_tiles st) [a..<b]"
  using J cm cn ck
proof (induction "b - a" arbitrary: a st)
  case 0
  then show ?case by simp
next
  case (Suc n)
  then have ab: "a < b" and l: "[a..<b] = a # [Suc a..<b]" by (simp_all add: upt_conv_Cons)
  from ab b have g: "a < nat (G kc)" by simp
  from group_body_step[OF ok offs g Suc.prems]
  obtain st1 where st1: "group_body kc offsets (int a) st = Some st1"
    "done_tiles st1 = done_tiles st @ context_tiles kc offsets pid (iterated_tiles st) [a]"
    "iterated_tiles st1 =
          (if group_m_size kc offsets a > 0
           then iterated_tiles st + num_m_tiles (group_vars_of kc offsets a)
                                    * num_n_tiles (group_vars_of kc offsets a)
           else iterated_tiles st)"
    and inv: "iterated_tiles st1 \<le> tidx st1" "tidx st1 < iterated_tiles st1 + NUM_SMS kc"
      "tidx st1 mod NUM_SMS kc = pid mod NUM_SMS kc"
      "M_IS_DYNAMIC kc \<longrightarrow> m_end_offset st1 = group_start offsets (Suc a)"
      "N_IS_DYNAMIC kc \<and> (M_IS_DYNAMIC kc \<or> 0 < M kc)
            \<longrightarrow> n_end_offset st1 = group_start offsets (Suc a)"
      "K_IS_DYNAMIC kc \<and> (M_IS_DYNAMIC kc \<or> 0 < M kc)
            \<longrightarrow> k_end_offset st1 = group_start offsets (Suc a)"
    by blast
  have "n = b - Suc a" using Suc.hyps(2) by simp
  from Suc.hyps(1)[OF this inv]
  obtain st' where st': "group_loop kc offsets [Suc a..<b] st1 = Some st'"
    "done_tiles st' = done_tiles st1 @ context_tiles kc offsets pid (iterated_tiles st1) [Suc a..<b]"
    by blast
  show ?case
    using st1 st' by (simp add: l Let_def)
qed

lemma kernel_result:
  assumes ok: "0 < NUM_SMS kc" "0 < BLOCK_M kc" "0 < BLOCK_N kc" "N_IS_DYNAMIC kc \<or> 0 \<le> N kc"
    and offs: "M_IS_DYNAMIC kc \<or> N_IS_DYNAMIC kc \<or> K_IS_DYNAMIC kc \<longrightarrow> monotone_offsets kc offsets"
    and pid: "0 \<le> pid" "pid < NUM_SMS kc"
  shows "kernel kc offsets pid = Some (context_tiles kc offsets pid 0 [0..<nat (G kc)])"
proof -
  let ?st = "\<lparr>tidx = pid, iterated_tiles = 0, m_end_offset = 0, n_end_offset = 0,
           k_end_offset = 0, done_tiles = []\<rparr>"
  have "\<exists>st'. group_loop kc offsets [0..<nat (G kc)] ?st = Some st'
      \<and> done_tiles st' = done_tiles ?st @ context_tiles kc offsets pid (iterated_tiles ?st) [0..<nat (G kc)]"
    by (rule group_loop_result[OF ok offs]) (use pid in \<open>simp_all add: group_start_def\<close>)
  then show ?thesis by (auto simp: kernel_def)
qed

lemma upto_shift: "[a..a + c] = map (\<lambda>i. a + i) [0..c]"
  by (auto simp: list_eq_iff_nth_eq)

lemma sum_list_mset_delta:
  "(\<Sum>p\<leftarrow>[0..<n]. if p = a then c else ({#} :: 'a multiset)) = (if a < n then c else {#})"
  by (induction n) auto

lemma sum_list_mset_add:
  "(\<Sum>p\<leftarrow>ps. f p + (g p :: 'a multiset)) = (\<Sum>p\<leftarrow>ps. f p) + (\<Sum>p\<leftarrow>ps. g p)"
  by (induction ps) auto

lemma image_mset_sum_list:
  "image_mset h (\<Sum>p\<leftarrow>ps. f p) = (\<Sum>p\<leftarrow>ps. image_mset h (f p))"
  by (induction ps) auto

lemma residue_classes_partition:
  fixes s :: int
  assumes "0 < s"
  shows "(\<Sum>p\<leftarrow>[0..<nat s]. filter_mset (\<lambda>x. x mod s = int p mod s) A) = A"
proof (induction A)
  case empty
  show ?case by (induction "nat s") simp_all
next
  case (add x A)
  have c: "(\<Sum>p\<leftarrow>[0..<nat s]. if x mod s = int p mod s then {#x#} else {#})
         = (\<Sum>p\<leftarrow>[0..<nat s]. if p = nat (x mod s) then {#x#} else {#})"
  proof (rule arg_cong[where f = sum_list], rule map_cong[OF refl])
    fix p assume "p \<in> set [0..<nat s]"
    then have "int p mod s = int p" using assms by simp
    moreover have "0 \<le> x mod s" using assms by simp
    ultimately show "(if x mod s = int p mod s then {#x#} else {#})
        = (if p = nat (x mod s) then {#x#} else ({#} :: int multiset))"
      by auto
  qed
  have lt: "nat (x mod s) < nat s" using assms by (simp add: nat_less_iff)
  have "(\<Sum>p\<leftarrow>[0..<nat s]. filter_mset (\<lambda>x. x mod s = int p mod s) (add_mset x A))
      = (\<Sum>p\<leftarrow>[0..<nat s]. (if x mod s = int p mod s then {#x#} else {#})
            + filter_mset (\<lambda>x. x mod s = int p mod s) A)"
    by (rule arg_cong[where f = sum_list], rule map_cong[OF refl]) simp
  also have "\<dots> = {#x#} + A"
    unfolding sum_list_mset_add c sum_list_mset_delta using lt add.IH by simp
  finally show ?case by simp
qed

lemma decode_tiles:
  fixes nm :: int
  assumes "0 < nm"
  shows "map (\<lambda>k. (c, k mod nm, k div nm)) [0..nm * int n - 1]
       = concat (map (\<lambda>j. map (\<lambda>i. (c, i, j)) [0..nm - 1]) [0..int n - 1])"
proof (induction n)
  case 0
  show ?case by simp
next
  case (Suc n)
  have s1: "[0..nm * int (Suc n) - 1] = [0..nm * int n - 1] @ [nm * int n..nm * int n + (nm - 1)]"
  proof -
    have "[0..nm * int (Suc n) - 1] = [0..nm * int n - 1] @ [nm * int n..nm * int (Suc n) - 1]"
      using assms by (intro upto_split1) (simp_all add: algebra_simps)
    then show ?thesis by (simp add: algebra_simps)
  qed
  have s2: "[0..int (Suc n) - 1] = [0..int n - 1] @ [int n]"
    using upto_rec2[of 0 "int n"] by simp
  have last: "map (\<lambda>k. (c, k mod nm, k div nm)) [nm * int n..nm * int n + (nm - 1)]
            = map (\<lambda>i. (c, i, int n)) [0..nm - 1]"
    unfolding upto_shift[of "nm * int n" "nm - 1"] map_map
  proof (rule map_cong[OF refl])
    fix i assume "i \<in> set [0..nm - 1]"
    then have i: "0 \<le> i" "i < nm" by simp_all
    then have "(nm * int n + i) mod nm = i" "(nm * int n + i) div nm = int n"
      using assms by simp_all
    then show "((\<lambda>k. (c, k mod nm, k div nm)) \<circ> (\<lambda>i. nm * int n + i)) i = (c, i, int n)"
      by simp
  qed
  show ?case unfolding s1 s2 using Suc.IH last by simp
qed

lemma cdiv_zero: "0 < d \<Longrightarrow> cdiv 0 d = 0"
  by (simp add: cdiv_def)

lemma group_contexts:
  assumes s: "0 < NUM_SMS kc" and bm: "0 < BLOCK_M kc" and bn: "0 < BLOCK_N kc"
    and m: "0 < group_m_size kc offsets g" and n: "0 \<le> group_n_size kc offsets g"
  shows "(\<Sum>p\<leftarrow>[0..<nat (NUM_SMS kc)].
            mset (map tile_coords
              (map (\<lambda>x. mk_tile (group_vars_of kc offsets g) (x - iterated))
                (strided (NUM_SMS kc) (int p) iterated
                   (iterated + num_m_tiles (group_vars_of kc offsets g)
                               * num_n_tiles (group_vars_of kc offsets g))))))
       = mset (group_tiles kc offsets g)"
proof -
  let ?gv = "group_vars_of kc offsets g"
  let ?nm = "num_m_tiles ?gv" and ?nn = "num_n_tiles ?gv"
  let ?nt = "?nm * ?nn"
  let ?h = "\<lambda>x. tile_coords (mk_tile ?gv (x - iterated))"
  have nm: "0 < ?nm" using m bm by (simp add: group_vars_of_def cdiv_pos)
  have nn: "0 \<le> ?nn" using n bn by (simp add: group_vars_of_def cdiv_nonneg)
  have "(\<Sum>p\<leftarrow>[0..<nat (NUM_SMS kc)].
            mset (map tile_coords (map (\<lambda>x. mk_tile ?gv (x - iterated))
                (strided (NUM_SMS kc) (int p) iterated (iterated + ?nt)))))
      = (\<Sum>p\<leftarrow>[0..<nat (NUM_SMS kc)].
            image_mset ?h (filter_mset (\<lambda>x. x mod NUM_SMS kc = int p mod NUM_SMS kc)
                             (mset [iterated..iterated + ?nt - 1])))"
    by (simp add: strided_def multiset.map_comp comp_def)
  also have "\<dots> = image_mset ?h (mset [iterated..iterated + ?nt - 1])"
    unfolding image_mset_sum_list[symmetric] residue_classes_partition[OF s] ..
  also have "\<dots> = mset (map ?h [iterated..iterated + (?nt - 1)])"
    by (simp add: algebra_simps)
  also have "map ?h [iterated..iterated + (?nt - 1)]
           = map (\<lambda>k. (int g, k mod ?nm, k div ?nm)) [0..?nt - 1]"
    unfolding upto_shift[of iterated "?nt - 1"]
    by (simp add: comp_def tile_coords_def mk_tile_def group_vars_of_def)
  also have "\<dots> = concat (map (\<lambda>j. map (\<lambda>i. (int g, i, j)) [0..?nm - 1]) [0..?nn - 1])"
    using decode_tiles[OF nm, of "int g" "nat ?nn"] nn by simp
  also have "mset \<dots> = mset (group_tiles kc offsets g)"
  proof (cases "0 < group_n_size kc offsets g")
    case True
    with m show ?thesis by (simp add: group_tiles_def group_vars_of_def)
  next
    case False
    with n have "group_n_size kc offsets g = 0" by simp
    then have "?nn = 0" using bn by (simp add: group_vars_of_def cdiv_zero)
    with False show ?thesis by (simp add: group_tiles_def)
  qed
  finally show ?thesis .
qed

lemma group_n_size_nonneg:
  assumes "N_IS_DYNAMIC kc \<or> 0 \<le> N kc"
    and "M_IS_DYNAMIC kc \<or> N_IS_DYNAMIC kc \<or> K_IS_DYNAMIC kc \<longrightarrow> monotone_offsets kc offsets"
    and "g < nat (G kc)"
  shows "0 \<le> group_n_size kc offsets g"
proof (cases "N_IS_DYNAMIC kc")
  case True
  with assms(2) have "monotone_offsets kc offsets" by simp
  from group_start_le[OF this assms(3)] True show ?thesis by (simp add: group_n_size_def)
next
  case False
  with assms(1) show ?thesis by (simp add: group_n_size_def)
qed

lemma contexts_cover_groups:
  assumes ok: "0 < NUM_SMS kc" "0 < BLOCK_M kc" "0 < BLOCK_N kc" "N_IS_DYNAMIC kc \<or> 0 \<le> N kc"
    and offs: "M_IS_DYNAMIC kc \<or> N_IS_DYNAMIC kc \<or> K_IS_DYNAMIC kc \<longrightarrow> monotone_offsets kc offsets"
    and gs: "\<And>g. g \<in> set gs \<Longrightarrow> g < nat (G kc)"
  shows "(\<Sum>p\<leftarrow>[0..<nat (NUM_SMS kc)].
            mset (map tile_coords (context_tiles kc offsets (int p) iterated gs)))
       = mset (concat (map (group_tiles kc offsets) gs))"
  using gs
proof (induction gs arbitrary: iterated)
  case Nil
  show ?case by (induction "nat (NUM_SMS kc)") simp_all
next
  case (Cons g gs)
  have g: "g < nat (G kc)" using Cons.prems by simp
  have ih: "\<And>it. (\<Sum>p\<leftarrow>[0..<nat (NUM_SMS kc)].
            mset (map tile_coords (context_tiles kc offsets (int p) it gs)))
       = mset (concat (map (group_tiles kc offsets) gs))"
    using Cons.IH Cons.prems by simp
  show ?case
  proof (cases "0 < group_m_size kc offsets g")
    case True
    note gc = group_contexts[OF ok(1-3) True group_n_size_nonneg[OF ok(4) offs g]]
    have eq: "\<And>p. mset (map tile_coords (context_tiles kc offsets (int p) iterated (g # gs)))
        = mset (map tile_coords
              (map (\<lambda>x. mk_tile (group_vars_of kc offsets g) (x - iterated))
                (strided (NUM_SMS kc) (int p) iterated
                   (iterated + num_m_tiles (group_vars_of kc offsets g)
                               * num_n_tiles (group_vars_of kc offsets g)))))
          + mset (map tile_coords (context_tiles kc offsets (int p)
                   (iterated + num_m_tiles (group_vars_of kc offsets g)
                               * num_n_tiles (group_vars_of kc offsets g)) gs))"
      using True by (simp add: Let_def)
    show ?thesis
      unfolding eq sum_list_mset_add gc ih by simp
  next
    case False
    then have eq: "\<And>p. context_tiles kc offsets (int p) iterated (g # gs)
        = context_tiles kc offsets (int p) iterated gs" by simp
    have e: "group_tiles kc offsets g = []" using False by (simp add: group_tiles_def)
    show ?thesis unfolding eq ih by (simp add: e)
  qed
qed

lemma collect_Some:
  "(\<And>x. x \<in> set xs \<Longrightarrow> f x = Some (h x)) \<Longrightarrow> collect (map f xs) = Some (concat (map h xs))"
  by (induction xs) simp_all

lemma launch_result:
  assumes ok: "0 < NUM_SMS kc" "0 < BLOCK_M kc" "0 < BLOCK_N kc" "N_IS_DYNAMIC kc \<or> 0 \<le> N kc"
    and offs: "M_IS_DYNAMIC kc \<or> N_IS_DYNAMIC kc \<or> K_IS_DYNAMIC kc \<longrightarrow> monotone_offsets kc offsets"
  shows "launch kc offsets =
     Some (concat (map (\<lambda>p. context_tiles kc offsets (int p) 0 [0..<nat (G kc)])
                     [0..<nat (NUM_SMS kc)]))"
  unfolding launch_def
proof (rule collect_Some)
  fix p assume "p \<in> set [0..<nat (NUM_SMS kc)]"
  then have "0 \<le> int p" "int p < NUM_SMS kc" by simp_all
  from kernel_result[OF ok offs this]
  show "kernel kc offsets (int p) = Some (context_tiles kc offsets (int p) 0 [0..<nat (G kc)])" .
qed

lemma product_tiles:
  "concat (map (\<lambda>j. map (\<lambda>i. (c, i, j)) is) js)
     = map (\<lambda>(j, i). (c, i, j)) (List.product js is)"
  by (induction js) simp_all

lemma group_tiles_distinct: "distinct (group_tiles kc offsets g)"
proof -
  have "inj_on (\<lambda>(j, i). (int g, i, j)) A" for A :: "(int \<times> int) set"
    by (auto simp: inj_on_def)
  then show ?thesis
    by (simp add: group_tiles_def product_tiles distinct_map distinct_product)
qed

lemma group_tiles_group: "x \<in> set (group_tiles kc offsets g) \<Longrightarrow> fst x = int g"
  by (auto simp: group_tiles_def split: if_splits)

lemma reference_upto_distinct:
  "distinct (concat (map (group_tiles kc offsets) [0..<n]))
   \<and> (\<forall>x \<in> set (concat (map (group_tiles kc offsets) [0..<n])). fst x < int n)"
proof (induction n)
  case 0
  show ?case by simp
next
  case (Suc n)
  let ?old = "concat (map (group_tiles kc offsets) [0..<n])"
  from Suc have o: "distinct ?old" "\<And>x. x \<in> set ?old \<Longrightarrow> fst x < int n" by blast+
  have d: "set ?old \<inter> set (group_tiles kc offsets n) = {}"
  proof (rule ccontr)
    assume "set ?old \<inter> set (group_tiles kc offsets n) \<noteq> {}"
    then obtain x where "x \<in> set ?old" "x \<in> set (group_tiles kc offsets n)" by blast
    with o(2)[of x] group_tiles_group[of x kc offsets n] show False by simp
  qed
  have b: "fst x < int (Suc n)"
    if "x \<in> set (concat (map (group_tiles kc offsets) [0..<Suc n]))" for x
  proof -
    from that have "x \<in> set ?old \<or> x \<in> set (group_tiles kc offsets n)" by simp
    then show ?thesis
    proof
      assume "x \<in> set ?old"
      from o(2)[OF this] show ?thesis by simp
    next
      assume "x \<in> set (group_tiles kc offsets n)"
      from group_tiles_group[OF this] show ?thesis by simp
    qed
  qed
  have "distinct (concat (map (group_tiles kc offsets) [0..<Suc n]))"
    using o(1) d group_tiles_distinct[of kc offsets n] by simp
  with b show ?case by blast
qed

lemma reference_tiles_distinct: "distinct (reference_tiles kc offsets)"
  unfolding reference_tiles_def using reference_upto_distinct by blast

text \<open>
  Claim C1. Let the block sizes and the number of contexts be positive, a static \<open>N\<close>
  be non-negative, and the offsets of a kernel with a dynamic dimension be one per group,
  non-negative and non-decreasing. Then every context \<open>0, ..., NUM_SMS - 1\<close> returns,
  and the work items \<open>(group, tile_m_idx, tile_n_idx)\<close> of all contexts together are, as a
  multiset, the reference enumeration: for each group of positive row and column extent
  the Cartesian product of its \<open>cdiv(m_size, BLOCK_M)\<close> tiles along \<open>M\<close> and its
  \<open>cdiv(n_size, BLOCK_N)\<close> tiles along \<open>N\<close>. No work item is computed twice. Groups of
  extent zero contribute nothing, and an extent that is no multiple of the block size
  contributes its rounded-up number of tiles.
\<close>

theorem tile_enumeration_complete:
  assumes "0 < NUM_SMS kc" and "0 < BLOCK_M kc" and "0 < BLOCK_N kc"
    and "N_IS_DYNAMIC kc \<or> 0 \<le> N kc"
    and "M_IS_DYNAMIC kc \<or> N_IS_DYNAMIC kc \<or> K_IS_DYNAMIC kc \<longrightarrow> monotone_offsets kc offsets"
  shows "\<exists>ws. launch kc offsets = Some ws
            \<and> mset (map tile_coords ws) = mset (reference_tiles kc offsets)
            \<and> distinct (map tile_coords ws)"
proof -
  let ?ws = "concat (map (\<lambda>p. context_tiles kc offsets (int p) 0 [0..<nat (G kc)])
                     [0..<nat (NUM_SMS kc)])"
  have "mset (map tile_coords ?ws)
      = (\<Sum>p\<leftarrow>[0..<nat (NUM_SMS kc)].
            mset (map tile_coords (context_tiles kc offsets (int p) 0 [0..<nat (G kc)])))"
    by (simp add: map_concat mset_concat comp_def)
  also have "\<dots> = mset (reference_tiles kc offsets)"
    unfolding reference_tiles_def by (rule contexts_cover_groups[OF assms]) simp
  finally have m: "mset (map tile_coords ?ws) = mset (reference_tiles kc offsets)" .
  then have "distinct (map tile_coords ?ws)"
    using reference_tiles_distinct mset_eq_imp_distinct_iff by blast
  with m launch_result[OF assms] show ?thesis by blast
qed

lemma example_reference:
  "reference_tiles example_consts example_offsets
     = [(0, 0, 0), (0, 1, 0), (0, 0, 1), (0, 1, 1), (2, 0, 0), (2, 0, 1)]"
  by (simp add: reference_tiles_def group_tiles_def group_m_size_def group_n_size_def
      group_start_def cdiv_def example_consts_def example_offsets_def upt_rec upto_rec1)

theorem tile_enumeration_complete_witness:
  "0 < NUM_SMS example_consts \<and> 0 < BLOCK_M example_consts \<and> 0 < BLOCK_N example_consts
   \<and> 0 \<le> N example_consts \<and> monotone_offsets example_consts example_offsets
   \<and> (\<exists>ws. launch example_consts example_offsets = Some ws
          \<and> mset (map tile_coords ws)
              = mset [(0, 0, 0), (0, 1, 0), (0, 0, 1), (0, 1, 1), (2, 0, 0), (2, 0, 1)]
          \<and> distinct (map tile_coords ws))"
proof -
  have h: "0 < NUM_SMS example_consts" "0 < BLOCK_M example_consts" "0 < BLOCK_N example_consts"
    "0 \<le> N example_consts" "monotone_offsets example_consts example_offsets"
    by (simp_all add: example_consts_def example_offsets_def monotone_offsets_def)
  from tile_enumeration_complete[of example_consts example_offsets] h
  show ?thesis by (simp add: example_reference)
qed

subsection \<open>Scaling and storing a tile\<close>

lemma context_tiles_vars:
  "w \<in> set (context_tiles kc offsets pid iterated gs) \<Longrightarrow>
     \<exists>g \<in> set gs. vars w = group_vars_of kc offsets g"
proof (induction gs arbitrary: iterated)
  case Nil
  then show ?case by simp
next
  case (Cons g gs)
  show ?case
  proof (cases "0 < group_m_size kc offsets g")
    case True
    with Cons.prems have "(\<exists>x. w = mk_tile (group_vars_of kc offsets g) x)
        \<or> w \<in> set (context_tiles kc offsets pid
              (iterated + num_m_tiles (group_vars_of kc offsets g)
                        * num_n_tiles (group_vars_of kc offsets g)) gs)"
      by (auto simp: Let_def)
    then show ?thesis
    proof
      assume "\<exists>x. w = mk_tile (group_vars_of kc offsets g) x"
      then show ?thesis by (auto simp: mk_tile_def)
    next
      assume "w \<in> set (context_tiles kc offsets pid
              (iterated + num_m_tiles (group_vars_of kc offsets g)
                        * num_n_tiles (group_vars_of kc offsets g)) gs)"
      from Cons.IH[OF this] show ?thesis by auto
    qed
  next
    case False
    with Cons.prems have "w \<in> set (context_tiles kc offsets pid iterated gs)" by simp
    from Cons.IH[OF this] show ?thesis by auto
  qed
qed

text \<open>
  Claim C6. Under the conditions of claim C1, take any value that a context stores for
  a tile it computed, at row \<open>i\<close> and column \<open>j\<close> of the tile. The tile belongs to a group
  \<open>g\<close>. The row scale is loaded from the tile's row offset \<open>tile_m_idx * BLOCK_M + i\<close>
  plus a base: with \<open>A\<close> 2-D the base is the running start offset of the group when \<open>M\<close> is
  dynamic and \<open>g * M\<close> when it is static, with \<open>A\<close> 3-D it is \<open>g * SCALE_A_STRIDE_G\<close>; the
  column scale likewise with \<open>B\<close>, \<open>N\<close> and \<open>SCALE_B_STRIDE_G\<close>. The value stored is the
  accumulator times the row scale times the column scale. The index of the store has
  the group as a separate first coordinate exactly when neither \<open>M\<close> nor \<open>N\<close> is dynamic;
  otherwise it is the pair of absolute row and column. Only rows and columns inside the
  extents of the group are stored.
\<close>

theorem scale_and_store_addresses:
  assumes "0 < NUM_SMS kc" and "0 < BLOCK_M kc" and "0 < BLOCK_N kc"
    and "N_IS_DYNAMIC kc \<or> 0 \<le> N kc"
    and "M_IS_DYNAMIC kc \<or> N_IS_DYNAMIC kc \<or> K_IS_DYNAMIC kc \<longrightarrow> monotone_offsets kc offsets"
    and "\<not> A_IS_2D kc \<longrightarrow> SCALE_A_STRIDE_G kc = Some scale_a_stride_g"
    and "\<not> B_IS_2D kc \<longrightarrow> SCALE_B_STRIDE_G kc = Some scale_b_stride_g"
    and "0 \<le> pid" and "pid < NUM_SMS kc"
    and "kernel kc offsets pid = Some ws" and "w \<in> set ws"
    and "(idx, v) \<in> set (store_output kc mul accumulator scale_a_ptr scale_b_ptr w)"
  shows "\<exists>g i j. g < nat (G kc) \<and> group (vars w) = int g
      \<and> 0 \<le> i \<and> i < BLOCK_M kc \<and> 0 \<le> j \<and> j < BLOCK_N kc
      \<and> tile_m_idx w * BLOCK_M kc + i < group_m_size kc offsets g
      \<and> tile_n_idx w * BLOCK_N kc + j < group_n_size kc offsets g
      \<and> v = Some (mul (mul (accumulator i j)
                 (scale_a_ptr
                    ((if A_IS_2D kc
                      then (if M_IS_DYNAMIC kc then group_start offsets g else int g * M kc)
                      else int g * scale_a_stride_g)
                     + (tile_m_idx w * BLOCK_M kc + i))))
                 (scale_b_ptr
                    ((if B_IS_2D kc
                      then (if N_IS_DYNAMIC kc then group_start offsets g else int g * N kc)
                      else int g * scale_b_stride_g)
                     + (tile_n_idx w * BLOCK_N kc + j))))
      \<and> idx = (if \<not> M_IS_DYNAMIC kc \<and> \<not> N_IS_DYNAMIC kc
                then [int g, tile_m_idx w * BLOCK_M kc + i, tile_n_idx w * BLOCK_N kc + j]
                else [(if M_IS_DYNAMIC kc then group_start offsets g else 0)
                        + (tile_m_idx w * BLOCK_M kc + i),
                      (if N_IS_DYNAMIC kc then group_start offsets g else 0)
                        + (tile_n_idx w * BLOCK_N kc + j)])"
proof -
  from kernel_result[OF assms(1-5) assms(8,9)] assms(10,11)
  have "w \<in> set (context_tiles kc offsets pid 0 [0..<nat (G kc)])" by simp
  from context_tiles_vars[OF this] obtain g where
    g: "g < nat (G kc)" and gv: "vars w = group_vars_of kc offsets g" by auto
  from assms(12) obtain i j where ij: "0 \<le> i" "i < BLOCK_M kc" "0 \<le> j" "j < BLOCK_N kc"
    and mk: "mask kc w i j"
    and idx: "idx = store_index kc w i j"
    and v: "v = scaled kc mul accumulator scale_a_ptr scale_b_ptr w i j"
  proof -
    from assms(12) obtain x y where xy: "x < nat (BLOCK_M kc)" "y < nat (BLOCK_N kc)"
      "mask kc w (int x) (int y)" "idx = store_index kc w (int x) (int y)"
      "v = scaled kc mul accumulator scale_a_ptr scale_b_ptr w (int x) (int y)"
      by (auto simp: store_output_def)
    show thesis
    proof (rule that[of "int x" "int y"])
      show "0 \<le> int x" "0 \<le> int y" by simp_all
      show "int x < BLOCK_M kc" "int y < BLOCK_N kc" using xy(1,2) by simp_all
    qed (use xy in simp_all)
  qed
  from mk gv have lt: "tile_m_idx w * BLOCK_M kc + i < group_m_size kc offsets g"
    "tile_n_idx w * BLOCK_N kc + j < group_n_size kc offsets g"
    by (simp_all add: mask_def offs_am_def offs_bn_def group_vars_of_def)
  have a: "scale_a kc scale_a_ptr w i = Some (scale_a_ptr
                    ((if A_IS_2D kc
                      then (if M_IS_DYNAMIC kc then group_start offsets g else int g * M kc)
                      else int g * scale_a_stride_g)
                     + (tile_m_idx w * BLOCK_M kc + i)))"
    using lt(1) gv assms(6)
    by (simp add: scale_a_def scale_a_address_def offs_am_def group_vars_of_def)
  have b: "scale_b kc scale_b_ptr w j = Some (scale_b_ptr
                    ((if B_IS_2D kc
                      then (if N_IS_DYNAMIC kc then group_start offsets g else int g * N kc)
                      else int g * scale_b_stride_g)
                     + (tile_n_idx w * BLOCK_N kc + j)))"
    using lt(2) gv assms(7)
    by (simp add: scale_b_def scale_b_address_def offs_bn_def group_vars_of_def)
  have v': "v = Some (mul (mul (accumulator i j)
                 (scale_a_ptr
                    ((if A_IS_2D kc
                      then (if M_IS_DYNAMIC kc then group_start offsets g else int g * M kc)
                      else int g * scale_a_stride_g)
                     + (tile_m_idx w * BLOCK_M kc + i))))
                 (scale_b_ptr
                    ((if B_IS_2D kc
                      then (if N_IS_DYNAMIC kc then group_start offsets g else int g * N kc)
                      else int g * scale_b_stride_g)
                     + (tile_n_idx w * BLOCK_N kc + j))))"
    unfolding v scaled_def a b by simp
  have idx': "idx = (if \<not> M_IS_DYNAMIC kc \<and> \<not> N_IS_DYNAMIC kc
                then [int g, tile_m_idx w * BLOCK_M kc + i, tile_n_idx w * BLOCK_N kc + j]
                else [(if M_IS_DYNAMIC kc then group_start offsets g else 0)
                        + (tile_m_idx w * BLOCK_M kc + i),
                      (if N_IS_DYNAMIC kc then group_start offsets g else 0)
                        + (tile_n_idx w * BLOCK_N kc + j)])"
    unfolding idx using gv
    by (simp add: store_index_def idx_m_def idx_n_def offs_am_def offs_bn_def group_vars_of_def)
  have "group (vars w) = int g" using gv by (simp add: group_vars_of_def)
  with g ij lt v' idx' show ?thesis by blast
qed


lemma example_context_1:
  "context_tiles example_consts example_offsets 1 0 [0..<3]
     = [mk_tile (group_vars_of example_consts example_offsets 0) 1,
        mk_tile (group_vars_of example_consts example_offsets 0) 3,
        example_tile]"
  by (simp add: example_tile_def example_consts_def example_offsets_def upt_rec
      Let_def strided_def group_vars_of_def group_m_size_def group_n_size_def group_k_size_def
      group_start_def cdiv_def upto_rec1 mk_tile_def)

lemma example_store:
  "store_output example_consts (*) (\<lambda>i j. 1) (\<lambda>a. a) (\<lambda>a. a) example_tile
     = [([3, 4], Some (42::int))]"
  by (simp add: store_output_def store_index_def scaled_def scale_a_def scale_b_def
      scale_a_address_def scale_b_address_def mask_def idx_m_def idx_n_def offs_am_def offs_bn_def
      example_tile_def example_consts_def example_offsets_def upt_rec
      group_vars_of_def group_m_size_def group_n_size_def group_k_size_def
      group_start_def cdiv_def mk_tile_def)

theorem scale_and_store_addresses_witness:
  "0 < NUM_SMS example_consts \<and> 0 < BLOCK_M example_consts \<and> 0 < BLOCK_N example_consts
   \<and> 0 \<le> N example_consts \<and> monotone_offsets example_consts example_offsets
   \<and> A_IS_2D example_consts \<and> SCALE_B_STRIDE_G example_consts = Some 5
   \<and> (0::int) \<le> 1 \<and> 1 < NUM_SMS example_consts
   \<and> kernel example_consts example_offsets 1
       = Some (context_tiles example_consts example_offsets 1 0 [0..<3])
   \<and> example_tile \<in> set (context_tiles example_consts example_offsets 1 0 [0..<3])
   \<and> ([3, 4], Some 42)
        \<in> set (store_output example_consts (*) (\<lambda>i j. 1) (\<lambda>a. a) (\<lambda>a. a) example_tile)
   \<and> (\<exists>g i j. g < 3 \<and> group (vars example_tile) = int g
        \<and> 0 \<le> i \<and> i < 2 \<and> 0 \<le> j \<and> j < 4
        \<and> tile_m_idx example_tile * 2 + i < group_m_size example_consts example_offsets g
        \<and> tile_n_idx example_tile * 4 + j < group_n_size example_consts example_offsets g
        \<and> (42::int) = 1 * (group_start example_offsets g + (tile_m_idx example_tile * 2 + i))
                  * (int g * 5 + (tile_n_idx example_tile * 4 + j))
        \<and> [3, 4] = [group_start example_offsets g + (tile_m_idx example_tile * 2 + i),
                     tile_n_idx example_tile * 4 + j])"
proof -
  have h: "0 < NUM_SMS example_consts" "0 < BLOCK_M example_consts" "0 < BLOCK_N example_consts"
    "N_IS_DYNAMIC example_consts \<or> 0 \<le> N example_consts"
    "M_IS_DYNAMIC example_consts \<or> N_IS_DYNAMIC example_consts \<or> K_IS_DYNAMIC example_consts
       \<longrightarrow> monotone_offsets example_consts example_offsets"
    "\<not> A_IS_2D example_consts \<longrightarrow> SCALE_A_STRIDE_G example_consts = Some 0"
    "\<not> B_IS_2D example_consts \<longrightarrow> SCALE_B_STRIDE_G example_consts = Some 5"
    "(0::int) \<le> 1" "1 < NUM_SMS example_consts"
    by (simp_all add: example_consts_def example_offsets_def monotone_offsets_def)
  have k: "kernel example_consts example_offsets 1
       = Some (context_tiles example_consts example_offsets 1 0 [0..<3])"
    using kernel_result[OF h(1-5) h(8,9)] by (simp add: example_consts_def)
  have m: "example_tile \<in> set (context_tiles example_consts example_offsets 1 0 [0..<3])"
    by (simp add: example_context_1)
  have s: "([3, 4], Some 42)
        \<in> set (store_output example_consts (*) (\<lambda>i j. 1) (\<lambda>a. a) (\<lambda>a. a) example_tile)"
    by (simp add: example_store)
  from scale_and_store_addresses[OF h k m s]
  have "\<exists>g i j. g < 3 \<and> group (vars example_tile) = int g
        \<and> 0 \<le> i \<and> i < 2 \<and> 0 \<le> j \<and> j < 4
        \<and> tile_m_idx example_tile * 2 + i < group_m_size example_consts example_offsets g
        \<and> tile_n_idx example_tile * 4 + j < group_n_size example_consts example_offsets g
        \<and> (42::int) = 1 * (group_start example_offsets g + (tile_m_idx example_tile * 2 + i))
                  * (int g * 5 + (tile_n_idx example_tile * 4 + j))
        \<and> [3, 4] = [group_start example_offsets g + (tile_m_idx example_tile * 2 + i),
                     tile_n_idx example_tile * 4 + j]"
    by (simp add: example_consts_def)
  with h k m s show ?thesis by (simp add: example_consts_def)
qed

subsection \<open>The flags of the dynamic dimension\<close>

lemma problem_shape_of_flags:
  assumes "problem_shape_of m1_size m2_size offs = Inr p"
  shows "(m_is_dynamic p, n_is_dynamic p, k_is_dynamic p) =
     (if length m1_size = 2
      then (if length m2_size = 2 then (False, False, True) else (True, False, False))
      else (if length m2_size = 2 then (False, True, False) else (False, False, False)))"
  using assms
  by (auto simp: problem_shape_of_def and_then_eq_Inr split: if_splits option.splits)

lemma triton_kwargs_flags:
  assumes "triton_kwargs dev use_fast_accum m1_size m2_size mat_a mat_b sc_a sc_b offs = Inr kw"
  shows "(M_IS_DYNAMIC kw, N_IS_DYNAMIC kw, K_IS_DYNAMIC kw) =
     (if length m1_size = 2
      then (if length m2_size = 2 then (False, False, True) else (True, False, False))
      else (if length m2_size = 2 then (False, True, False) else (False, False, False)))"
    and "A_IS_2D kw = (length m1_size = 2)" and "B_IS_2D kw = (length m2_size = 2)"
proof -
  from assms obtain p where p: "problem_shape_of m1_size m2_size offs = Inr p"
    and kw: "M_IS_DYNAMIC kw = m_is_dynamic p" "N_IS_DYNAMIC kw = n_is_dynamic p"
      "K_IS_DYNAMIC kw = k_is_dynamic p"
      "A_IS_2D kw = (length m1_size = 2)" "B_IS_2D kw = (length m2_size = 2)"
    unfolding triton_kwargs_def Let_def and_then_eq_Inr by auto
  from problem_shape_of_flags[OF p] kw(1-3)
  show "(M_IS_DYNAMIC kw, N_IS_DYNAMIC kw, K_IS_DYNAMIC kw) =
     (if length m1_size = 2
      then (if length m2_size = 2 then (False, False, True) else (True, False, False))
      else (if length m2_size = 2 then (False, True, False) else (False, False, False)))"
    by simp
  from kw show "A_IS_2D kw = (length m1_size = 2)" "B_IS_2D kw = (length m2_size = 2)"
    by simp_all
qed

lemma grouped_mm_args_Inr:
  assumes "grouped_mm_args mat1 mat2 offs layout out_dtype = Inr (m1_size, m2_size, l, a, b, t)"
  shows "m1_size = get_size mat1" "m2_size = get_size mat2" "a = mat1" "b = mat2" "t = offs"
    "length (get_size mat1) = 2 \<or> length (get_size mat1) = 3"
    "length (get_size mat2) = 2 \<or> length (get_size mat2) = 3"
  using assms
  by (auto simp: grouped_mm_args_def py_assert_def Let_def and_then_eq_Inr
      split: if_splits option.splits)

lemma template_choice_kwargs:
  assumes "tuned_scaled_grouped_mm dev env mat_a mat_b sc_a sc_b offs bias out_dtype
             use_fast_accum layout = Inr ch"
    and "(kw, c) \<in> set (template_choices ch)"
  shows "triton_kwargs dev use_fast_accum (get_size mat_a) (get_size mat_b)
           mat_a mat_b sc_a sc_b offs = Inr kw"
    and "can_use_triton_kernel dev mat_a mat_b offs bias = Inr True"
    and "length (get_size mat_a) = 2 \<or> length (get_size mat_a) = 3"
    and "length (get_size mat_b) = 2 \<or> length (get_size mat_b) = 3"
proof -
  from assms(1) obtain m1_size m2_size l a b t where
    g: "grouped_mm_args mat_a mat_b offs layout out_dtype = Inr (m1_size, m2_size, l, a, b, t)"
    unfolding tuned_scaled_grouped_mm_def and_then_eq_Inr by auto
  note e = grouped_mm_args_Inr[OF g]
  from e show "length (get_size mat_a) = 2 \<or> length (get_size mat_a) = 3"
    "length (get_size mat_b) = 2 \<or> length (get_size mat_b) = 3" by simp_all
  from assms(1) g e(1-5) obtain eligible where
    el: "(if is_nonzero env l then can_use_triton_kernel dev mat_a mat_b offs bias
         else Inr False) = Inr eligible"
    and r: "(if eligible then
              and_then (triton_kwargs dev use_fast_accum (get_size mat_a) (get_size mat_b)
                          mat_a mat_b sc_a sc_b offs) (\<lambda>kw.
              and_then (early_config_prune dev kw (scaled_grouped_mm_configs dev)) (\<lambda>cs.
                Inr \<lparr>aten_choice = use_aten_gemm_kernels env,
                     template_choices = map (\<lambda>c. (kw, c)) cs,
                     out_layout = l\<rparr>))
            else Inr \<lparr>aten_choice = use_aten_gemm_kernels env, template_choices = [],
                      out_layout = l\<rparr>) = Inr ch"
    unfolding tuned_scaled_grouped_mm_def
    by (auto simp: and_then_eq_Inr split: option.splits)
  have eligible: eligible
  proof (rule ccontr)
    assume "\<not> eligible"
    with r have "template_choices ch = []" by auto
    with assms(2) show False by simp
  qed
  with el show "can_use_triton_kernel dev mat_a mat_b offs bias = Inr True"
    by (simp split: if_splits)
  from r eligible assms(2)
  show "triton_kwargs dev use_fast_accum (get_size mat_a) (get_size mat_b)
           mat_a mat_b sc_a sc_b offs = Inr kw"
    by (auto simp: and_then_eq_Inr)
qed

text \<open>
  Claim C9. In every template instance the lowering offers, the three flags are the
  ones the ranks of the operands select: both operands 2-D gives \<open>K_IS_DYNAMIC\<close> alone;
  \<open>A\<close> 2-D with \<open>B\<close> 3-D gives \<open>M_IS_DYNAMIC\<close> alone; \<open>A\<close> 3-D with \<open>B\<close> 2-D gives
  \<open>N_IS_DYNAMIC\<close> alone; both 3-D gives no flag. The operands have rank 2 or 3,
  \<open>A_IS_2D\<close> and \<open>B_IS_2D\<close> say which, and no two of the flags hold together.
\<close>

theorem dynamic_flags_by_rank:
  assumes "tuned_scaled_grouped_mm dev env mat_a mat_b sc_a sc_b offs bias out_dtype
             use_fast_accum layout = Inr ch"
    and "(kw, c) \<in> set (template_choices ch)"
  shows "(M_IS_DYNAMIC kw, N_IS_DYNAMIC kw, K_IS_DYNAMIC kw) =
     (if length (get_size mat_a) = 2 \<and> length (get_size mat_b) = 2 then (False, False, True)
      else if length (get_size mat_a) = 2 \<and> length (get_size mat_b) = 3 then (True, False, False)
      else if length (get_size mat_a) = 3 \<and> length (get_size mat_b) = 2 then (False, True, False)
      else (False, False, False))
    \<and> (length (get_size mat_a) = 2 \<or> length (get_size mat_a) = 3)
    \<and> (length (get_size mat_b) = 2 \<or> length (get_size mat_b) = 3)
    \<and> A_IS_2D kw = (length (get_size mat_a) = 2)
    \<and> B_IS_2D kw = (length (get_size mat_b) = 2)
    \<and> \<not> (M_IS_DYNAMIC kw \<and> N_IS_DYNAMIC kw)
    \<and> \<not> (M_IS_DYNAMIC kw \<and> K_IS_DYNAMIC kw)
    \<and> \<not> (N_IS_DYNAMIC kw \<and> K_IS_DYNAMIC kw)"
proof -
  note t = template_choice_kwargs[OF assms]
  note f = triton_kwargs_flags[OF t(1)]
  from f t(3,4) show ?thesis by (auto split: if_splits)
qed


lemma prune_loop_acc:
  "prune_loop dev args configs acc = Inr out \<Longrightarrow> set acc \<subseteq> set out"
proof (induction configs arbitrary: acc)
  case Nil
  then show ?case by simp
next
  case (Cons a configs)
  show ?case
  proof (cases "prune_config dev args a")
    case (Inl e)
    with Cons.prems show ?thesis by simp
  next
    case (Inr v)
    show ?thesis
    proof (cases v)
      case Survives
      with Inr Cons.prems have "prune_loop dev args configs (acc @ [a]) = Inr out" by simp
      from Cons.IH[OF this] show ?thesis by simp
    next
      case (Pruned x)
      with Inr Cons.prems have "prune_loop dev args configs acc = Inr out" by simp
      from Cons.IH[OF this] show ?thesis .
    qed
  qed
qed

lemma prune_loop_keeps:
  "prune_loop dev args configs acc = Inr out \<Longrightarrow> c \<in> set configs \<Longrightarrow>
     prune_config dev args c = Inr Survives \<Longrightarrow> c \<in> set out"
proof (induction configs arbitrary: acc)
  case Nil
  then show ?case by simp
next
  case (Cons a configs)
  show ?case
  proof (cases "prune_config dev args a")
    case (Inl e)
    with Cons.prems show ?thesis by simp
  next
    case (Inr v)
    show ?thesis
    proof (cases v)
      case Survives
      with Inr Cons.prems have l: "prune_loop dev args configs (acc @ [a]) = Inr out" by simp
      show ?thesis
      proof (cases "c = a")
        case True
        with prune_loop_acc[OF l] show ?thesis by auto
      next
        case False
        with Cons.prems have "c \<in> set configs" by simp
        from Cons.IH[OF l this Cons.prems(3)] show ?thesis .
      qed
    next
      case (Pruned x)
      with Inr Cons.prems have l: "prune_loop dev args configs acc = Inr out" by simp
      from Pruned Inr Cons.prems(3) have "c \<noteq> a" by auto
      with Cons.prems have "c \<in> set configs" by simp
      from Cons.IH[OF l this Cons.prems(3)] show ?thesis .
    qed
  qed
qed

lemma scenario_b_kwargs_result:
  "triton_kwargs example_device False [1000, 64] [4, 64, 256] scenario_b_A scenario_B_3d
     scenario_b_scale_a scenario_b_scale_b (Some (offsets_tensor 4)) = Inr scenario_b_kwargs"
  by (simp add: triton_kwargs_def problem_shape_of_def unpack2_def unpack3_def guard_equals_def
      opt_index_def scenario_b_A_def scenario_B_3d_def scenario_b_scale_a_def
      scenario_b_scale_b_def tensor_def offsets_tensor_def example_device_def
      scenario_b_kwargs_def Let_def)

lemma scenario_b_survivor:
  "prune_config example_device scenario_b_kwargs (nv_config 128 128 64 3 4) = Inr Survives"
proof -
  have k: "kwargs (nv_config 128 128 64 3 4) ''BLOCK_M'' = Some 128"
    "kwargs (nv_config 128 128 64 3 4) ''BLOCK_N'' = Some 128"
    "kwargs (nv_config 128 128 64 3 4) ''BLOCK_K'' = Some 64"
    by (simp_all add: nv_config_def)
  have p: "per_group (M_IS_DYNAMIC scenario_b_kwargs) (M scenario_b_kwargs) (G scenario_b_kwargs)
             = Inr 256"
    "per_group (N_IS_DYNAMIC scenario_b_kwargs) (N scenario_b_kwargs) (G scenario_b_kwargs)
             = Inr 256"
    by (simp_all add: per_group_def floordiv_def scenario_b_kwargs_def next_power_of_2_def
        bit_length.simps)
  show ?thesis
    unfolding prune_config_keys[OF k p]
    by (simp add: required_shared_memory_def dtsize_def example_device_def nv_config_def
        scenario_b_kwargs_def)
qed

theorem dynamic_flags_by_rank_witness:
  "\<exists>ch. tuned_scaled_grouped_mm example_device example_compiler scenario_b_A scenario_B_3d
          scenario_b_scale_a scenario_b_scale_b (Some (offsets_tensor 4)) None None False None
          = Inr ch
        \<and> (scenario_b_kwargs, nv_config 128 128 64 3 4) \<in> set (template_choices ch)
        \<and> length (get_size scenario_b_A) = 2 \<and> length (get_size scenario_B_3d) = 3
        \<and> (M_IS_DYNAMIC scenario_b_kwargs, N_IS_DYNAMIC scenario_b_kwargs,
            K_IS_DYNAMIC scenario_b_kwargs) = (True, False, False)
        \<and> A_IS_2D scenario_b_kwargs \<and> \<not> B_IS_2D scenario_b_kwargs"
proof -
  obtain cs where cs: "early_config_prune example_device scenario_b_kwargs
      (scaled_grouped_mm_configs example_device) = Inr cs"
    using early_config_prune_generated_total[of scenario_b_kwargs example_device]
    by (auto simp: scenario_b_kwargs_def)
  have "nv_config 128 128 64 3 4 \<in> set (scaled_grouped_mm_configs example_device)"
    using nv_config_generated(2) by (simp add: scaled_grouped_mm_configs_def example_device_def)
  with cs have m: "nv_config 128 128 64 3 4 \<in> set cs"
    unfolding early_config_prune_def
    by (rule prune_loop_keeps) (rule scenario_b_survivor)
  let ?ch = "\<lparr>aten_choice = True,
              template_choices = map (\<lambda>c. (scenario_b_kwargs, c)) cs,
              out_layout = FixedLayout ''cuda'' Float8_e4m3fn [1000, 256]\<rparr>"
  have sz: "get_size scenario_b_A = [1000, 64]" "get_size scenario_B_3d = [4, 64, 256]"
    by (simp_all add: scenario_b_A_def scenario_B_3d_def tensor_def)
  have g: "grouped_mm_args scenario_b_A scenario_B_3d (Some (offsets_tensor 4)) None None
      = Inr ([1000, 64], [4, 64, 256], FixedLayout ''cuda'' Float8_e4m3fn [1000, 256],
             scenario_b_A, scenario_B_3d, Some (offsets_tensor 4))"
    by (simp add: grouped_mm_args_def grouped_mm_dims_def py_assert_def sz Let_def)
       (simp add: scenario_b_A_def tensor_def)
  have e: "can_use_triton_kernel example_device scenario_b_A scenario_B_3d
             (Some (offsets_tensor 4)) None = Inr True"
    by (simp add: can_use_triton_kernel_def sz example_device_def Let_def)
  have t: "tuned_scaled_grouped_mm example_device example_compiler scenario_b_A scenario_B_3d
          scenario_b_scale_a scenario_b_scale_b (Some (offsets_tensor 4)) None None False None
          = Inr ?ch"
    by (simp add: tuned_scaled_grouped_mm_def g e scenario_b_kwargs_result cs example_compiler_def)
  have c: "(scenario_b_kwargs, nv_config 128 128 64 3 4) \<in> set (template_choices ?ch)"
    using m by simp
  from dynamic_flags_by_rank[OF t c] sz
  have "(M_IS_DYNAMIC scenario_b_kwargs, N_IS_DYNAMIC scenario_b_kwargs,
            K_IS_DYNAMIC scenario_b_kwargs) = (True, False, False)
        \<and> A_IS_2D scenario_b_kwargs \<and> \<not> B_IS_2D scenario_b_kwargs"
    by simp
  with t c sz show ?thesis by (intro exI[of _ ?ch]) simp
qed

subsection \<open>Scenario B\<close>

lemma context_tiles_tile:
  "w \<in> set (context_tiles kc offsets pid iterated gs) \<Longrightarrow>
     \<exists>g \<in> set gs. 0 < group_m_size kc offsets g
        \<and> (\<exists>x. w = mk_tile (group_vars_of kc offsets g) x)"
proof (induction gs arbitrary: iterated)
  case Nil
  then show ?case by simp
next
  case (Cons g gs)
  show ?case
  proof (cases "0 < group_m_size kc offsets g")
    case True
    with Cons.prems have "(\<exists>x. w = mk_tile (group_vars_of kc offsets g) x)
        \<or> w \<in> set (context_tiles kc offsets pid
              (iterated + num_m_tiles (group_vars_of kc offsets g)
                        * num_n_tiles (group_vars_of kc offsets g)) gs)"
      by (auto simp: Let_def)
    then show ?thesis
    proof
      assume "\<exists>x. w = mk_tile (group_vars_of kc offsets g) x"
      with True show ?thesis by auto
    next
      assume "w \<in> set (context_tiles kc offsets pid
              (iterated + num_m_tiles (group_vars_of kc offsets g)
                        * num_n_tiles (group_vars_of kc offsets g)) gs)"
      from Cons.IH[OF this] show ?thesis by auto
    qed
  next
    case False
    with Cons.prems have "w \<in> set (context_tiles kc offsets pid iterated gs)" by simp
    from Cons.IH[OF this] show ?thesis by auto
  qed
qed

lemma dynamic_m_rows:
  assumes ok: "0 < NUM_SMS kc" "0 < BLOCK_M kc" "0 < BLOCK_N kc" "N_IS_DYNAMIC kc \<or> 0 \<le> N kc"
    and offs: "M_IS_DYNAMIC kc \<or> N_IS_DYNAMIC kc \<or> K_IS_DYNAMIC kc \<longrightarrow> monotone_offsets kc offsets"
    and pid: "0 \<le> pid" "pid < NUM_SMS kc"
    and dyn: "M_IS_DYNAMIC kc" "A_IS_2D kc"
    and w: "w \<in> set (context_tiles kc offsets pid 0 [0..<nat (G kc)])"
    and i: "0 \<le> i" "mask kc w i j"
  shows "\<exists>g<nat (G kc). group (vars w) = int g
      \<and> store_index kc w i j = [idx_m kc w i, idx_n kc w j]
      \<and> scale_a_address kc w i = Some (idx_m kc w i)
      \<and> group_start offsets g \<le> idx_m kc w i \<and> idx_m kc w i < offsets ! g"
proof -
  from context_tiles_tile[OF w] obtain g x where g: "g < nat (G kc)"
    and pos: "0 < group_m_size kc offsets g"
    and wx: "w = mk_tile (group_vars_of kc offsets g) x" by auto
  have t: "0 < cdiv (group_m_size kc offsets g) (BLOCK_M kc)"
    using pos ok(2) by (rule cdiv_pos)
  have tm: "0 \<le> tile_m_idx w"
    unfolding wx mk_tile_def using t by (simp add: group_vars_of_def)
  have om: "0 \<le> offs_am kc w i"
    unfolding offs_am_def using tm ok(2) i(1) by simp
  from i(2) have lt: "offs_am kc w i < offsets ! g - group_start offsets g"
    unfolding mask_def wx mk_tile_def using dyn(1)
    by (simp add: group_vars_of_def group_m_size_def offs_am_def)
  have im: "idx_m kc w i = group_start offsets g + offs_am kc w i"
    unfolding idx_m_def wx mk_tile_def using dyn(1)
    by (simp add: group_vars_of_def offs_am_def)
  have sa: "scale_a_address kc w i = Some (idx_m kc w i)"
    unfolding im unfolding scale_a_address_def wx mk_tile_def using dyn
    by (simp add: group_vars_of_def offs_am_def)
  have si: "store_index kc w i j = [idx_m kc w i, idx_n kc w j]"
    using dyn(1) by (simp add: store_index_def)
  have gw: "group (vars w) = int g"
    unfolding wx mk_tile_def by (simp add: group_vars_of_def)
  from g gw si sa om lt im show ?thesis by (intro exI[of _ g]) simp
qed

lemma scenario_b_consts_fields:
  "NUM_SMS scenario_b_consts = 132" "BLOCK_M scenario_b_consts = 128"
  "BLOCK_N scenario_b_consts = 128" "N scenario_b_consts = 256" "G scenario_b_consts = 4"
  "M_IS_DYNAMIC scenario_b_consts" "A_IS_2D scenario_b_consts"
  "\<not> N_IS_DYNAMIC scenario_b_consts" "\<not> B_IS_2D scenario_b_consts"
  "SCALE_B_STRIDE_G scenario_b_consts = Some 256"
  by (simp_all add: scenario_b_consts_def scenario_b_kwargs_def kernel_kwargs.defs
      kernel_consts.defs)

lemma scenario_b_monotone: "monotone_offsets scenario_b_consts scenario_b_offsets"
  by (simp add: monotone_offsets_def scenario_b_consts_fields scenario_b_offsets_def)

text \<open>
  Claim C8 as stated fails: with both operands 2-D the lowering makes \<open>K\<close> the dynamic
  dimension, not \<open>M\<close>, and the output has one \<open>[1000, 256]\<close> matrix for each of the four
  groups.
\<close>

theorem scenario_b_counterexample:
  "can_use_triton_kernel example_device scenario_b_A scenario_b_B
     (Some (offsets_tensor 4)) None = Inr True
   \<and> problem_shape_of [1000, 64] [64, 256] (Some (offsets_tensor 4)) =
       Inr \<lparr>shape_g = 4, shape_m = 1000, shape_n = 256, shape_k = 64,
            m_is_dynamic = False, n_is_dynamic = False, k_is_dynamic = True\<rparr>
   \<and> grouped_mm_args scenario_b_A scenario_b_B (Some (offsets_tensor 4)) None None =
       Inr ([1000, 64], [64, 256], FixedLayout ''cuda'' Float8_e4m3fn [4, 1000, 256],
            scenario_b_A, scenario_b_B, Some (offsets_tensor 4))"
  by (simp add: can_use_triton_kernel_def problem_shape_of_def grouped_mm_args_def
      grouped_mm_dims_def py_assert_def unpack2_def guard_equals_def
      scenario_b_A_def scenario_b_B_def tensor_def offsets_tensor_def example_device_def Let_def)


lemma scenario_b_context_5:
  "context_tiles scenario_b_consts scenario_b_offsets 5 0 [0..<4] = [scenario_b_tile]"
  by (simp add: scenario_b_tile_def scenario_b_consts_fields scenario_b_offsets_def upt_rec
      Let_def strided_def group_vars_of_def group_m_size_def group_n_size_def
      group_start_def cdiv_def upto_rec1)

lemma scenario_b_tile_fields:
  "mask scenario_b_consts scenario_b_tile 3 7"
  "idx_m scenario_b_consts scenario_b_tile 3 = 381"
  "idx_n scenario_b_consts scenario_b_tile 7 = 7"
  "group (vars scenario_b_tile) = 1"
  by (simp_all add: mask_def idx_m_def idx_n_def offs_am_def offs_bn_def scenario_b_tile_def
      mk_tile_def group_vars_of_def group_m_size_def group_n_size_def group_start_def cdiv_def
      scenario_b_consts_fields scenario_b_offsets_def)

subsection \<open>Every element of the output is stored\<close>

lemma in_sum_list_mset:
  "x \<in># (\<Sum>p\<leftarrow>ps. f p) \<Longrightarrow> \<exists>p \<in> set ps. x \<in># f p"
  by (induction ps) auto

lemma tile_covered:
  assumes ok: "0 < NUM_SMS kc" "0 < BLOCK_M kc" "0 < BLOCK_N kc" "N_IS_DYNAMIC kc \<or> 0 \<le> N kc"
    and offs: "M_IS_DYNAMIC kc \<or> N_IS_DYNAMIC kc \<or> K_IS_DYNAMIC kc \<longrightarrow> monotone_offsets kc offsets"
    and g: "g < nat (G kc)"
    and x: "x \<in> set (group_tiles kc offsets g)"
  shows "\<exists>p w. p < nat (NUM_SMS kc)
      \<and> w \<in> set (context_tiles kc offsets (int p) 0 [0..<nat (G kc)]) \<and> tile_coords w = x"
proof -
  have c: "(\<Sum>p\<leftarrow>[0..<nat (NUM_SMS kc)].
            mset (map tile_coords (context_tiles kc offsets (int p) 0 [0..<nat (G kc)])))
       = mset (concat (map (group_tiles kc offsets) [0..<nat (G kc)]))"
    by (rule contexts_cover_groups[OF ok offs]) simp
  from g x have "x \<in> set (concat (map (group_tiles kc offsets) [0..<nat (G kc)]))"
    by auto
  then have "x \<in># mset (concat (map (group_tiles kc offsets) [0..<nat (G kc)]))"
    by simp
  then have "x \<in># (\<Sum>p\<leftarrow>[0..<nat (NUM_SMS kc)].
            mset (map tile_coords (context_tiles kc offsets (int p) 0 [0..<nat (G kc)])))"
    unfolding c .
  from in_sum_list_mset[OF this] obtain p where "p < nat (NUM_SMS kc)"
    "x \<in># mset (map tile_coords (context_tiles kc offsets (int p) 0 [0..<nat (G kc)]))"
    by auto
  then show ?thesis by auto
qed

lemma div_tile_range:
  fixes r d e :: int
  assumes "0 < d" "0 \<le> r" "r < e"
  shows "0 \<le> r div d" "r div d \<le> cdiv e d - 1"
proof -
  show "0 \<le> r div d" using assms by (simp add: pos_imp_zdiv_nonneg_iff)
  have "r div d \<le> (e - 1) div d" using assms by (intro zdiv_mono1) simp_all
  also have "(e - 1) div d = (e - 1 + d) div d - 1"
  proof -
    have "(e - 1 + d) div d = (e - 1) div d + 1"
      by (rule div_add_self2) (use assms(1) in simp)
    then show ?thesis by simp
  qed
  also have "\<dots> = cdiv e d - 1" by (simp add: cdiv_def algebra_simps)
  finally show "r div d \<le> cdiv e d - 1" .
qed

lemma stores_cover:
  assumes ok: "0 < NUM_SMS kc" "0 < BLOCK_M kc" "0 < BLOCK_N kc" "N_IS_DYNAMIC kc \<or> 0 \<le> N kc"
    and offs: "M_IS_DYNAMIC kc \<or> N_IS_DYNAMIC kc \<or> K_IS_DYNAMIC kc \<longrightarrow> monotone_offsets kc offsets"
    and g: "g < nat (G kc)"
    and row: "0 \<le> row" "row < group_m_size kc offsets g"
    and col: "0 \<le> col" "col < group_n_size kc offsets g"
  shows "\<exists>pid w i j. 0 \<le> pid \<and> pid < NUM_SMS kc
      \<and> w \<in> set (context_tiles kc offsets pid 0 [0..<nat (G kc)])
      \<and> vars w = group_vars_of kc offsets g
      \<and> 0 \<le> i \<and> i < BLOCK_M kc \<and> 0 \<le> j \<and> j < BLOCK_N kc
      \<and> offs_am kc w i = row \<and> offs_bn kc w j = col \<and> mask kc w i j"
proof -
  let ?tm = "row div BLOCK_M kc" and ?tn = "col div BLOCK_N kc"
  note rm = div_tile_range[OF ok(2) row]
  note rn = div_tile_range[OF ok(3) col]
  have "(int g, ?tm, ?tn) \<in> set (group_tiles kc offsets g)"
  proof -
    have m: "?tm \<in> set [0..cdiv (group_m_size kc offsets g) (BLOCK_M kc) - 1]"
      using rm by simp
    have n: "?tn \<in> set [0..cdiv (group_n_size kc offsets g) (BLOCK_N kc) - 1]"
      using rn by simp
    have p: "0 < group_m_size kc offsets g \<and> 0 < group_n_size kc offsets g"
      using row col by simp
    show ?thesis
      unfolding group_tiles_def using p m n by (simp del: set_upto) blast
  qed
  from tile_covered[OF ok offs g this] obtain p w where p: "p < nat (NUM_SMS kc)"
    and w: "w \<in> set (context_tiles kc offsets (int p) 0 [0..<nat (G kc)])"
    and tc: "tile_coords w = (int g, ?tm, ?tn)" by blast
  from context_tiles_vars[OF w] obtain g' where "vars w = group_vars_of kc offsets g'" by blast
  with tc have v: "vars w = group_vars_of kc offsets g"
    by (simp add: tile_coords_def group_vars_of_def)
  from tc have t: "tile_m_idx w = ?tm" "tile_n_idx w = ?tn" by (simp_all add: tile_coords_def)
  let ?i = "row mod BLOCK_M kc" and ?j = "col mod BLOCK_N kc"
  have am: "offs_am kc w ?i = row" by (simp add: offs_am_def t)
  have bn: "offs_bn kc w ?j = col" by (simp add: offs_bn_def t)
  have mk: "mask kc w ?i ?j"
    unfolding mask_def am bn v using row col by (simp add: group_vars_of_def)
  have r: "0 \<le> ?i" "?i < BLOCK_M kc" "0 \<le> ?j" "?j < BLOCK_N kc"
    using ok(2,3) by simp_all
  have pp: "0 \<le> int p" "int p < NUM_SMS kc" using p by simp_all
  from pp w v r am bn mk show ?thesis by blast
qed

lemma NV_blocks_pos:
  "c \<in> set NV_CONFIGS \<Longrightarrow>
     \<exists>bm bn bk. kwargs c ''BLOCK_M'' = Some bm \<and> kwargs c ''BLOCK_N'' = Some bn
        \<and> kwargs c ''BLOCK_K'' = Some bk \<and> 0 < bm \<and> 0 < bn"
  by (auto simp: NV_CONFIGS_def)

lemma AMD_blocks_pos:
  "c \<in> set AMD_CONFIGS \<Longrightarrow>
     \<exists>bm bn bk. kwargs c ''BLOCK_M'' = Some bm \<and> kwargs c ''BLOCK_N'' = Some bn
        \<and> kwargs c ''BLOCK_K'' = Some bk \<and> 0 < bm \<and> 0 < bn"
  by (auto simp: AMD_CONFIGS_def)

lemma generated_blocks_pos:
  "c \<in> set (scaled_grouped_mm_configs dev) \<Longrightarrow>
     \<exists>bm bn bk. kwargs c ''BLOCK_M'' = Some bm \<and> kwargs c ''BLOCK_N'' = Some bn
        \<and> kwargs c ''BLOCK_K'' = Some bk \<and> 0 < bm \<and> 0 < bn"
  using NV_blocks_pos AMD_blocks_pos by (simp add: scaled_grouped_mm_configs_def split: if_splits)

lemma template_consts_fields:
  assumes "template_consts kw c = Inr kc"
  shows "G kc = G kw" "M kc = M kw" "N kc = N kw"
    "M_IS_DYNAMIC kc = M_IS_DYNAMIC kw" "N_IS_DYNAMIC kc = N_IS_DYNAMIC kw"
    "K_IS_DYNAMIC kc = K_IS_DYNAMIC kw" "A_IS_2D kc = A_IS_2D kw" "B_IS_2D kc = B_IS_2D kw"
    "NUM_SMS kc = NUM_SMS kw" "SCALE_A_STRIDE_G kc = SCALE_A_STRIDE_G kw"
    "SCALE_B_STRIDE_G kc = SCALE_B_STRIDE_G kw"
    "kwargs c ''BLOCK_M'' = Some (BLOCK_M kc)" "kwargs c ''BLOCK_N'' = Some (BLOCK_N kc)"
    "kwargs c ''BLOCK_K'' = Some (BLOCK_K kc)"
  using assms
  by (auto simp: template_consts_def getitem_def and_then_eq_Inr kernel_kwargs.defs
      kernel_consts.defs split: option.splits)

lemma tuned_out_layout:
  assumes "tuned_scaled_grouped_mm dev env mat_a mat_b sc_a sc_b offs bias out_dtype
             use_fast_accum layout = Inr ch"
    and "grouped_mm_args mat_a mat_b offs layout out_dtype = Inr (m1_size, m2_size, l, a, b, t)"
  shows "out_layout ch = l"
  using assms unfolding tuned_scaled_grouped_mm_def
  by (auto simp: and_then_eq_Inr split: option.splits if_splits)

subsection \<open>The shared-memory bound\<close>

lemma template_choice_config:
  assumes "tuned_scaled_grouped_mm dev env mat_a mat_b sc_a sc_b offs bias out_dtype
             use_fast_accum layout = Inr ch"
    and "(kw, c) \<in> set (template_choices ch)"
  shows "c \<in> set (scaled_grouped_mm_configs dev)"
    and "prune_config dev kw c = Inr Survives"
proof -
  from assms(1) obtain m1_size m2_size l a b t where
    g: "grouped_mm_args mat_a mat_b offs layout out_dtype = Inr (m1_size, m2_size, l, a, b, t)"
    unfolding tuned_scaled_grouped_mm_def and_then_eq_Inr by auto
  from assms(1) g obtain eligible where
    r: "(if eligible then
              and_then (triton_kwargs dev use_fast_accum m1_size m2_size a b sc_a sc_b t) (\<lambda>kw.
              and_then (early_config_prune dev kw (scaled_grouped_mm_configs dev)) (\<lambda>cs.
                Inr \<lparr>aten_choice = use_aten_gemm_kernels env,
                     template_choices = map (\<lambda>c. (kw, c)) cs,
                     out_layout = l\<rparr>))
            else Inr \<lparr>aten_choice = use_aten_gemm_kernels env, template_choices = [],
                      out_layout = l\<rparr>) = Inr ch"
    unfolding tuned_scaled_grouped_mm_def
    by (auto simp: and_then_eq_Inr split: option.splits)
  have eligible: eligible
  proof (rule ccontr)
    assume "\<not> eligible"
    with r have "template_choices ch = []" by auto
    with assms(2) show False by simp
  qed
  from r eligible assms(2) obtain cs where
    cs: "early_config_prune dev kw (scaled_grouped_mm_configs dev) = Inr cs" and c: "c \<in> set cs"
    by (auto simp: and_then_eq_Inr)
  from early_config_prune_mem[OF cs c]
  show "c \<in> set (scaled_grouped_mm_configs dev)" "prune_config dev kw c = Inr Survives"
    by simp_all
qed

lemma survivor_fits:
  assumes "prune_config dev args c = Inr Survives"
  shows "\<exists>bm bn bk. kwargs c ''BLOCK_M'' = Some bm \<and> kwargs c ''BLOCK_N'' = Some bn
      \<and> kwargs c ''BLOCK_K'' = Some bk
      \<and> required_shared_memory dev bm bn bk (num_stages c) \<le> gpu_shared_memory dev"
proof -
  from prune_config_Inr_keys[OF assms] obtain bm bn bk mpg npg where
    k: "kwargs c ''BLOCK_M'' = Some bm" "kwargs c ''BLOCK_N'' = Some bn"
       "kwargs c ''BLOCK_K'' = Some bk"
       "per_group (M_IS_DYNAMIC args) (M args) (G args) = Inr mpg"
       "per_group (N_IS_DYNAMIC args) (N args) (G args) = Inr npg"
    by blast
  have "required_shared_memory dev bm bn bk (num_stages c) \<le> gpu_shared_memory dev"
  proof (rule ccontr)
    assume "\<not> required_shared_memory dev bm bn bk (num_stages c) \<le> gpu_shared_memory dev"
    then have "prune_config dev args c = Inr (Pruned SharedMemory)"
      unfolding prune_config_keys[OF k] by simp
    with assms show False by simp
  qed
  with k(1-3) show ?thesis by blast
qed

text \<open>
  Claim C4. Let the elements of the operand take one byte, as those of the 8-bit
  floating-point types do, so that the element size \<open>dtype_size\<close> of the operand is the
  one the pruner works with. Then for every configuration with the three block sizes,
  every problem whose per-group extents can be computed and every shared-memory limit,
  the pruner rejects the configuration at its first check exactly when the estimate
  exceeds the limit: \<open>(BLOCK_M + BLOCK_N) * BLOCK_K * num_stages * dtype_size\<close> on the
  generic family and \<open>BLOCK_N * BLOCK_K * num_stages * dtype_size\<close> on the other one. A
  configuration whose estimate exceeds the limit is in no result of the pruner, and the
  estimate of every template instance that the lowering offers for this operand is
  within the limit.
\<close>

theorem shared_memory_check_iff:
  assumes "kwargs config ''BLOCK_M'' = Some bm" and "kwargs config ''BLOCK_N'' = Some bn"
    and "kwargs config ''BLOCK_K'' = Some bk"
    and "M_IS_DYNAMIC args \<or> N_IS_DYNAMIC args \<longrightarrow> G args \<noteq> 0"
    and "itemsize (get_dtype mat_a) = 1"
  shows "((prune_config dev args config = Inr (Pruned SharedMemory)) \<longleftrightarrow>
            (if hip dev then bn * bk * num_stages config * itemsize (get_dtype mat_a)
             else (bm + bn) * bk * num_stages config * itemsize (get_dtype mat_a))
              > gpu_shared_memory dev)
    \<and> ((if hip dev then bn * bk * num_stages config * itemsize (get_dtype mat_a)
         else (bm + bn) * bk * num_stages config * itemsize (get_dtype mat_a))
           > gpu_shared_memory dev
        \<longrightarrow> (\<forall>configs out. early_config_prune dev args configs = Inr out
               \<longrightarrow> config \<notin> set out))
    \<and> (\<forall>env mat_b sc_a sc_b offs bias out_dtype use_fast_accum layout ch kw c.
          tuned_scaled_grouped_mm dev env mat_a mat_b sc_a sc_b offs bias out_dtype
             use_fast_accum layout = Inr ch
          \<and> (kw, c) \<in> set (template_choices ch)
          \<longrightarrow> (\<exists>cm cn ck. kwargs c ''BLOCK_M'' = Some cm \<and> kwargs c ''BLOCK_N'' = Some cn
                 \<and> kwargs c ''BLOCK_K'' = Some ck
                 \<and> (if hip dev then cn * ck * num_stages c * itemsize (get_dtype mat_a)
                     else (cm + cn) * ck * num_stages c * itemsize (get_dtype mat_a))
                    \<le> gpu_shared_memory dev))"
proof -
  obtain mpg where m: "per_group (M_IS_DYNAMIC args) (M args) (G args) = Inr mpg"
    using per_group_total[of "M_IS_DYNAMIC args" "G args" "M args"] assms(4) by auto
  obtain npg where n: "per_group (N_IS_DYNAMIC args) (N args) (G args) = Inr npg"
    using per_group_total[of "N_IS_DYNAMIC args" "G args" "N args"] assms(4) by auto
  note pc = prune_config_keys[OF assms(1-3) m n]
  have iff: "(prune_config dev args config = Inr (Pruned SharedMemory)) \<longleftrightarrow>
      required_shared_memory dev bm bn bk (num_stages config) > gpu_shared_memory dev"
    unfolding pc by simp
  have never: "config \<notin> set out"
    if "required_shared_memory dev bm bn bk (num_stages config) > gpu_shared_memory dev"
      and "early_config_prune dev args configs = Inr out" for configs out
  proof
    assume "config \<in> set out"
    from early_config_prune_mem[OF that(2) this] have "prune_config dev args config = Inr Survives"
      by simp
    with iff that(1) show False by simp
  qed
  have est: "required_shared_memory dev x y z s =
      (if hip dev then y * z * s * itemsize (get_dtype mat_a)
       else (x + y) * z * s * itemsize (get_dtype mat_a))" for x y z s
    by (simp add: required_shared_memory_def dtsize_def assms(5))
  have low: "\<exists>cm cn ck. kwargs c ''BLOCK_M'' = Some cm \<and> kwargs c ''BLOCK_N'' = Some cn
                 \<and> kwargs c ''BLOCK_K'' = Some ck
                 \<and> (if hip dev then cn * ck * num_stages c * itemsize (get_dtype mat_a)
                     else (cm + cn) * ck * num_stages c * itemsize (get_dtype mat_a))
                    \<le> gpu_shared_memory dev"
    if "tuned_scaled_grouped_mm dev env mat_a mat_b sc_a sc_b offs bias out_dtype
             use_fast_accum layout = Inr ch \<and> (kw, c) \<in> set (template_choices ch)"
    for env mat_b sc_a sc_b offs bias out_dtype use_fast_accum layout ch kw c
  proof -
    from that have t: "tuned_scaled_grouped_mm dev env mat_a mat_b sc_a sc_b offs bias out_dtype
             use_fast_accum layout = Inr ch" and c: "(kw, c) \<in> set (template_choices ch)"
      by simp_all
    from survivor_fits[OF template_choice_config(2)[OF t c]]
    show ?thesis unfolding est .
  qed
  have p1: "(prune_config dev args config = Inr (Pruned SharedMemory)) \<longleftrightarrow>
            (if hip dev then bn * bk * num_stages config * itemsize (get_dtype mat_a)
             else (bm + bn) * bk * num_stages config * itemsize (get_dtype mat_a))
              > gpu_shared_memory dev"
    using iff unfolding est .
  have p2: "(if hip dev then bn * bk * num_stages config * itemsize (get_dtype mat_a)
         else (bm + bn) * bk * num_stages config * itemsize (get_dtype mat_a))
           > gpu_shared_memory dev
        \<longrightarrow> (\<forall>configs out. early_config_prune dev args configs = Inr out
               \<longrightarrow> config \<notin> set out)"
    using never unfolding est by blast
  from p1 p2 low show ?thesis by blast
qed


lemma scenario_b_lowering:
  "\<exists>cs. tuned_scaled_grouped_mm example_device example_compiler scenario_b_A scenario_B_3d
          scenario_b_scale_a scenario_b_scale_b (Some (offsets_tensor 4)) None None False None
          = Inr \<lparr>aten_choice = True,
                 template_choices = map (\<lambda>c. (scenario_b_kwargs, c)) cs,
                 out_layout = FixedLayout ''cuda'' Float8_e4m3fn [1000, 256]\<rparr>
        \<and> nv_config 128 128 64 3 4 \<in> set cs"
proof -
  obtain cs where cs: "early_config_prune example_device scenario_b_kwargs
      (scaled_grouped_mm_configs example_device) = Inr cs"
    using early_config_prune_generated_total[of scenario_b_kwargs example_device]
    by (auto simp: scenario_b_kwargs_def)
  have "nv_config 128 128 64 3 4 \<in> set (scaled_grouped_mm_configs example_device)"
    using nv_config_generated(2) by (simp add: scaled_grouped_mm_configs_def example_device_def)
  with cs have m: "nv_config 128 128 64 3 4 \<in> set cs"
    unfolding early_config_prune_def
    by (rule prune_loop_keeps) (rule scenario_b_survivor)
  have sz: "get_size scenario_b_A = [1000, 64]" "get_size scenario_B_3d = [4, 64, 256]"
    by (simp_all add: scenario_b_A_def scenario_B_3d_def tensor_def)
  have g: "grouped_mm_args scenario_b_A scenario_B_3d (Some (offsets_tensor 4)) None None
      = Inr ([1000, 64], [4, 64, 256], FixedLayout ''cuda'' Float8_e4m3fn [1000, 256],
             scenario_b_A, scenario_B_3d, Some (offsets_tensor 4))"
    by (simp add: grouped_mm_args_def grouped_mm_dims_def py_assert_def sz Let_def)
       (simp add: scenario_b_A_def tensor_def)
  have e: "can_use_triton_kernel example_device scenario_b_A scenario_B_3d
             (Some (offsets_tensor 4)) None = Inr True"
    by (simp add: can_use_triton_kernel_def sz example_device_def Let_def)
  have "tuned_scaled_grouped_mm example_device example_compiler scenario_b_A scenario_B_3d
          scenario_b_scale_a scenario_b_scale_b (Some (offsets_tensor 4)) None None False None
          = Inr \<lparr>aten_choice = True,
                 template_choices = map (\<lambda>c. (scenario_b_kwargs, c)) cs,
                 out_layout = FixedLayout ''cuda'' Float8_e4m3fn [1000, 256]\<rparr>"
    by (simp add: tuned_scaled_grouped_mm_def g e scenario_b_kwargs_result cs example_compiler_def)
  with m show ?thesis by blast
qed

lemma two_byte_operand_estimate:
  "itemsize BFloat16 = 2
   \<and> (128 + 128) * 256 * 3 * itemsize BFloat16 > gpu_shared_memory example_device
   \<and> prune_config example_device static_problem (nv_config 128 128 256 3 4) = Inr Survives"
proof -
  have k: "kwargs (nv_config 128 128 256 3 4) ''BLOCK_M'' = Some 128"
    "kwargs (nv_config 128 128 256 3 4) ''BLOCK_N'' = Some 128"
    "kwargs (nv_config 128 128 256 3 4) ''BLOCK_K'' = Some 256"
    by (simp_all add: nv_config_def)
  have "prune_config example_device static_problem (nv_config 128 128 256 3 4) = Inr Survives"
    unfolding prune_config_keys[OF k static_problem_per_group]
    by (simp add: required_shared_memory_def dtsize_def example_device_def nv_config_def
        static_problem_def)
  then show ?thesis by (simp add: example_device_def)
qed

theorem shared_memory_check_iff_witness:
  "kwargs (nv_config 128 256 256 4 4) ''BLOCK_M'' = Some 128
   \<and> kwargs (nv_config 128 256 256 4 4) ''BLOCK_N'' = Some 256
   \<and> kwargs (nv_config 128 256 256 4 4) ''BLOCK_K'' = Some 256
   \<and> G static_problem \<noteq> 0
   \<and> itemsize (get_dtype scenario_b_A) = 1
   \<and> (128 + 256) * 256 * 4 * itemsize (get_dtype scenario_b_A)
        > gpu_shared_memory example_device
   \<and> prune_config example_device static_problem (nv_config 128 256 256 4 4)
       = Inr (Pruned SharedMemory)
   \<and> (\<exists>ch. tuned_scaled_grouped_mm example_device example_compiler scenario_b_A scenario_B_3d
          scenario_b_scale_a scenario_b_scale_b (Some (offsets_tensor 4)) None None False None
          = Inr ch
        \<and> (scenario_b_kwargs, nv_config 128 128 64 3 4) \<in> set (template_choices ch))
   \<and> (128 + 128) * 64 * 3 * itemsize (get_dtype scenario_b_A)
        \<le> gpu_shared_memory example_device"
proof -
  have k: "kwargs (nv_config 128 256 256 4 4) ''BLOCK_M'' = Some 128"
    "kwargs (nv_config 128 256 256 4 4) ''BLOCK_N'' = Some 256"
    "kwargs (nv_config 128 256 256 4 4) ''BLOCK_K'' = Some 256"
    by (simp_all add: nv_config_def)
  have g: "M_IS_DYNAMIC static_problem \<or> N_IS_DYNAMIC static_problem \<longrightarrow> G static_problem \<noteq> 0"
    "G static_problem \<noteq> 0"
    by (simp_all add: static_problem_def)
  have d: "itemsize (get_dtype scenario_b_A) = 1"
    by (simp add: scenario_b_A_def tensor_def)
  have e: "(128 + 256) * 256 * 4 * itemsize (get_dtype scenario_b_A)
             > gpu_shared_memory example_device"
    by (simp add: d example_device_def)
  have s: "num_stages (nv_config 128 256 256 4 4) = 4" "\<not> hip example_device"
    "num_stages (nv_config 128 128 64 3 4) = 3"
    "kwargs (nv_config 128 128 64 3 4) ''BLOCK_M'' = Some 128"
    "kwargs (nv_config 128 128 64 3 4) ''BLOCK_N'' = Some 128"
    "kwargs (nv_config 128 128 64 3 4) ''BLOCK_K'' = Some 64"
    by (simp_all add: nv_config_def example_device_def)
  note th = shared_memory_check_iff[OF k g(1) d, of example_device]
  from th e s(1,2) have p: "prune_config example_device static_problem (nv_config 128 256 256 4 4)
       = Inr (Pruned SharedMemory)"
    by simp
  from scenario_b_lowering obtain ch where
    t: "tuned_scaled_grouped_mm example_device example_compiler scenario_b_A scenario_B_3d
          scenario_b_scale_a scenario_b_scale_b (Some (offsets_tensor 4)) None None False None
          = Inr ch"
    and c: "(scenario_b_kwargs, nv_config 128 128 64 3 4) \<in> set (template_choices ch)"
    by auto
  from th t c have "\<exists>cm cn ck. kwargs (nv_config 128 128 64 3 4) ''BLOCK_M'' = Some cm
      \<and> kwargs (nv_config 128 128 64 3 4) ''BLOCK_N'' = Some cn
      \<and> kwargs (nv_config 128 128 64 3 4) ''BLOCK_K'' = Some ck
      \<and> (if hip example_device
          then cn * ck * num_stages (nv_config 128 128 64 3 4) * itemsize (get_dtype scenario_b_A)
          else (cm + cn) * ck * num_stages (nv_config 128 128 64 3 4)
                 * itemsize (get_dtype scenario_b_A))
         \<le> gpu_shared_memory example_device"
    by blast
  with s have l: "(128 + 128) * 64 * 3 * itemsize (get_dtype scenario_b_A)
        \<le> gpu_shared_memory example_device"
    by auto
  from k g(2) d e p t c l show ?thesis by blast
qed

subsection \<open>Scenario B with \<open>B\<close> given per group\<close>

lemma scenario_b_instance:
  assumes t: "tuned_scaled_grouped_mm dev env scenario_b_A scenario_B_3d scenario_b_scale_a
             scenario_b_scale_b (Some (offsets_tensor 4)) None None use_fast_accum None = Inr ch"
    and c: "(kw, c) \<in> set (template_choices ch)"
    and kc: "template_consts kw c = Inr kc"
  shows "G kc = 4" "N kc = 256" "M_IS_DYNAMIC kc" "\<not> N_IS_DYNAMIC kc" "\<not> K_IS_DYNAMIC kc"
    "A_IS_2D kc" "\<not> B_IS_2D kc" "NUM_SMS kc = num_sms dev" "SCALE_B_STRIDE_G kc = Some 256"
    "0 < BLOCK_M kc" "0 < BLOCK_N kc" "layout_size (out_layout ch) = [1000, 256]"
proof -
  have sz: "get_size scenario_b_A = [1000, 64]" "get_size scenario_B_3d = [4, 64, 256]"
    by (simp_all add: scenario_b_A_def scenario_B_3d_def tensor_def)
  from template_choice_kwargs(1)[OF t c]
  have "triton_kwargs dev use_fast_accum [1000, 64] [4, 64, 256] scenario_b_A scenario_B_3d
          scenario_b_scale_a scenario_b_scale_b (Some (offsets_tensor 4)) = Inr kw"
    by (simp add: sz)
  then have kw: "G kw = 4" "N kw = 256" "M_IS_DYNAMIC kw" "\<not> N_IS_DYNAMIC kw"
    "\<not> K_IS_DYNAMIC kw" "A_IS_2D kw" "\<not> B_IS_2D kw" "NUM_SMS kw = num_sms dev"
    "SCALE_B_STRIDE_G kw = Some 256"
    by (auto simp: triton_kwargs_def problem_shape_of_def unpack2_def unpack3_def guard_equals_def
      opt_index_def scenario_b_A_def scenario_B_3d_def scenario_b_scale_a_def
      scenario_b_scale_b_def tensor_def Let_def)
  note f = template_consts_fields[OF kc]
  from kw f show "G kc = 4" "N kc = 256" "M_IS_DYNAMIC kc" "\<not> N_IS_DYNAMIC kc"
    "\<not> K_IS_DYNAMIC kc" "A_IS_2D kc" "\<not> B_IS_2D kc" "NUM_SMS kc = num_sms dev"
    "SCALE_B_STRIDE_G kc = Some 256"
    by simp_all
  from generated_blocks_pos[OF template_choice_config(1)[OF t c]] f(12,13)
  show "0 < BLOCK_M kc" "0 < BLOCK_N kc" by auto
  have g: "grouped_mm_args scenario_b_A scenario_B_3d (Some (offsets_tensor 4)) None None
      = Inr ([1000, 64], [4, 64, 256], FixedLayout ''cuda'' Float8_e4m3fn [1000, 256],
             scenario_b_A, scenario_B_3d, Some (offsets_tensor 4))"
    by (simp add: grouped_mm_args_def grouped_mm_dims_def py_assert_def sz Let_def)
       (simp add: scenario_b_A_def tensor_def)
  from tuned_out_layout[OF t g] show "layout_size (out_layout ch) = [1000, 256]"
    by (simp add: FixedLayout_def)
qed

lemma scenario_b_bucket:
  assumes "0 \<le> r" "r < 1000"
  shows "\<exists>g<4. group_start scenario_b_offsets g \<le> r \<and> r < scenario_b_offsets ! g"
proof -
  consider "r < 250" | "250 \<le> r \<and> r < 500" | "500 \<le> r \<and> r < 800" | "800 \<le> r"
    by linarith
  then show ?thesis
  proof cases
    case 1
    with assms show ?thesis
      by (intro exI[of _ 0]) (simp add: group_start_def scenario_b_offsets_def)
  next
    case 2
    then show ?thesis
      by (intro exI[of _ 1]) (simp add: group_start_def scenario_b_offsets_def)
  next
    case 3
    then show ?thesis
      by (intro exI[of _ 2]) (simp add: group_start_def scenario_b_offsets_def)
  next
    case 4
    with assms show ?thesis
      by (intro exI[of _ 3]) (simp add: group_start_def scenario_b_offsets_def)
  qed
qed

lemma scenario_b_rows:
  assumes ok: "0 < NUM_SMS kc" "0 < BLOCK_M kc" "0 < BLOCK_N kc"
    and f: "G kc = 4" "N kc = 256" "M_IS_DYNAMIC kc" "\<not> N_IS_DYNAMIC kc" "A_IS_2D kc"
      "\<not> B_IS_2D kc" "SCALE_B_STRIDE_G kc = Some 256"
  shows "\<forall>pid. 0 \<le> pid \<and> pid < NUM_SMS kc \<longrightarrow>
        (\<exists>ws. kernel kc scenario_b_offsets pid = Some ws
          \<and> (\<forall>w \<in> set ws. \<forall>i j. 0 \<le> i \<and> mask kc w i j \<longrightarrow>
               (\<exists>g<4. group (vars w) = int g
                  \<and> store_index kc w i j = [idx_m kc w i, idx_n kc w j]
                  \<and> scale_a_address kc w i = Some (idx_m kc w i)
                  \<and> group_start scenario_b_offsets g \<le> idx_m kc w i
                  \<and> idx_m kc w i < scenario_b_offsets ! g
                  \<and> scale_b_address kc w j = Some (int g * 256 + idx_n kc w j))))"
    and "\<forall>r c. 0 \<le> r \<and> r < 1000 \<and> 0 \<le> c \<and> c < 256 \<longrightarrow>
        (\<exists>pid ws w i j. 0 \<le> pid \<and> pid < NUM_SMS kc
           \<and> kernel kc scenario_b_offsets pid = Some ws \<and> w \<in> set ws
           \<and> 0 \<le> i \<and> i < BLOCK_M kc \<and> 0 \<le> j \<and> j < BLOCK_N kc
           \<and> mask kc w i j \<and> store_index kc w i j = [r, c])"
proof -
  have n: "N_IS_DYNAMIC kc \<or> 0 \<le> N kc" using f(2) by simp
  have mono: "monotone_offsets kc scenario_b_offsets"
    by (simp add: monotone_offsets_def f(1) scenario_b_offsets_def)
  then have offs: "M_IS_DYNAMIC kc \<or> N_IS_DYNAMIC kc \<or> K_IS_DYNAMIC kc
      \<longrightarrow> monotone_offsets kc scenario_b_offsets" by simp
  show "\<forall>pid. 0 \<le> pid \<and> pid < NUM_SMS kc \<longrightarrow>
        (\<exists>ws. kernel kc scenario_b_offsets pid = Some ws
          \<and> (\<forall>w \<in> set ws. \<forall>i j. 0 \<le> i \<and> mask kc w i j \<longrightarrow>
               (\<exists>g<4. group (vars w) = int g
                  \<and> store_index kc w i j = [idx_m kc w i, idx_n kc w j]
                  \<and> scale_a_address kc w i = Some (idx_m kc w i)
                  \<and> group_start scenario_b_offsets g \<le> idx_m kc w i
                  \<and> idx_m kc w i < scenario_b_offsets ! g
                  \<and> scale_b_address kc w j = Some (int g * 256 + idx_n kc w j))))"
  proof (intro allI impI)
    fix pid :: int assume p: "0 \<le> pid \<and> pid < NUM_SMS kc"
    then have pid: "0 \<le> pid" "pid < NUM_SMS kc" by simp_all
    note kr = kernel_result[OF ok n offs pid]
    show "\<exists>ws. kernel kc scenario_b_offsets pid = Some ws
          \<and> (\<forall>w \<in> set ws. \<forall>i j. 0 \<le> i \<and> mask kc w i j \<longrightarrow>
               (\<exists>g<4. group (vars w) = int g
                  \<and> store_index kc w i j = [idx_m kc w i, idx_n kc w j]
                  \<and> scale_a_address kc w i = Some (idx_m kc w i)
                  \<and> group_start scenario_b_offsets g \<le> idx_m kc w i
                  \<and> idx_m kc w i < scenario_b_offsets ! g
                  \<and> scale_b_address kc w j = Some (int g * 256 + idx_n kc w j)))"
    proof (intro exI[of _ "context_tiles kc scenario_b_offsets pid 0 [0..<nat (G kc)]"]
        conjI ballI allI impI)
      show "kernel kc scenario_b_offsets pid
          = Some (context_tiles kc scenario_b_offsets pid 0 [0..<nat (G kc)])"
        by (rule kr)
    next
      fix w i j
      assume w: "w \<in> set (context_tiles kc scenario_b_offsets pid 0 [0..<nat (G kc)])"
        and ij: "0 \<le> i \<and> mask kc w i j"
      from dynamic_m_rows[OF ok n offs pid f(3,5) w, of i j] ij
      obtain g where g: "g < 4" "group (vars w) = int g"
        "store_index kc w i j = [idx_m kc w i, idx_n kc w j]"
        "scale_a_address kc w i = Some (idx_m kc w i)"
        "group_start scenario_b_offsets g \<le> idx_m kc w i"
        "idx_m kc w i < scenario_b_offsets ! g"
        by (auto simp: f(1))
      have sb: "scale_b_address kc w j = Some (int g * 256 + idx_n kc w j)"
        using g(2) by (simp add: scale_b_address_def idx_n_def f)
      from g sb show "\<exists>g<4. group (vars w) = int g
                  \<and> store_index kc w i j = [idx_m kc w i, idx_n kc w j]
                  \<and> scale_a_address kc w i = Some (idx_m kc w i)
                  \<and> group_start scenario_b_offsets g \<le> idx_m kc w i
                  \<and> idx_m kc w i < scenario_b_offsets ! g
                  \<and> scale_b_address kc w j = Some (int g * 256 + idx_n kc w j)"
        by (intro exI[of _ g]) simp
    qed
  qed
  show "\<forall>r c. 0 \<le> r \<and> r < 1000 \<and> 0 \<le> c \<and> c < 256 \<longrightarrow>
        (\<exists>pid ws w i j. 0 \<le> pid \<and> pid < NUM_SMS kc
           \<and> kernel kc scenario_b_offsets pid = Some ws \<and> w \<in> set ws
           \<and> 0 \<le> i \<and> i < BLOCK_M kc \<and> 0 \<le> j \<and> j < BLOCK_N kc
           \<and> mask kc w i j \<and> store_index kc w i j = [r, c])"
  proof (intro allI impI)
    fix r c :: int assume rc: "0 \<le> r \<and> r < 1000 \<and> 0 \<le> c \<and> c < 256"
    from scenario_b_bucket[of r] rc obtain g where g: "g < 4"
      "group_start scenario_b_offsets g \<le> r" "r < scenario_b_offsets ! g" by auto
    have g': "g < nat (G kc)" using g(1) f(1) by simp
    have row: "0 \<le> r - group_start scenario_b_offsets g"
      "r - group_start scenario_b_offsets g < group_m_size kc scenario_b_offsets g"
      using g(2,3) by (simp_all add: group_m_size_def f(3))
    have col: "0 \<le> c" "c < group_n_size kc scenario_b_offsets g"
      using rc by (simp_all add: group_n_size_def f)
    from stores_cover[OF ok n offs g' row col] obtain pid w i j where
      s: "0 \<le> pid" "pid < NUM_SMS kc"
         "w \<in> set (context_tiles kc scenario_b_offsets pid 0 [0..<nat (G kc)])"
         "vars w = group_vars_of kc scenario_b_offsets g"
         "0 \<le> i" "i < BLOCK_M kc" "0 \<le> j" "j < BLOCK_N kc"
         "offs_am kc w i = r - group_start scenario_b_offsets g" "offs_bn kc w j = c"
         "mask kc w i j"
      by blast
    have si: "store_index kc w i j = [r, c]"
      by (simp add: store_index_def idx_m_def idx_n_def f s(4,9,10) group_vars_of_def)
    note kr = kernel_result[OF ok n offs s(1,2)]
    from s kr si show "\<exists>pid ws w i j. 0 \<le> pid \<and> pid < NUM_SMS kc
           \<and> kernel kc scenario_b_offsets pid = Some ws \<and> w \<in> set ws
           \<and> 0 \<le> i \<and> i < BLOCK_M kc \<and> 0 \<le> j \<and> j < BLOCK_N kc
           \<and> mask kc w i j \<and> store_index kc w i j = [r, c]"
      by blast
  qed
qed

text \<open>
  Claim C8, as amended. With \<open>A\<close> of shape \<open>[1000, 64]\<close>, \<open>B\<close> of shape \<open>[64, 256]\<close> and
  four offsets, \<open>K\<close> is the dynamic dimension and the output shape is \<open>[4, 1000, 256]\<close>.
  The flattened output belongs to \<open>B\<close> given per group, of shape \<open>[4, 64, 256]\<close>. Then,
  on every device with at least one streaming unit and for every template instance the
  lowering offers, \<open>M\<close> is the only dynamic dimension and the output shape is
  \<open>[1000, 256]\<close>. With the offsets 250, 500, 800 and 1000, every context of the kernel
  returns; every element a tile of group \<open>g\<close> stores is stored at its absolute row \<open>r\<close>
  and column, with the row scale read at \<open>r\<close>, the row in the bucket of \<open>g\<close> (from the
  previous offset up to the offset of \<open>g\<close>) and the column scale read in the block of
  \<open>g\<close>; and every element of the output, at a row below 1000 and a column below 256,
  is stored by some tile of some context.
\<close>

theorem scenario_b_amended:
  "problem_shape_of [1000, 64] [64, 256] (Some (offsets_tensor 4)) =
       Inr \<lparr>shape_g = 4, shape_m = 1000, shape_n = 256, shape_k = 64,
            m_is_dynamic = False, n_is_dynamic = False, k_is_dynamic = True\<rparr>
   \<and> grouped_mm_args scenario_b_A scenario_b_B (Some (offsets_tensor 4)) None None =
       Inr ([1000, 64], [64, 256], FixedLayout ''cuda'' Float8_e4m3fn [4, 1000, 256],
            scenario_b_A, scenario_b_B, Some (offsets_tensor 4))
   \<and> triton_kwargs example_device False [1000, 64] [4, 64, 256] scenario_b_A scenario_B_3d
        scenario_b_scale_a scenario_b_scale_b (Some (offsets_tensor 4)) = Inr scenario_b_kwargs
   \<and> M_IS_DYNAMIC scenario_b_kwargs \<and> \<not> N_IS_DYNAMIC scenario_b_kwargs
   \<and> \<not> K_IS_DYNAMIC scenario_b_kwargs
   \<and> grouped_mm_args scenario_b_A scenario_B_3d (Some (offsets_tensor 4)) None None =
       Inr ([1000, 64], [4, 64, 256], FixedLayout ''cuda'' Float8_e4m3fn [1000, 256],
            scenario_b_A, scenario_B_3d, Some (offsets_tensor 4))
   \<and> template_consts scenario_b_kwargs (nv_config 128 128 64 3 4) = Inr scenario_b_consts
   \<and> (\<forall>dev env use_fast_accum ch kw c.
        tuned_scaled_grouped_mm dev env scenario_b_A scenario_B_3d scenario_b_scale_a
          scenario_b_scale_b (Some (offsets_tensor 4)) None None use_fast_accum None = Inr ch
        \<and> (kw, c) \<in> set (template_choices ch) \<and> 0 < num_sms dev
        \<longrightarrow> layout_size (out_layout ch) = [1000, 256]
          \<and> (\<exists>kc. template_consts kw c = Inr kc
                \<and> M_IS_DYNAMIC kc \<and> \<not> N_IS_DYNAMIC kc \<and> \<not> K_IS_DYNAMIC kc
                \<and> (\<forall>pid. 0 \<le> pid \<and> pid < NUM_SMS kc \<longrightarrow>
                     (\<exists>ws. kernel kc scenario_b_offsets pid = Some ws
                       \<and> (\<forall>w \<in> set ws. \<forall>i j. 0 \<le> i \<and> mask kc w i j \<longrightarrow>
                            (\<exists>g<4. group (vars w) = int g
                               \<and> store_index kc w i j = [idx_m kc w i, idx_n kc w j]
                               \<and> scale_a_address kc w i = Some (idx_m kc w i)
                               \<and> group_start scenario_b_offsets g \<le> idx_m kc w i
                               \<and> idx_m kc w i < scenario_b_offsets ! g
                               \<and> scale_b_address kc w j
                                   = Some (int g * 256 + idx_n kc w j)))))
                \<and> (\<forall>r c. 0 \<le> r \<and> r < 1000 \<and> 0 \<le> c \<and> c < 256 \<longrightarrow>
                     (\<exists>pid ws w i j. 0 \<le> pid \<and> pid < NUM_SMS kc
                        \<and> kernel kc scenario_b_offsets pid = Some ws \<and> w \<in> set ws
                        \<and> 0 \<le> i \<and> i < BLOCK_M kc \<and> 0 \<le> j \<and> j < BLOCK_N kc
                        \<and> mask kc w i j \<and> store_index kc w i j = [r, c]))))"
proof -
  have a: "problem_shape_of [1000, 64] [64, 256] (Some (offsets_tensor 4)) =
       Inr \<lparr>shape_g = 4, shape_m = 1000, shape_n = 256, shape_k = 64,
            m_is_dynamic = False, n_is_dynamic = False, k_is_dynamic = True\<rparr>"
    by (simp add: problem_shape_of_def unpack2_def guard_equals_def offsets_tensor_def)
  have b: "grouped_mm_args scenario_b_A scenario_b_B (Some (offsets_tensor 4)) None None =
       Inr ([1000, 64], [64, 256], FixedLayout ''cuda'' Float8_e4m3fn [4, 1000, 256],
            scenario_b_A, scenario_b_B, Some (offsets_tensor 4))"
    by (simp add: grouped_mm_args_def grouped_mm_dims_def py_assert_def
        scenario_b_A_def scenario_b_B_def tensor_def offsets_tensor_def Let_def)
  have c: "triton_kwargs example_device False [1000, 64] [4, 64, 256] scenario_b_A scenario_B_3d
        scenario_b_scale_a scenario_b_scale_b (Some (offsets_tensor 4)) = Inr scenario_b_kwargs"
    by (rule scenario_b_kwargs_result)
  have d: "M_IS_DYNAMIC scenario_b_kwargs" "\<not> N_IS_DYNAMIC scenario_b_kwargs"
    "\<not> K_IS_DYNAMIC scenario_b_kwargs"
    by (simp_all add: scenario_b_kwargs_def)
  have e: "grouped_mm_args scenario_b_A scenario_B_3d (Some (offsets_tensor 4)) None None =
       Inr ([1000, 64], [4, 64, 256], FixedLayout ''cuda'' Float8_e4m3fn [1000, 256],
            scenario_b_A, scenario_B_3d, Some (offsets_tensor 4))"
    by (simp add: grouped_mm_args_def grouped_mm_dims_def py_assert_def
        scenario_b_A_def scenario_B_3d_def tensor_def offsets_tensor_def Let_def)
  have f: "template_consts scenario_b_kwargs (nv_config 128 128 64 3 4) = Inr scenario_b_consts"
    by (simp add: template_consts_def getitem_def nv_config_def scenario_b_consts_def)
  have k: "layout_size (out_layout ch) = [1000, 256]
          \<and> (\<exists>kc. template_consts kw c = Inr kc
                \<and> M_IS_DYNAMIC kc \<and> \<not> N_IS_DYNAMIC kc \<and> \<not> K_IS_DYNAMIC kc
                \<and> (\<forall>pid. 0 \<le> pid \<and> pid < NUM_SMS kc \<longrightarrow>
                     (\<exists>ws. kernel kc scenario_b_offsets pid = Some ws
                       \<and> (\<forall>w \<in> set ws. \<forall>i j. 0 \<le> i \<and> mask kc w i j \<longrightarrow>
                            (\<exists>g<4. group (vars w) = int g
                               \<and> store_index kc w i j = [idx_m kc w i, idx_n kc w j]
                               \<and> scale_a_address kc w i = Some (idx_m kc w i)
                               \<and> group_start scenario_b_offsets g \<le> idx_m kc w i
                               \<and> idx_m kc w i < scenario_b_offsets ! g
                               \<and> scale_b_address kc w j
                                   = Some (int g * 256 + idx_n kc w j)))))
                \<and> (\<forall>r c. 0 \<le> r \<and> r < 1000 \<and> 0 \<le> c \<and> c < 256 \<longrightarrow>
                     (\<exists>pid ws w i j. 0 \<le> pid \<and> pid < NUM_SMS kc
                        \<and> kernel kc scenario_b_offsets pid = Some ws \<and> w \<in> set ws
                        \<and> 0 \<le> i \<and> i < BLOCK_M kc \<and> 0 \<le> j \<and> j < BLOCK_N kc
                        \<and> mask kc w i j \<and> store_index kc w i j = [r, c])))"
    if h: "tuned_scaled_grouped_mm dev env scenario_b_A scenario_B_3d scenario_b_scale_a
          scenario_b_scale_b (Some (offsets_tensor 4)) None None use_fast_accum None = Inr ch
        \<and> (kw, c) \<in> set (template_choices ch) \<and> 0 < num_sms dev"
    for dev env use_fast_accum ch kw c
  proof -
    from h have t: "tuned_scaled_grouped_mm dev env scenario_b_A scenario_B_3d scenario_b_scale_a
          scenario_b_scale_b (Some (offsets_tensor 4)) None None use_fast_accum None = Inr ch"
      and m: "(kw, c) \<in> set (template_choices ch)" and s: "0 < num_sms dev"
      by simp_all
    from generated_blocks_pos[OF template_choice_config(1)[OF t m]]
    obtain kc where kc: "template_consts kw c = Inr kc"
      by (auto simp: template_consts_def getitem_def)
    note i = scenario_b_instance[OF t m kc]
    have ok: "0 < NUM_SMS kc" using s i(8) by simp
    note r = scenario_b_rows[OF ok i(10,11) i(1,2,3,4,6,7,9)]
    from kc i(3,4,5,12) r show ?thesis by blast
  qed
  from a b c d e f k show ?thesis by (intro conjI allI impI) blast+
qed

theorem scenario_b_amended_witness:
  "(\<exists>ch. tuned_scaled_grouped_mm example_device example_compiler scenario_b_A scenario_B_3d
          scenario_b_scale_a scenario_b_scale_b (Some (offsets_tensor 4)) None None False None
          = Inr ch
        \<and> (scenario_b_kwargs, nv_config 128 128 64 3 4) \<in> set (template_choices ch)
        \<and> layout_size (out_layout ch) = [1000, 256])
   \<and> 0 < num_sms example_device
   \<and> template_consts scenario_b_kwargs (nv_config 128 128 64 3 4) = Inr scenario_b_consts
   \<and> kernel scenario_b_consts scenario_b_offsets 5 = Some [scenario_b_tile]
   \<and> mask scenario_b_consts scenario_b_tile 3 7
   \<and> group (vars scenario_b_tile) = 1
   \<and> store_index scenario_b_consts scenario_b_tile 3 7 = [381, 7]
   \<and> scale_a_address scenario_b_consts scenario_b_tile 3 = Some 381
   \<and> scenario_b_offsets ! 0 \<le> 381 \<and> 381 < scenario_b_offsets ! 1
   \<and> scale_b_address scenario_b_consts scenario_b_tile 7 = Some 263
   \<and> (\<exists>pid ws w i j. 0 \<le> pid \<and> pid < 132
        \<and> kernel scenario_b_consts scenario_b_offsets pid = Some ws \<and> w \<in> set ws
        \<and> mask scenario_b_consts w i j
        \<and> store_index scenario_b_consts w i j = [999, 255])"
proof -
  from scenario_b_lowering obtain ch where
    t: "tuned_scaled_grouped_mm example_device example_compiler scenario_b_A scenario_B_3d
          scenario_b_scale_a scenario_b_scale_b (Some (offsets_tensor 4)) None None False None
          = Inr ch"
    and c: "(scenario_b_kwargs, nv_config 128 128 64 3 4) \<in> set (template_choices ch)"
    by auto
  have s: "0 < num_sms example_device" by (simp add: example_device_def)
  from scenario_b_amended
  have f: "template_consts scenario_b_kwargs (nv_config 128 128 64 3 4) = Inr scenario_b_consts"
    by blast
  from scenario_b_amended t c s
  have "layout_size (out_layout ch) = [1000, 256]
          \<and> (\<exists>kc. template_consts scenario_b_kwargs (nv_config 128 128 64 3 4) = Inr kc
                \<and> M_IS_DYNAMIC kc \<and> \<not> N_IS_DYNAMIC kc \<and> \<not> K_IS_DYNAMIC kc
                \<and> (\<forall>pid. 0 \<le> pid \<and> pid < NUM_SMS kc \<longrightarrow>
                     (\<exists>ws. kernel kc scenario_b_offsets pid = Some ws
                       \<and> (\<forall>w \<in> set ws. \<forall>i j. 0 \<le> i \<and> mask kc w i j \<longrightarrow>
                            (\<exists>g<4. group (vars w) = int g
                               \<and> store_index kc w i j = [idx_m kc w i, idx_n kc w j]
                               \<and> scale_a_address kc w i = Some (idx_m kc w i)
                               \<and> group_start scenario_b_offsets g \<le> idx_m kc w i
                               \<and> idx_m kc w i < scenario_b_offsets ! g
                               \<and> scale_b_address kc w j
                                   = Some (int g * 256 + idx_n kc w j)))))
                \<and> (\<forall>r c. 0 \<le> r \<and> r < 1000 \<and> 0 \<le> c \<and> c < 256 \<longrightarrow>
                     (\<exists>pid ws w i j. 0 \<le> pid \<and> pid < NUM_SMS kc
                        \<and> kernel kc scenario_b_offsets pid = Some ws \<and> w \<in> set ws
                        \<and> 0 \<le> i \<and> i < BLOCK_M kc \<and> 0 \<le> j \<and> j < BLOCK_N kc
                        \<and> mask kc w i j \<and> store_index kc w i j = [r, c])))"
    by blast
  with f have l: "layout_size (out_layout ch) = [1000, 256]"
    and rows: "\<forall>pid. 0 \<le> pid \<and> pid < NUM_SMS scenario_b_consts \<longrightarrow>
                     (\<exists>ws. kernel scenario_b_consts scenario_b_offsets pid = Some ws
                       \<and> (\<forall>w \<in> set ws. \<forall>i j. 0 \<le> i \<and> mask scenario_b_consts w i j \<longrightarrow>
                            (\<exists>g<4. group (vars w) = int g
                               \<and> store_index scenario_b_consts w i j
                                   = [idx_m scenario_b_consts w i, idx_n scenario_b_consts w j]
                               \<and> scale_a_address scenario_b_consts w i
                                   = Some (idx_m scenario_b_consts w i)
                               \<and> group_start scenario_b_offsets g \<le> idx_m scenario_b_consts w i
                               \<and> idx_m scenario_b_consts w i < scenario_b_offsets ! g
                               \<and> scale_b_address scenario_b_consts w j
                                   = Some (int g * 256 + idx_n scenario_b_consts w j))))"
    and cover: "\<forall>r c. 0 \<le> r \<and> r < 1000 \<and> 0 \<le> c \<and> c < 256 \<longrightarrow>
                     (\<exists>pid ws w i j. 0 \<le> pid \<and> pid < NUM_SMS scenario_b_consts
                        \<and> kernel scenario_b_consts scenario_b_offsets pid = Some ws \<and> w \<in> set ws
                        \<and> 0 \<le> i \<and> i < BLOCK_M scenario_b_consts
                        \<and> 0 \<le> j \<and> j < BLOCK_N scenario_b_consts
                        \<and> mask scenario_b_consts w i j
                        \<and> store_index scenario_b_consts w i j = [r, c])"
    by auto
  from rows have "\<exists>ws. kernel scenario_b_consts scenario_b_offsets 5 = Some ws
          \<and> (\<forall>w \<in> set ws. \<forall>i j. 0 \<le> i \<and> mask scenario_b_consts w i j \<longrightarrow>
               (\<exists>g<4. group (vars w) = int g
                  \<and> store_index scenario_b_consts w i j
                      = [idx_m scenario_b_consts w i, idx_n scenario_b_consts w j]
                  \<and> scale_a_address scenario_b_consts w i = Some (idx_m scenario_b_consts w i)
                  \<and> group_start scenario_b_offsets g \<le> idx_m scenario_b_consts w i
                  \<and> idx_m scenario_b_consts w i < scenario_b_offsets ! g
                  \<and> scale_b_address scenario_b_consts w j
                      = Some (int g * 256 + idx_n scenario_b_consts w j)))"
    by (simp add: scenario_b_consts_fields)
  then obtain ws where ws: "kernel scenario_b_consts scenario_b_offsets 5 = Some ws"
    and r: "\<forall>w \<in> set ws. \<forall>i j. 0 \<le> i \<and> mask scenario_b_consts w i j \<longrightarrow>
               (\<exists>g<4. group (vars w) = int g
                  \<and> store_index scenario_b_consts w i j
                      = [idx_m scenario_b_consts w i, idx_n scenario_b_consts w j]
                  \<and> scale_a_address scenario_b_consts w i = Some (idx_m scenario_b_consts w i)
                  \<and> group_start scenario_b_offsets g \<le> idx_m scenario_b_consts w i
                  \<and> idx_m scenario_b_consts w i < scenario_b_offsets ! g
                  \<and> scale_b_address scenario_b_consts w j
                      = Some (int g * 256 + idx_n scenario_b_consts w j))"
    by blast
  have "kernel scenario_b_consts scenario_b_offsets 5
      = Some (context_tiles scenario_b_consts scenario_b_offsets 5 0 [0..<4])"
    using kernel_result[of scenario_b_consts scenario_b_offsets 5]
    by (simp add: scenario_b_consts_fields scenario_b_monotone)
  with ws have eq: "ws = [scenario_b_tile]" by (simp add: scenario_b_context_5)
  from r eq have "0 \<le> (3::int) \<and> mask scenario_b_consts scenario_b_tile 3 7 \<longrightarrow>
               (\<exists>g<4. group (vars scenario_b_tile) = int g
                  \<and> store_index scenario_b_consts scenario_b_tile 3 7
                      = [idx_m scenario_b_consts scenario_b_tile 3,
                         idx_n scenario_b_consts scenario_b_tile 7]
                  \<and> scale_a_address scenario_b_consts scenario_b_tile 3
                      = Some (idx_m scenario_b_consts scenario_b_tile 3)
                  \<and> group_start scenario_b_offsets g \<le> idx_m scenario_b_consts scenario_b_tile 3
                  \<and> idx_m scenario_b_consts scenario_b_tile 3 < scenario_b_offsets ! g
                  \<and> scale_b_address scenario_b_consts scenario_b_tile 7
                      = Some (int g * 256 + idx_n scenario_b_consts scenario_b_tile 7))"
    by simp
  with scenario_b_tile_fields(1) obtain g where g: "g < 4"
    "group (vars scenario_b_tile) = int g"
    "store_index scenario_b_consts scenario_b_tile 3 7
        = [idx_m scenario_b_consts scenario_b_tile 3, idx_n scenario_b_consts scenario_b_tile 7]"
    "scale_a_address scenario_b_consts scenario_b_tile 3
        = Some (idx_m scenario_b_consts scenario_b_tile 3)"
    "group_start scenario_b_offsets g \<le> idx_m scenario_b_consts scenario_b_tile 3"
    "idx_m scenario_b_consts scenario_b_tile 3 < scenario_b_offsets ! g"
    "scale_b_address scenario_b_consts scenario_b_tile 7
        = Some (int g * 256 + idx_n scenario_b_consts scenario_b_tile 7)"
    by auto
  from g(2) scenario_b_tile_fields(4) have g1: "g = 1" by simp
  from ws eq g g1 scenario_b_tile_fields
  have p1: "kernel scenario_b_consts scenario_b_offsets 5 = Some [scenario_b_tile]
   \<and> mask scenario_b_consts scenario_b_tile 3 7
   \<and> group (vars scenario_b_tile) = 1
   \<and> store_index scenario_b_consts scenario_b_tile 3 7 = [381, 7]
   \<and> scale_a_address scenario_b_consts scenario_b_tile 3 = Some 381
   \<and> scenario_b_offsets ! 0 \<le> 381 \<and> 381 < scenario_b_offsets ! 1
   \<and> scale_b_address scenario_b_consts scenario_b_tile 7 = Some 263"
    by (simp add: group_start_def)
  from cover have "0 \<le> (999::int) \<and> (999::int) < 1000 \<and> 0 \<le> (255::int) \<and> (255::int) < 256 \<longrightarrow>
       (\<exists>pid ws w i j. 0 \<le> pid \<and> pid < NUM_SMS scenario_b_consts
                        \<and> kernel scenario_b_consts scenario_b_offsets pid = Some ws \<and> w \<in> set ws
                        \<and> 0 \<le> i \<and> i < BLOCK_M scenario_b_consts
                        \<and> 0 \<le> j \<and> j < BLOCK_N scenario_b_consts
                        \<and> mask scenario_b_consts w i j
                        \<and> store_index scenario_b_consts w i j = [999, 255])"
    by blast
  then have p2: "\<exists>pid ws w i j. 0 \<le> pid \<and> pid < 132
        \<and> kernel scenario_b_consts scenario_b_offsets pid = Some ws \<and> w \<in> set ws
        \<and> mask scenario_b_consts w i j
        \<and> store_index scenario_b_consts w i j = [999, 255]"
    by (simp add: scenario_b_consts_fields) blast
  have p0: "\<exists>ch. tuned_scaled_grouped_mm example_device example_compiler scenario_b_A scenario_B_3d
          scenario_b_scale_a scenario_b_scale_b (Some (offsets_tensor 4)) None None False None
          = Inr ch
        \<and> (scenario_b_kwargs, nv_config 128 128 64 3 4) \<in> set (template_choices ch)
        \<and> layout_size (out_layout ch) = [1000, 256]"
    using t c l by blast
  from p0 s f p1 p2 show ?thesis by (intro conjI) simp_all
qed

end
